theory Spec2Isabelle
  imports Complex_Main
begin

section \<open>JavaScript values used by \<open>send_and_upload.js\<close>\<close>

subsection \<open>Strings\<close>

text \<open>
  A JavaScript string is a sequence of UTF-16 code units, and \<open>.length\<close>, the regular
  expressions (none has the \<open>u\<close> flag) and \<open>replace\<close> all work on code units. A string is
  therefore a list of code units, each a natural number; \<open>u\<close> turns an ASCII literal into
  such a list.
\<close>

type_synonym jsstring = "nat list"

definition u :: "string \<Rightarrow> jsstring" where
  "u s = map of_char s"

text \<open>\<open>Array.prototype.join\<close> on an array of strings.\<close>

fun join :: "jsstring \<Rightarrow> jsstring list \<Rightarrow> jsstring" where
  "join sep [] = []"
| "join sep [x] = x"
| "join sep (x # y # ys) = x @ sep @ join sep (y # ys)"

text \<open>\<open>s.startsWith(p)\<close>, and the rest of \<open>s\<close> after a prefix \<open>p\<close>.\<close>

fun strip_prefix :: "jsstring \<Rightarrow> jsstring \<Rightarrow> jsstring option" where
  "strip_prefix [] s = Some s"
| "strip_prefix (p # ps) [] = None"
| "strip_prefix (p # ps) (c # cs) = (if p = c then strip_prefix ps cs else None)"

text \<open>
  Matching under the \<open>i\<close> flag without the \<open>u\<close> flag: a code unit of 128 or more never
  canonicalises to an ASCII letter, so only the ASCII letters fold.
\<close>

definition lower :: "nat \<Rightarrow> nat" where
  "lower c = (if 65 \<le> c \<and> c \<le> 90 then c + 32 else c)"

fun strip_prefix_ci :: "jsstring \<Rightarrow> jsstring \<Rightarrow> jsstring option" where
  "strip_prefix_ci [] s = Some s"
| "strip_prefix_ci (p # ps) [] = None"
| "strip_prefix_ci (p # ps) (c # cs) =
     (if lower p = lower c then strip_prefix_ci ps cs else None)"

subsection \<open>Numbers\<close>

text \<open>
  A JavaScript number is an IEEE 754 binary64 value: \<open>NaN\<close>, an infinity, or a finite
  value. \<open>Fin x\<close> is the finite value that is exactly the rational \<open>x\<close>; every finite
  number the model builds comes out of \<open>round64\<close>, so \<open>x\<close> is a value binary64 has. The
  two zeros are one value here: the script never divides, and \<open>ToBoolean\<close>, the
  comparisons, \<open>+\<close> from \<open>0\<close> and \<open>String\<close> do not tell them apart.
\<close>

datatype jsnum = NaN | Fin rat | PInf | NInf

text \<open>\<open>ToBoolean\<close> on a number: \<open>NaN\<close>, \<open>+0\<close> and \<open>-0\<close> are falsy.\<close>

fun truthy_num :: "jsnum \<Rightarrow> bool" where
  "truthy_num NaN = False"
| "truthy_num (Fin x) = (x \<noteq> 0)"
| "truthy_num PInf = True"
| "truthy_num NInf = True"

text \<open>The relational operator \<open>a > b\<close> on numbers; it is false when either is \<open>NaN\<close>.\<close>

fun js_gt :: "jsnum \<Rightarrow> jsnum \<Rightarrow> bool" where
  "js_gt NaN b = False"
| "js_gt a NaN = False"
| "js_gt (Fin x) (Fin y) = (x > y)"
| "js_gt (Fin x) PInf = False"
| "js_gt (Fin x) NInf = True"
| "js_gt PInf PInf = False"
| "js_gt PInf b = True"
| "js_gt NInf b = False"

subsubsection \<open>Rounding to binary64\<close>

text \<open>
  \<open>ilog b n\<close> is the integer logarithm of \<open>n \<ge> 1\<close> to the base \<open>b\<close>, and
  \<open>floor_log b x\<close> the exponent \<open>k\<close> with \<open>b ^ k \<le> x < b ^ (k + 1)\<close> for a rational
  \<open>x > 0\<close>.
\<close>

function ilog :: "int \<Rightarrow> int \<Rightarrow> nat" where
  "ilog b n = (if b < 2 \<or> n < b then 0 else Suc (ilog b (n div b)))"
  by pat_completeness auto
termination
  by (relation "measure (\<lambda>(b, n). nat n)") (auto intro!: int_div_less_self)

declare ilog.simps [simp del]

definition floor_log :: "int \<Rightarrow> rat \<Rightarrow> int" where
  "floor_log b x =
     (if 1 \<le> x then int (ilog b \<lfloor>x\<rfloor>) else - int (Suc (ilog b (\<lceil>1 / x\<rceil> - 1))))"

text \<open>The nearest integer, a tie going to the even one.\<close>

definition round_half_even :: "rat \<Rightarrow> int" where
  "round_half_even x =
     (let f = \<lfloor>x\<rfloor>; d = x - of_int f
      in if d < 1 / 2 then f else if 1 / 2 < d then f + 1 else if even f then f else f + 1)"

text \<open>
  The binary64 value of a real number, rounding to nearest, ties to even. A value with
  \<open>2 ^ e \<le> \<bar>x\<bar> < 2 ^ (e + 1)\<close> is rounded to a multiple of \<open>2 ^ (e - 52)\<close> (53
  significant bits); below \<open>2 ^ - 1022\<close> the step stays \<open>2 ^ - 1074\<close> (the subnormal
  numbers, and 0 under half of that); a result of \<open>2 ^ 1024\<close> or more is an infinity.
\<close>

definition round64 :: "rat \<Rightarrow> jsnum" where
  "round64 x =
     (if x = 0 then Fin 0
      else
        (let e = max (floor_log 2 \<bar>x\<bar>) (- 1022);
             q = 2 powi (e - 52);
             r = of_int (round_half_even (\<bar>x\<bar> / q)) * q
         in if 2 powi 1024 \<le> r then (if x < 0 then NInf else PInf)
            else Fin (if x < 0 then - r else r)))"

text \<open>An integer as a number, and the operator \<open>a + b\<close> on numbers.\<close>

definition of_int_num :: "int \<Rightarrow> jsnum" where
  "of_int_num n = round64 (of_int n)"

fun js_add :: "jsnum \<Rightarrow> jsnum \<Rightarrow> jsnum" where
  "js_add NaN b = NaN"
| "js_add a NaN = NaN"
| "js_add (Fin x) (Fin y) = round64 (x + y)"
| "js_add (Fin x) b = b"
| "js_add a (Fin y) = a"
| "js_add PInf PInf = PInf"
| "js_add NInf NInf = NInf"
| "js_add PInf NInf = NaN"
| "js_add NInf PInf = NaN"

subsubsection \<open>\<open>Number(string)\<close>\<close>

text \<open>
  \<open>StringToNumber\<close> of ECMA-262: white space and line terminators are trimmed, the empty
  string is 0, and the rest must be a \<open>StrNumericLiteral\<close>: a signed decimal literal
  (\<open>Infinity\<close>, digits with an optional fraction and exponent) or an unsigned binary,
  octal or hexadecimal integer literal. Anything else is \<open>NaN\<close>. The number is the
  exact value of the literal rounded to binary64, as Node computes it (ECMA-262 lets an
  engine drop the digits after the twentieth significant one first).
\<close>

definition is_ws :: "nat \<Rightarrow> bool" where
  "is_ws c \<longleftrightarrow> c \<in> {9, 10, 11, 12, 13, 32, 160, 5760, 8232, 8233, 8239, 8287, 12288, 65279}
     \<or> (8192 \<le> c \<and> c \<le> 8202)"

definition trim :: "jsstring \<Rightarrow> jsstring" where
  "trim s = rev (dropWhile is_ws (rev (dropWhile is_ws s)))"

definition is_digit :: "nat \<Rightarrow> bool" where
  "is_digit c \<longleftrightarrow> 48 \<le> c \<and> c \<le> 57"

definition digit_val :: "nat \<Rightarrow> nat option" where
  "digit_val c =
     (if 48 \<le> c \<and> c \<le> 57 then Some (c - 48)
      else if 97 \<le> c \<and> c \<le> 102 then Some (c - 87)
      else if 65 \<le> c \<and> c \<le> 70 then Some (c - 55)
      else None)"

text \<open>The value of a digit string in a base, \<open>None\<close> when a code unit is not a digit of it.\<close>

fun radix_val :: "int \<Rightarrow> int \<Rightarrow> jsstring \<Rightarrow> int option" where
  "radix_val b acc [] = Some acc"
| "radix_val b acc (c # cs) =
     (case digit_val c of
        None \<Rightarrow> None
      | Some d \<Rightarrow> if int d < b then radix_val b (acc * b + int d) cs else None)"

definition radix_literal :: "int \<Rightarrow> jsstring \<Rightarrow> jsnum" where
  "radix_literal b ds =
     (if ds = [] then NaN
      else case radix_val b 0 ds of None \<Rightarrow> NaN | Some n \<Rightarrow> of_int_num n)"

text \<open>\<open>ExponentPart\<close>, or nothing: \<open>e\<close> or \<open>E\<close>, an optional sign, one digit or more.\<close>

definition exponent_part :: "jsstring \<Rightarrow> int option" where
  "exponent_part s =
     (case s of
        [] \<Rightarrow> Some 0
      | c # r \<Rightarrow>
          if c = 101 \<or> c = 69 then
            (let neg = (r \<noteq> [] \<and> hd r = 45);
                 ds = (if r \<noteq> [] \<and> (hd r = 43 \<or> hd r = 45) then tl r else r)
             in if ds = [] then None
                else case radix_val 10 0 ds of
                       None \<Rightarrow> None
                     | Some n \<Rightarrow> Some (if neg then - n else n))
          else None)"

text \<open>\<open>StrUnsignedDecimalLiteral\<close> apart from \<open>Infinity\<close>, as mantissa and decimal exponent.\<close>

definition unsigned_decimal :: "jsstring \<Rightarrow> (int \<times> int) option" where
  "unsigned_decimal s =
     (let ip = takeWhile is_digit s;
          r1 = dropWhile is_digit s;
          dot = (r1 \<noteq> [] \<and> hd r1 = 46);
          fp = (if dot then takeWhile is_digit (tl r1) else []);
          r2 = (if dot then dropWhile is_digit (tl r1) else r1)
      in if ip = [] \<and> fp = [] then None
         else case (radix_val 10 0 (ip @ fp), exponent_part r2) of
                (Some m, Some e) \<Rightarrow> Some (m, e - int (length fp))
              | _ \<Rightarrow> None)"

definition signed_decimal :: "jsstring \<Rightarrow> jsnum" where
  "signed_decimal s =
     (let neg = (s \<noteq> [] \<and> hd s = 45);
          r = (if s \<noteq> [] \<and> (hd s = 43 \<or> hd s = 45) then tl s else s)
      in if r = u ''Infinity'' then (if neg then NInf else PInf)
         else case unsigned_decimal r of
                None \<Rightarrow> NaN
              | Some (m, e) \<Rightarrow> round64 (of_int (if neg then - m else m) * 10 powi e))"

definition js_Number :: "jsstring \<Rightarrow> jsnum" where
  "js_Number str =
     (let s = trim str in
      if s = [] then Fin 0
      else if take 2 s = u ''0x'' \<or> take 2 s = u ''0X'' then radix_literal 16 (drop 2 s)
      else if take 2 s = u ''0o'' \<or> take 2 s = u ''0O'' then radix_literal 8 (drop 2 s)
      else if take 2 s = u ''0b'' \<or> take 2 s = u ''0B'' then radix_literal 2 (drop 2 s)
      else signed_decimal s)"

subsubsection \<open>\<open>String(number)\<close>\<close>

text \<open>The decimal digits of a natural number.\<close>

function dec_int :: "int \<Rightarrow> jsstring" where
  "dec_int n = (if n < 10 then [nat (48 + n)] else dec_int (n div 10) @ [nat (48 + n mod 10)])"
  by pat_completeness auto
termination
  by (relation "measure nat") auto

text \<open>A positive number without the zeros it ends with, the exponent counting them.\<close>

function strip_zeros :: "int \<Rightarrow> int \<Rightarrow> int \<times> int" where
  "strip_zeros n t =
     (if 0 < n \<and> n mod 10 = 0 then strip_zeros (n div 10) (t + 1) else (n, t))"
  by pat_completeness auto
termination
  by (relation "measure (\<lambda>(n, t). nat n)") auto

text \<open>
  \<open>Number::toString\<close> of ECMA-262 in radix 10 writes the fewest significant digits \<open>s\<close>,
  \<open>k\<close> of them, such that \<open>s * 10 ^ t\<close> is read back as the number, and among those the
  \<open>s\<close> nearest to it (the even one on a tie). For \<open>k\<close> digits the candidates are the two
  multiples of \<open>10 ^ t\<close> around the value; seventeen digits always suffice, so the search
  from \<open>k = 1\<close> ends there at the latest.
\<close>

definition reads_back :: "rat \<Rightarrow> int \<Rightarrow> int \<Rightarrow> bool" where
  "reads_back x s t \<longleftrightarrow> round64 (of_int s * 10 powi t) = Fin x"

definition digits_at :: "rat \<Rightarrow> int \<Rightarrow> (int \<times> int) option" where
  "digits_at x k =
     (let t = floor_log 10 x + 1 - k;
          y = x / 10 powi t;
          lo = \<lfloor>y\<rfloor>;
          hi = lo + 1;
          nearer_lo = (y - of_int lo < of_int hi - y \<or> (y - of_int lo = of_int hi - y \<and> even lo))
      in if reads_back x lo t \<and> (nearer_lo \<or> \<not> reads_back x hi t) then Some (lo, t)
         else if reads_back x hi t then Some (hi, t)
         else None)"

fun shortest :: "nat \<Rightarrow> int \<Rightarrow> rat \<Rightarrow> int \<times> int" where
  "shortest 0 k x = (\<lfloor>x / 10 powi (floor_log 10 x + 1 - k)\<rfloor>, floor_log 10 x + 1 - k)"
| "shortest (Suc fuel) k x =
     (case digits_at x k of Some r \<Rightarrow> r | None \<Rightarrow> shortest fuel (k + 1) x)"

text \<open>
  With the digits \<open>ds\<close> of \<open>s\<close> and the decimal point after the \<open>n\<close>-th of them: plain
  notation for \<open>- 6 < n \<le> 21\<close> and exponent notation beyond.
\<close>

definition pos_text :: "rat \<Rightarrow> jsstring" where
  "pos_text x =
     (let (s0, t0) = shortest 17 1 x;
          (s, t) = strip_zeros s0 t0;
          ds = dec_int s;
          k = int (length ds);
          n = k + t
      in if k \<le> n \<and> n \<le> 21 then ds @ replicate (nat (n - k)) 48
         else if 0 < n \<and> n \<le> 21 then take (nat n) ds @ [46] @ drop (nat n) ds
         else if - 6 < n \<and> n \<le> 0 then [48, 46] @ replicate (nat (- n)) 48 @ ds
         else (if k = 1 then ds else take 1 ds @ [46] @ drop 1 ds)
              @ [101] @ (if n - 1 < 0 then [45] else [43]) @ dec_int \<bar>n - 1\<bar>)"

fun num_text :: "jsnum \<Rightarrow> jsstring" where
  "num_text NaN = u ''NaN''"
| "num_text PInf = u ''Infinity''"
| "num_text NInf = u ''-Infinity''"
| "num_text (Fin x) =
     (if x = 0 then [48]
      else if x < 0 then [45] @ pos_text (- x)
      else pos_text x)"

definition int_text :: "int \<Rightarrow> jsstring" where
  "int_text n = num_text (of_int_num n)"

subsection \<open>\<open>decodeURIComponent\<close>\<close>

text \<open>An exception value: the error's \<open>name\<close> and its \<open>message\<close>.\<close>

datatype jserror = JsError (err_name: jsstring) (err_message: jsstring)

text \<open>
  \<open>Decode\<close> of ECMA-262 with an empty set of preserved escapes. First every
  \<open>%XX\<close> becomes a byte; a \<open>%\<close> not followed by two hexadecimal digits is a
  \<open>URIError\<close>.
\<close>

datatype token = Lit nat | Byte nat

fun pct_tokens :: "jsstring \<Rightarrow> token list option" where
  "pct_tokens [] = Some []"
| "pct_tokens (c # cs) =
     (if c \<noteq> 37 then map_option ((#) (Lit c)) (pct_tokens cs)
      else case cs of
             a # b # rest \<Rightarrow>
               (case (digit_val a, digit_val b) of
                  (Some x, Some y) \<Rightarrow> map_option ((#) (Byte (16 * x + y))) (pct_tokens rest)
                | _ \<Rightarrow> None)
           | _ \<Rightarrow> None)"

definition is_cont :: "nat \<Rightarrow> bool" where
  "is_cont b \<longleftrightarrow> 128 \<le> b \<and> b < 192"

text \<open>\<open>UTF16EncodeCodePoint\<close>.\<close>

definition utf16 :: "nat \<Rightarrow> jsstring" where
  "utf16 cp =
     (if cp < 65536 then [cp]
      else [55296 + (cp - 65536) div 1024, 56320 + (cp - 65536) mod 1024])"

text \<open>
  Then the bytes below 128 stand for themselves, and a byte of 128 or more must start a
  valid UTF-8 encoding of one code point, all of its bytes escaped: no continuation byte
  first, no overlong form, no surrogate, nothing above \<open>U+10FFFF\<close>.
\<close>

fun utf8_tokens :: "token list \<Rightarrow> jsstring option" where
  "utf8_tokens [] = Some []"
| "utf8_tokens (Lit c # ts) = map_option ((#) c) (utf8_tokens ts)"
| "utf8_tokens (Byte b # ts) =
     (if b < 128 then map_option ((#) b) (utf8_tokens ts)
      else if 192 \<le> b \<and> b < 224 then
        (case ts of
           Byte b1 # r \<Rightarrow>
             (let cp = (b - 192) * 64 + (b1 - 128)
              in if is_cont b1 \<and> 128 \<le> cp
                 then map_option ((@) (utf16 cp)) (utf8_tokens r) else None)
         | _ \<Rightarrow> None)
      else if 224 \<le> b \<and> b < 240 then
        (case ts of
           Byte b1 # Byte b2 # r \<Rightarrow>
             (let cp = (b - 224) * 4096 + (b1 - 128) * 64 + (b2 - 128)
              in if is_cont b1 \<and> is_cont b2 \<and> 2048 \<le> cp \<and> \<not> (55296 \<le> cp \<and> cp < 57344)
                 then map_option ((@) (utf16 cp)) (utf8_tokens r) else None)
         | _ \<Rightarrow> None)
      else if 240 \<le> b \<and> b < 248 then
        (case ts of
           Byte b1 # Byte b2 # Byte b3 # r \<Rightarrow>
             (let cp = (b - 240) * 262144 + (b1 - 128) * 4096 + (b2 - 128) * 64 + (b3 - 128)
              in if is_cont b1 \<and> is_cont b2 \<and> is_cont b3 \<and> 65536 \<le> cp \<and> cp < 1114112
                 then map_option ((@) (utf16 cp)) (utf8_tokens r) else None)
         | _ \<Rightarrow> None)
      else None)"

definition URIError :: jserror where
  "URIError = JsError (u ''URIError'') (u ''URI malformed'')"

definition decodeURIComponent :: "jsstring \<Rightarrow> jserror + jsstring" where
  "decodeURIComponent s =
     (case pct_tokens s of
        None \<Rightarrow> Inl URIError
      | Some ts \<Rightarrow> (case utf8_tokens ts of None \<Rightarrow> Inl URIError | Some r \<Rightarrow> Inr r))"

section \<open>The pure functions of the script\<close>

text \<open>
  \<^verbatim>\<open>function fileApiUrl(id) { return `https://pixeldrain.com/api/file/${id}`; }\<close>
  \<^verbatim>\<open>function folderApiUrl(id) { return `https://pixeldrain.com/api/list/${id}`; }\<close>
  \<^verbatim>\<open>function tgApiUrl(token, method='sendMessage') {\<close>
  \<^verbatim>\<open>  return `https://api.telegram.org/bot${token}/${method}`; }\<close>
\<close>

definition DEFAULT_MAX_BYTES :: jsnum where
  "DEFAULT_MAX_BYTES = Fin 1900000000"

definition fileApiUrl :: "jsstring \<Rightarrow> jsstring" where
  "fileApiUrl i = u ''https://pixeldrain.com/api/file/'' @ i"

definition folderApiUrl :: "jsstring \<Rightarrow> jsstring" where
  "folderApiUrl i = u ''https://pixeldrain.com/api/list/'' @ i"

definition tgApiUrl :: "jsstring \<Rightarrow> jsstring \<Rightarrow> jsstring" where
  "tgApiUrl token method = u ''https://api.telegram.org/bot'' @ token @ u ''/'' @ method"

text \<open>
  \<^verbatim>\<open>return String(s).replace(/([_*[\]()~`>#+\-=|{}.!\\])/g, '\\$1');\<close>
  Every code unit of the class gets a backslash (92) in front.
\<close>

definition md_special :: "nat \<Rightarrow> bool" where
  "md_special c \<longleftrightarrow> c \<in> set (u ''_*[]()~`>#+-=|{}.!'') \<or> c = 92"

fun escapeMarkdownV2 :: "jsstring \<Rightarrow> jsstring" where
  "escapeMarkdownV2 [] = []"
| "escapeMarkdownV2 (c # cs) =
     (if md_special c then 92 # c # escapeMarkdownV2 cs else c # escapeMarkdownV2 cs)"

subsection \<open>The link patterns\<close>

text \<open>
  \<^verbatim>\<open>/https?:\/\/(?:www\.)?pixeldrain\.com\/u\/([A-Za-z0-9_-]+)/i\<close> and the same with
  \<open>l\<close> for \<open>u\<close>. \<open>link.match(re)\<close> finds the leftmost position where the pattern
  matches; \<open>m[1]\<close> is the longest run of identifier characters there, which the pattern
  requires to be non-empty. The optional parts cannot be skipped when they are present
  (what follows them starts with another character), so matching at a position is a
  chain of prefix tests.
\<close>

definition is_id_char :: "nat \<Rightarrow> bool" where
  "is_id_char c \<longleftrightarrow>
     (65 \<le> c \<and> c \<le> 90) \<or> (97 \<le> c \<and> c \<le> 122) \<or> (48 \<le> c \<and> c \<le> 57) \<or> c = 95 \<or> c = 45"

definition opt_prefix_ci :: "jsstring \<Rightarrow> jsstring \<Rightarrow> jsstring" where
  "opt_prefix_ci p s = (case strip_prefix_ci p s of Some r \<Rightarrow> r | None \<Rightarrow> s)"

definition pixel_match_here :: "jsstring \<Rightarrow> jsstring \<Rightarrow> jsstring option" where
  "pixel_match_here kind s =
     (case strip_prefix_ci (u ''http'') s of
        None \<Rightarrow> None
      | Some r1 \<Rightarrow>
          (case strip_prefix_ci (u ''://'') (opt_prefix_ci (u ''s'') r1) of
             None \<Rightarrow> None
           | Some r2 \<Rightarrow>
               (case strip_prefix_ci (u ''pixeldrain.com/'' @ kind @ u ''/'')
                       (opt_prefix_ci (u ''www.'') r2) of
                  None \<Rightarrow> None
                | Some r3 \<Rightarrow>
                    if takeWhile is_id_char r3 = [] then None
                    else Some (takeWhile is_id_char r3))))"

fun pixel_match :: "jsstring \<Rightarrow> jsstring \<Rightarrow> jsstring option" where
  "pixel_match kind [] = None"
| "pixel_match kind (c # cs) =
     (case pixel_match_here kind (c # cs) of
        Some i \<Rightarrow> Some i
      | None \<Rightarrow> pixel_match kind cs)"

definition PIXEL_FILE_RE :: "jsstring \<Rightarrow> jsstring option" where
  "PIXEL_FILE_RE link = pixel_match (u ''u'') link"

definition PIXEL_FOLDER_RE :: "jsstring \<Rightarrow> jsstring option" where
  "PIXEL_FOLDER_RE link = pixel_match (u ''l'') link"

subsection \<open>The file name of a \<open>content-disposition\<close> header\<close>

text \<open>
  \<^verbatim>\<open>const m = cd.match(/filename\*=UTF-8''([^;]+)|filename="?([^"]+)"?/i);\<close>
  \<^verbatim>\<open>const raw = (m && (m[1] || m[2])) || null;\<close>
  At each position the first alternative is tried before the second. A group that
  matched is never empty, so \<open>raw\<close> is the group of the alternative that matched.
\<close>

definition cd_match_here :: "jsstring \<Rightarrow> jsstring option" where
  "cd_match_here s =
     (case (case strip_prefix_ci (u ''filename*=UTF-8'' @ [39, 39]) s of
              None \<Rightarrow> None
            | Some r \<Rightarrow> if takeWhile (\<lambda>c. c \<noteq> 59) r = [] then None
                        else Some (takeWhile (\<lambda>c. c \<noteq> 59) r)) of
        Some g \<Rightarrow> Some g
      | None \<Rightarrow>
          (case strip_prefix_ci (u ''filename='') s of
             None \<Rightarrow> None
           | Some r \<Rightarrow>
               (let r' = (if r \<noteq> [] \<and> hd r = 34 then tl r else r)
                in if takeWhile (\<lambda>c. c \<noteq> 34) r' = [] then None
                   else Some (takeWhile (\<lambda>c. c \<noteq> 34) r'))))"

fun cd_match :: "jsstring \<Rightarrow> jsstring option" where
  "cd_match [] = None"
| "cd_match (c # cs) =
     (case cd_match_here (c # cs) of
        Some g \<Rightarrow> Some g
      | None \<Rightarrow> cd_match cs)"

section \<open>The world outside the script\<close>

text \<open>
  The script talks to the messaging API and the file host (\<open>fetch\<close>), runs \<open>wget\<close>,
  \<open>zip\<close> and \<open>curl\<close> (\<open>spawnSync\<close>) and uses the local file system. Each call to the
  outside is recorded in a trace, in order; what the outside answers is given by a
  \<open>world\<close>, asked with the position the call takes in the trace, so that any sequence of
  answers is some world. The file system is part of the state: the regular files with
  their sizes, and the directories. What the script writes to the console is left out.
\<close>

datatype call =
    TgSend jsstring jsstring jsstring
  | Head jsstring
  | FetchList jsstring
  | Mkdtemp jsstring
  | Spawn jsstring "jsstring list" "jsstring option"

text \<open>The answer to the \<open>HEAD\<close> request: \<open>resp.ok\<close> and the two headers that are read.\<close>

record head_resp =
  h_ok :: bool
  content_disposition :: "jsstring option"
  content_length :: "jsstring option"

text \<open>
  A member of a folder listing, \<open>{id, name, size}\<close>: two strings, and a size that is a
  number (the one \<open>JSON.parse\<close> made of the literal) or is missing. The body of the listing response: \<open>resp.json()\<close> throws, or it gives a
  value whose \<open>files\<close> is an array of members (\<open>Some\<close>) or is not (\<open>None\<close>, also for a
  body that is \<open>null\<close>).
\<close>

record member =
  fid :: jsstring
  fname :: jsstring
  fsize :: "jsnum option"

record list_resp =
  l_ok :: bool
  l_status :: int
  l_body :: "jserror + member list option"

text \<open>
  What \<open>spawnSync\<close> returns: \<open>res.error\<close>, \<open>res.status\<close> (\<open>null\<close> when a signal ended
  the process), and the size of the output file the tool left behind, if it left one.
\<close>

record spawn_res =
  sp_error :: "jserror option"
  sp_status :: "int option"
  sp_wrote :: "nat option"

record world =
  os_tmpdir :: jsstring
  send_result :: "nat \<Rightarrow> jserror option"
  head_result :: "nat \<Rightarrow> head_resp option"
  list_result :: "nat \<Rightarrow> jserror + list_resp"
  mkdtemp_result :: "nat \<Rightarrow> jserror + jsstring"
  spawn_result :: "nat \<Rightarrow> spawn_res"

record state =
  trace :: "call list"
  files :: "(jsstring \<times> nat) list"
  dirs :: "jsstring list"

subsection \<open>Computations that may throw\<close>

datatype 'a outcome = Val 'a | Exc jserror

type_synonym 'a prog = "state \<Rightarrow> 'a outcome \<times> state"

definition ret :: "'a \<Rightarrow> 'a prog" where
  "ret x s = (Val x, s)"

definition throw :: "jserror \<Rightarrow> 'a prog" where
  "throw e s = (Exc e, s)"

definition bnd :: "'a prog \<Rightarrow> ('a \<Rightarrow> 'b prog) \<Rightarrow> 'b prog" where
  "bnd m f s = (case m s of (Val x, s') \<Rightarrow> f x s' | (Exc e, s') \<Rightarrow> (Exc e, s'))"

text \<open>\<^verbatim>\<open>try { m } catch {}\<close>\<close>

definition try_ignore :: "'a prog \<Rightarrow> unit prog" where
  "try_ignore m s = (Val (), snd (m s))"

text \<open>
  \<^verbatim>\<open>try { m } finally { c }\<close>: \<open>c\<close> runs however \<open>m\<close> ends, and the outcome is that of
  \<open>m\<close> unless \<open>c\<close> throws.
\<close>

definition try_finally :: "'a prog \<Rightarrow> unit prog \<Rightarrow> 'a prog" where
  "try_finally m c s =
     (case m s of
        (r, s') \<Rightarrow> (case c s' of (Val x, s'') \<Rightarrow> (r, s'') | (Exc e, s'') \<Rightarrow> (Exc e, s'')))"

text \<open>\<^verbatim>\<open>for (const x of xs) { await f(x); }\<close>\<close>

fun for_each :: "('a \<Rightarrow> unit prog) \<Rightarrow> 'a list \<Rightarrow> unit prog" where
  "for_each f [] = ret ()"
| "for_each f (x # xs) = bnd (f x) (\<lambda>_. for_each f xs)"

definition emit :: "call \<Rightarrow> state \<Rightarrow> state" where
  "emit c s = s\<lparr>trace := trace s @ [c]\<rparr>"

subsection \<open>Paths and the file system\<close>

text \<open>
  \<open>path.join(d, seg)\<close> on POSIX for a normalised absolute directory \<open>d\<close> and one segment
  without a slash, which is how the script calls it: an empty segment and \<open>.\<close> give \<open>d\<close>,
  \<open>..\<close> gives its parent.
\<close>

definition dirname :: "jsstring \<Rightarrow> jsstring" where
  "dirname d =
     (let p = rev (tl (dropWhile (\<lambda>c. c \<noteq> 47) (rev d))) in if p = [] then [47] else p)"

definition path_join :: "jsstring \<Rightarrow> jsstring \<Rightarrow> jsstring" where
  "path_join d seg =
     (if seg = [] \<or> seg = u ''.'' then d
      else if seg = u ''..'' then dirname d
      else if d = [47] then d @ seg
      else d @ [47] @ seg)"

definition ENOENT :: "jsstring \<Rightarrow> jsstring \<Rightarrow> jserror" where
  "ENOENT op path =
     JsError (u ''Error'')
       (u ''ENOENT: no such file or directory, '' @ op @ u '' '' @ [39] @ path @ [39])"

definition write_file :: "jsstring \<Rightarrow> nat \<Rightarrow> state \<Rightarrow> state" where
  "write_file p sz s = s\<lparr>files := (p, sz) # filter (\<lambda>(q, _). q \<noteq> p) (files s)\<rparr>"

text \<open>\<open>fs.statSync(p).size\<close>\<close>

definition statSync :: "jsstring \<Rightarrow> nat prog" where
  "statSync p s =
     (case map_of (files s) p of
        Some sz \<Rightarrow> (Val sz, s)
      | None \<Rightarrow> (Exc (ENOENT (u ''stat'') p), s))"

text \<open>\<open>fs.unlinkSync(p)\<close>\<close>

definition unlinkSync :: "jsstring \<Rightarrow> unit prog" where
  "unlinkSync p s =
     (case map_of (files s) p of
        Some sz \<Rightarrow> (Val (), s\<lparr>files := filter (\<lambda>(q, _). q \<noteq> p) (files s)\<rparr>)
      | None \<Rightarrow> (Exc (ENOENT (u ''unlink'') p), s))"

text \<open>\<open>fs.rmdirSync(d, { recursive: true })\<close>: the directory and all that is below it.\<close>

definition below :: "jsstring \<Rightarrow> jsstring \<Rightarrow> bool" where
  "below d p \<longleftrightarrow> p = d \<or> strip_prefix (d @ [47]) p \<noteq> None"

definition rmdirSync :: "jsstring \<Rightarrow> unit prog" where
  "rmdirSync d s =
     (if d \<in> set (dirs s) then
        (Val (), s\<lparr>files := filter (\<lambda>(q, _). \<not> below d q) (files s),
                   dirs := filter (\<lambda>q. \<not> below d q) (dirs s)\<rparr>)
      else (Exc (ENOENT (u ''rmdir'') d), s))"

text \<open>\<open>fs.mkdtempSync(prefix)\<close>: the prefix and six characters the system chooses.\<close>

definition mkdtempSync :: "world \<Rightarrow> jsstring \<Rightarrow> jsstring prog" where
  "mkdtempSync w prefix s =
     (let n = length (trace s); s1 = emit (Mkdtemp prefix) s in
      case mkdtemp_result w n of
        Inl e \<Rightarrow> (Exc e, s1)
      | Inr suffix \<Rightarrow> (Val (prefix @ suffix), s1\<lparr>dirs := (prefix @ suffix) # dirs s1\<rparr>))"

subsection \<open>The network and the external tools\<close>

text \<open>
  \<^verbatim>\<open>async function sendTelegramMessage(token, chat_id, text) {\<close>
  \<^verbatim>\<open>  const resp = await fetch(tgApiUrl(token, 'sendMessage'), { method: 'POST', ... });\<close>
  \<^verbatim>\<open>  const json = await resp.json();\<close>
  \<^verbatim>\<open>  if (!json.ok) { console.error('Telegram sendMessage failed:', json); }\<close>
  \<^verbatim>\<open>  return json; }\<close>
  It throws when \<open>fetch\<close> or \<open>resp.json()\<close> does; an answer that is not \<open>ok\<close> is only
  logged. No caller uses the value returned.
\<close>

definition sendTelegramMessage :: "world \<Rightarrow> jsstring \<Rightarrow> jsstring \<Rightarrow> jsstring \<Rightarrow> unit prog" where
  "sendTelegramMessage w token chat_id text s =
     (let n = length (trace s); s1 = emit (TgSend token chat_id text) s in
      case send_result w n of
        Some e \<Rightarrow> (Exc e, s1)
      | None \<Rightarrow> (Val (), s1))"

text \<open>
  \<^verbatim>\<open>async function headUrl(url) {\<close>
  \<^verbatim>\<open>  try { const resp = await fetch(url, { method: 'HEAD', redirect: 'follow' }); return resp; }\<close>
  \<^verbatim>\<open>  catch (e) { return null; } }\<close>
\<close>

definition headUrl :: "world \<Rightarrow> jsstring \<Rightarrow> head_resp option prog" where
  "headUrl w url s = (Val (head_result w (length (trace s))), emit (Head url) s)"

text \<open>\<^verbatim>\<open>const resp = await fetch(api);\<close>\<close>

definition fetch_list :: "world \<Rightarrow> jsstring \<Rightarrow> list_resp prog" where
  "fetch_list w url s =
     (let n = length (trace s); s1 = emit (FetchList url) s in
      case list_result w n of
        Inl e \<Rightarrow> (Exc e, s1)
      | Inr r \<Rightarrow> (Val r, s1))"

text \<open>
  The file an external tool writes: \<open>wget -c -O out url\<close> writes \<open>out\<close>, and
  \<open>zip -r archive .\<close> writes \<open>archive\<close>.
\<close>

definition cmd_target :: "jsstring \<Rightarrow> jsstring list \<Rightarrow> jsstring option" where
  "cmd_target cmd args =
     (if cmd = u ''wget'' then (case args of [a, b, out, url] \<Rightarrow> Some out | _ \<Rightarrow> None)
      else if cmd = u ''zip'' then (case args of [a, archive, b] \<Rightarrow> Some archive | _ \<Rightarrow> None)
      else None)"

definition spawnSync :: "world \<Rightarrow> jsstring \<Rightarrow> jsstring list \<Rightarrow> jsstring option \<Rightarrow> spawn_res prog" where
  "spawnSync w cmd args cwd s =
     (let res = spawn_result w (length (trace s)); s1 = emit (Spawn cmd args cwd) s in
      (Val res,
       case (cmd_target cmd args, sp_wrote res) of
         (Some p, Some sz) \<Rightarrow> write_file p sz s1
       | _ \<Rightarrow> s1))"

definition status_text :: "int option \<Rightarrow> jsstring" where
  "status_text st = (case st of None \<Rightarrow> u ''null'' | Some n \<Rightarrow> int_text n)"

text \<open>
  \<^verbatim>\<open>function runCmd(cmd, args, opts={}) {\<close>
  \<^verbatim>\<open>  const res = spawnSync(cmd, args, { stdio: 'inherit', ...opts });\<close>
  \<^verbatim>\<open>  if (res.error) throw res.error;\<close>
  \<^verbatim>\<open>  if (res.status !== 0) throw new Error(`${cmd} ${args.join(' ')} exited ${res.status}`);\<close>
  \<^verbatim>\<open>  return res; }\<close>
\<close>

definition runCmd :: "world \<Rightarrow> jsstring \<Rightarrow> jsstring list \<Rightarrow> jsstring option \<Rightarrow> unit prog" where
  "runCmd w cmd args cwd =
     bnd (spawnSync w cmd args cwd) (\<lambda>res.
       case sp_error res of
         Some e \<Rightarrow> throw e
       | None \<Rightarrow>
           if sp_status res \<noteq> Some 0 then
             throw (JsError (u ''Error'')
               (cmd @ u '' '' @ join (u '' '') args @ u '' exited '' @ status_text (sp_status res)))
           else ret ())"

text \<open>\<^verbatim>\<open>runCmd('wget', ['-c', '-O', outPath, url]);\<close>\<close>

definition downloadWithWget :: "world \<Rightarrow> jsstring \<Rightarrow> jsstring \<Rightarrow> unit prog" where
  "downloadWithWget w url outPath = runCmd w (u ''wget'') [u ''-c'', u ''-O'', outPath, url] None"

text \<open>
  \<^verbatim>\<open>async function uploadDocumentCurl(token, chat_id, filePath, caption='') {\<close>
  \<^verbatim>\<open>  const url = tgApiUrl(token, 'sendDocument');\<close>
  \<^verbatim>\<open>  const args = ['--silent', '--show-error', '--fail',\<close>
  \<^verbatim>\<open>    '--form', `chat_id=${chat_id}`, '--form', `document=@${filePath}`];\<close>
  \<^verbatim>\<open>  if (caption) args.push('--form', `caption=${caption}`);\<close>
  \<^verbatim>\<open>  const res = spawnSync('curl', args, { encoding: 'utf-8' });\<close>
  \<^verbatim>\<open>  if (res.error) throw res.error;\<close>
  \<^verbatim>\<open>  if (res.status !== 0) { ...; throw new Error(`curl exited with ${res.status}`); }\<close>
  \<^verbatim>\<open>  try { return JSON.parse(res.stdout || '{}'); } catch { return null; } }\<close>
  The arguments are those of the source: \<open>url\<close> is computed and is not among them. No
  caller uses the value returned.
\<close>

definition uploadDocumentCurl :: "world \<Rightarrow> jsstring \<Rightarrow> jsstring \<Rightarrow> jsstring \<Rightarrow> jsstring \<Rightarrow> unit prog" where
  "uploadDocumentCurl w token chat_id filePath caption =
     (let args = [u ''--silent'', u ''--show-error'', u ''--fail'',
                  u ''--form'', u ''chat_id='' @ chat_id,
                  u ''--form'', u ''document=@'' @ filePath]
                 @ (if caption \<noteq> [] then [u ''--form'', u ''caption='' @ caption] else [])
      in bnd (spawnSync w (u ''curl'') args None) (\<lambda>res.
           case sp_error res of
             Some e \<Rightarrow> throw e
           | None \<Rightarrow>
               if sp_status res \<noteq> Some 0 then
                 throw (JsError (u ''Error'') (u ''curl exited with '' @ status_text (sp_status res)))
               else ret ()))"

section \<open>Single files: \<open>handleFile\<close>\<close>

text \<open>
  The probe, lines 82 to 91 of the script:
  \<^verbatim>\<open>let filename = `pixeldrain-${fileId}`;\<close>
  \<^verbatim>\<open>let size = null;\<close>
  \<^verbatim>\<open>if (head && head.ok) {\<close>
  \<^verbatim>\<open>  const cd = head.headers.get('content-disposition') || '';\<close>
  \<^verbatim>\<open>  const m = cd.match(...);\<close>
  \<^verbatim>\<open>  const raw = (m && (m[1] || m[2])) || null;\<close>
  \<^verbatim>\<open>  if (raw) filename = decodeURIComponent(raw);\<close>
  \<^verbatim>\<open>  const len = head.headers.get('content-length');\<close>
  \<^verbatim>\<open>  if (len) size = Number(len);\<close>
  \<^verbatim>\<open>}\<close>
  \<open>decodeURIComponent\<close> may throw, and nothing here catches it.
\<close>

definition probe :: "jsstring \<Rightarrow> head_resp option \<Rightarrow> jserror + (jsstring \<times> jsnum option)" where
  "probe fileId head =
     (let filename = u ''pixeldrain-'' @ fileId in
      case head of
        None \<Rightarrow> Inr (filename, None)
      | Some h \<Rightarrow>
          if \<not> h_ok h then Inr (filename, None)
          else
            (let cd = (case content_disposition h of None \<Rightarrow> [] | Some c \<Rightarrow> c);
                 size' = (case content_length h of
                           None \<Rightarrow> None
                         | Some len \<Rightarrow> if len = [] then None else Some (js_Number len))
             in case cd_match cd of
                  None \<Rightarrow> Inr (filename, size')
                | Some raw \<Rightarrow>
                    (case decodeURIComponent raw of
                       Inl e \<Rightarrow> Inl e
                     | Inr decoded \<Rightarrow> Inr (decoded, size'))))"

text \<open>\<open>size && size > maxBytes\<close>: \<open>null\<close>, 0 and \<open>NaN\<close> are falsy.\<close>

definition too_large :: "jsnum option \<Rightarrow> jsnum \<Rightarrow> bool" where
  "too_large size' maxBytes =
     (case size' of None \<Rightarrow> False | Some n \<Rightarrow> truthy_num n \<and> js_gt n maxBytes)"

text \<open>The messages of \<open>handleFile\<close>, in the order of the source (lines 94 to 112).\<close>

definition msg_file_too_large :: "jsstring \<Rightarrow> jsnum \<Rightarrow> jsstring \<Rightarrow> jsstring" where
  "msg_file_too_large filename size' url =
     [10071] @ u '' File *'' @ escapeMarkdownV2 filename
     @ u ''* is too large to auto-upload ('' @ num_text size'
     @ u '' bytes). Here is the direct download URL:'' @ [10, 96, 96]
     @ escapeMarkdownV2 url @ [96, 96, 10, 10]
     @ u ''Use wget on your machine to download it.''"

definition msg_downloading :: "jsstring \<Rightarrow> jsstring" where
  "msg_downloading filename =
     [11015, 65039] @ u '' Downloading *'' @ escapeMarkdownV2 filename @ u ''*...''"

definition msg_after_download_too_large :: "jsstring \<Rightarrow> jsstring" where
  "msg_after_download_too_large url =
     [10071] @ u '' After download file exceeds max allowed size. Not uploading. Direct URL:''
     @ [10, 96, 96] @ escapeMarkdownV2 url @ [96, 96]"

definition msg_uploading :: "jsstring \<Rightarrow> jsstring" where
  "msg_uploading filename =
     [11014, 65039] @ u '' Uploading *'' @ escapeMarkdownV2 filename
     @ u ''* to Telegram (this may take a while)...''"

definition msg_uploaded :: "jsstring \<Rightarrow> jsstring" where
  "msg_uploaded filename =
     [9989] @ u '' Uploaded *'' @ escapeMarkdownV2 filename @ u ''* successfully.''"

text \<open>\<^verbatim>\<open>filename.replace(/\//g,'_')\<close>\<close>

definition replace_slash :: "jsstring \<Rightarrow> jsstring" where
  "replace_slash s = map (\<lambda>c. if c = 47 then 95 else c) s"

text \<open>
  Lines 99 to 117: the staging directory, the download, the second size check, the
  upload, and the cleanup in \<open>finally\<close>.
\<close>

definition stage_file ::
  "world \<Rightarrow> jsstring \<Rightarrow> jsstring \<Rightarrow> jsstring \<Rightarrow> jsstring \<Rightarrow> jsnum \<Rightarrow> unit prog" where
  "stage_file w token chat_id url filename maxBytes =
     bnd (mkdtempSync w (path_join (os_tmpdir w) (u ''pixeldrain-''))) (\<lambda>tmpDir.
       let outPath = path_join tmpDir (replace_slash filename) in
       try_finally
         (bnd (sendTelegramMessage w token chat_id (msg_downloading filename)) (\<lambda>_.
          bnd (downloadWithWget w url outPath) (\<lambda>_.
          bnd (statSync outPath) (\<lambda>stats_size.
            if js_gt (of_int_num (int stats_size)) maxBytes then
              sendTelegramMessage w token chat_id (msg_after_download_too_large url)
            else
              bnd (sendTelegramMessage w token chat_id (msg_uploading filename)) (\<lambda>_.
              bnd (uploadDocumentCurl w token chat_id outPath
                     (u ''Uploaded from Pixeldrain: '' @ filename)) (\<lambda>_.
              sendTelegramMessage w token chat_id (msg_uploaded filename)))))))
         (bnd (try_ignore (unlinkSync outPath)) (\<lambda>_. try_ignore (rmdirSync tmpDir))))"

definition handleFile :: "world \<Rightarrow> jsstring \<Rightarrow> jsstring \<Rightarrow> jsstring \<Rightarrow> jsnum \<Rightarrow> unit prog" where
  "handleFile w token chat_id fileId maxBytes =
     (let url = fileApiUrl fileId in
      bnd (headUrl w url) (\<lambda>head.
        case probe fileId head of
          Inl e \<Rightarrow> throw e
        | Inr (filename, size') \<Rightarrow>
            if too_large size' maxBytes then
              sendTelegramMessage w token chat_id
                (msg_file_too_large filename (the size') url)
            else stage_file w token chat_id url filename maxBytes))"

section \<open>Folders: \<open>handleFolder\<close>\<close>

text \<open>\<^verbatim>\<open>const totalBytes = json.files.reduce((s,f)=>s + (f.size || 0), 0);\<close>\<close>

text \<open>\<open>f.size || 0\<close>: a size that is missing, 0 or \<open>NaN\<close> counts as 0.\<close>

definition size_or_0 :: "member \<Rightarrow> jsnum" where
  "size_or_0 f = (case fsize f of None \<Rightarrow> Fin 0 | Some n \<Rightarrow> if truthy_num n then n else Fin 0)"

definition totalBytes :: "member list \<Rightarrow> jsnum" where
  "totalBytes fs = foldl (\<lambda>s f. js_add s (size_or_0 f)) (Fin 0) fs"

text \<open>
  Line 136, the line of a member:
  \<^verbatim>\<open>`- ${escapeMarkdownV2(f.name)} (${f.size || 'unknown'} bytes)\n\`\`${escapeMarkdownV2(fileApiUrl(f.id))}\`\``\<close>
\<close>

definition size_or_unknown :: "member \<Rightarrow> jsstring" where
  "size_or_unknown f =
     (case fsize f of
        None \<Rightarrow> u ''unknown''
      | Some n \<Rightarrow> if truthy_num n then num_text n else u ''unknown'')"

definition member_line :: "member \<Rightarrow> jsstring" where
  "member_line f =
     u ''- '' @ escapeMarkdownV2 (fname f) @ u '' ('' @ size_or_unknown f @ u '' bytes)''
     @ [10, 96, 96] @ escapeMarkdownV2 (fileApiUrl (fid f)) @ [96, 96]"

definition msg_folder_too_large :: "nat \<Rightarrow> jsnum \<Rightarrow> jsstring \<Rightarrow> jsstring" where
  "msg_folder_too_large n bytes preview =
     [10071] @ u '' Folder contains '' @ int_text (int n) @ u '' files, total size ''
     @ num_text bytes
     @ u '' bytes which is larger than allowed upload limit. Sending direct links instead:''
     @ [10, 10] @ preview @ [10, 10] @ u ''(Only first 20 shown)''"

text \<open>
  Lines 140 to 147, the loop over the lines; it returns the chunk that is left:
  \<^verbatim>\<open>let chunk = []; let curLen = 0;\<close>
  \<^verbatim>\<open>for (const line of lines) {\<close>
  \<^verbatim>\<open>  if (curLen + line.length > 3000) {\<close>
  \<^verbatim>\<open>    await sendTelegramMessage(token, chat_id, chunk.join('\n\n'));\<close>
  \<^verbatim>\<open>    chunk = [line]; curLen = line.length;\<close>
  \<^verbatim>\<open>  } else { chunk.push(line); curLen += line.length; }\<close>
  \<^verbatim>\<open>}\<close>
\<close>

fun chunk_loop ::
  "world \<Rightarrow> jsstring \<Rightarrow> jsstring \<Rightarrow> jsstring list \<Rightarrow> jsstring list \<Rightarrow> nat \<Rightarrow> jsstring list prog" where
  "chunk_loop w token chat_id [] chunk curLen = ret chunk"
| "chunk_loop w token chat_id (line # rest) chunk curLen =
     (if curLen + length line > 3000 then
        bnd (sendTelegramMessage w token chat_id (join [10, 10] chunk)) (\<lambda>_.
          chunk_loop w token chat_id rest [line] (length line))
      else chunk_loop w token chat_id rest (chunk @ [line]) (curLen + length line))"

text \<open>
  Lines 139 to 148, the loop from its initial state and the send that follows it:
  \<^verbatim>\<open>if (chunk.length) await sendTelegramMessage(token, chat_id, chunk.join('\n\n'));\<close>
\<close>

definition send_chunks :: "world \<Rightarrow> jsstring \<Rightarrow> jsstring \<Rightarrow> jsstring list \<Rightarrow> unit prog" where
  "send_chunks w token chat_id lines =
     bnd (chunk_loop w token chat_id lines [] 0) (\<lambda>chunk.
       if chunk \<noteq> [] then sendTelegramMessage w token chat_id (join [10, 10] chunk)
       else ret ())"

text \<open>Lines 134 to 149, the branch taken when the listed total is over the budget.\<close>

definition send_links :: "world \<Rightarrow> jsstring \<Rightarrow> jsstring \<Rightarrow> member list \<Rightarrow> unit prog" where
  "send_links w token chat_id fs =
     (let lines = map member_line fs;
          preview = join [10, 10] (take 20 lines)
      in bnd (sendTelegramMessage w token chat_id
                (msg_folder_too_large (length fs) (totalBytes fs) preview)) (\<lambda>_.
           send_chunks w token chat_id lines))"

text \<open>\<^verbatim>\<open>f.name.replace(/[\/\\]/g, '_')\<close>\<close>

definition safe_name :: "jsstring \<Rightarrow> jsstring" where
  "safe_name s = map (\<lambda>c. if c = 47 \<or> c = 92 then 95 else c) s"

definition msg_zip_too_large :: "nat \<Rightarrow> jsstring" where
  "msg_zip_too_large sz =
     [10071] @ u '' Zip archive size '' @ int_text (int sz)
     @ u '' bytes exceeds the allowed upload size. Sending direct links instead.''"

text \<open>
  Line 171: \<^verbatim>\<open>`${escapeMarkdownV2(f.name)} \<close>\<open>\<emdash>\<close>\<^verbatim>\<open> \`\`${escapeMarkdownV2(fileApiUrl(f.id))}\`\``\<close>
\<close>

definition member_link :: "member \<Rightarrow> jsstring" where
  "member_link f =
     escapeMarkdownV2 (fname f) @ [32, 8212, 32, 96, 96]
     @ escapeMarkdownV2 (fileApiUrl (fid f)) @ [96, 96]"

text \<open>Lines 153 to 184: download every member, zip, check the archive, upload.\<close>

definition stage_folder ::
  "world \<Rightarrow> jsstring \<Rightarrow> jsstring \<Rightarrow> jsstring \<Rightarrow> jsnum \<Rightarrow> member list \<Rightarrow> unit prog" where
  "stage_folder w token chat_id folderId maxBytes fs =
     bnd (mkdtempSync w (path_join (os_tmpdir w) (u ''pixeldrain-''))) (\<lambda>tmpDir.
       try_finally
         (bnd (sendTelegramMessage w token chat_id
                 ([11015, 65039] @ u '' Downloading '' @ int_text (int (length fs))
                  @ u '' file(s) and preparing zip...'')) (\<lambda>_.
          bnd (for_each (\<lambda>f. downloadWithWget w (fileApiUrl (fid f))
                               (path_join tmpDir (safe_name (fname f)))) fs) (\<lambda>_.
          let zipPath = path_join (os_tmpdir w) (u ''pixeldrain-folder-'' @ folderId @ u ''.zip'') in
          bnd (runCmd w (u ''zip'') [u ''-r'', zipPath, u ''.''] (Some tmpDir)) (\<lambda>_.
          bnd (statSync zipPath) (\<lambda>stats_size.
            if js_gt (of_int_num (int stats_size)) maxBytes then
              bnd (sendTelegramMessage w token chat_id (msg_zip_too_large stats_size)) (\<lambda>_.
                for_each (\<lambda>f. sendTelegramMessage w token chat_id (member_link f)) fs)
            else
              bnd (sendTelegramMessage w token chat_id
                     ([11014, 65039] @ u '' Uploading zip ('' @ int_text (int stats_size)
                      @ u '' bytes) to Telegram...'')) (\<lambda>_.
              bnd (uploadDocumentCurl w token chat_id zipPath
                     (u ''Pixeldrain folder '' @ folderId)) (\<lambda>_.
              bnd (sendTelegramMessage w token chat_id
                     ([9989] @ u '' Folder uploaded as zip.'')) (\<lambda>_.
              try_ignore (unlinkSync zipPath)))))))))
         (try_ignore (rmdirSync tmpDir)))"

definition handleFolder :: "world \<Rightarrow> jsstring \<Rightarrow> jsstring \<Rightarrow> jsstring \<Rightarrow> jsnum \<Rightarrow> unit prog" where
  "handleFolder w token chat_id folderId maxBytes =
     bnd (fetch_list w (folderApiUrl folderId)) (\<lambda>resp.
       if \<not> l_ok resp then
         sendTelegramMessage w token chat_id
           (u ''Failed to read folder '' @ folderId @ u '': HTTP '' @ int_text (l_status resp))
       else
         case l_body resp of
           Inl e \<Rightarrow> throw e
         | Inr json \<Rightarrow>
             (case json of
                None \<Rightarrow>
                  sendTelegramMessage w token chat_id
                    (u ''Folder appears empty or returned no files.'')
              | Some fs \<Rightarrow>
                  if fs = [] then
                    sendTelegramMessage w token chat_id
                      (u ''Folder appears empty or returned no files.'')
                  else if js_gt (totalBytes fs) maxBytes then
                    send_links w token chat_id fs
                  else stage_folder w token chat_id folderId maxBytes fs))"

section \<open>The entry point\<close>

text \<open>The four environment variables; \<open>None\<close> is a variable that is not set.\<close>

record env =
  PIXEL_LINK :: "jsstring option"
  TELEGRAM_BOT_TOKEN :: "jsstring option"
  TELEGRAM_CHAT_ID :: "jsstring option"
  MAX_UPLOAD_BYTES :: "jsstring option"

text \<open>\<open>!v\<close> for a variable: it is not set, or it is the empty string.\<close>

definition missing :: "jsstring option \<Rightarrow> bool" where
  "missing v \<longleftrightarrow> v = None \<or> v = Some []"

definition Error :: "string \<Rightarrow> jserror" where
  "Error m = JsError (u ''Error'') (u m)"

text \<open>
  \<^verbatim>\<open>const maxBytes = process.env.MAX_UPLOAD_BYTES\<close>
  \<^verbatim>\<open>  ? Number(process.env.MAX_UPLOAD_BYTES) : DEFAULT_MAX_BYTES;\<close>
\<close>

definition max_bytes :: "env \<Rightarrow> jsnum" where
  "max_bytes e =
     (if missing (MAX_UPLOAD_BYTES e) then DEFAULT_MAX_BYTES
      else js_Number (the (MAX_UPLOAD_BYTES e)))"

text \<open>The body of the \<open>try\<close> block, lines 189 to 211.\<close>

definition main_body :: "env \<Rightarrow> world \<Rightarrow> unit prog" where
  "main_body e w =
     (if missing (PIXEL_LINK e) then throw (Error ''PIXEL_LINK environment variable missing'')
      else if missing (TELEGRAM_BOT_TOKEN e)
        then throw (Error ''TELEGRAM_BOT_TOKEN environment variable missing'')
      else if missing (TELEGRAM_CHAT_ID e)
        then throw (Error ''TELEGRAM_CHAT_ID environment variable missing'')
      else
        (let link = the (PIXEL_LINK e);
             token = the (TELEGRAM_BOT_TOKEN e);
             chat_id = the (TELEGRAM_CHAT_ID e)
         in bnd (sendTelegramMessage w token chat_id
                   ([55357, 56960] @ u '' Received Pixeldrain link, starting process...'')) (\<lambda>_.
              case PIXEL_FILE_RE link of
                Some fileId \<Rightarrow> handleFile w token chat_id fileId (max_bytes e)
              | None \<Rightarrow>
                  (case PIXEL_FOLDER_RE link of
                     Some folderId \<Rightarrow> handleFolder w token chat_id folderId (max_bytes e)
                   | None \<Rightarrow> throw (Error ''No pixeldrain link found in PIXEL_LINK.'')))))"

text \<open>
  \<open>String(err.message || err)\<close>: the message, or for an empty message what
  \<open>Error.prototype.toString\<close> gives, which is then the name.
\<close>

definition error_text :: "jserror \<Rightarrow> jsstring" where
  "error_text err = (if err_message err \<noteq> [] then err_message err else err_name err)"

definition msg_error :: "jserror \<Rightarrow> jsstring" where
  "msg_error err =
     [10060] @ u '' Error in upload script: '' @ escapeMarkdownV2 (error_text err)"

text \<open>
  The \<open>catch\<close> block, lines 212 to 222: one notification when both credentials are set,
  whatever it throws is ignored, and \<open>process.exit(1)\<close>. A run that does not reach the
  \<open>catch\<close> block ends with the exit code 0.
\<close>

record result =
  exit_code :: nat
  final :: state

definition main :: "env \<Rightarrow> world \<Rightarrow> state \<Rightarrow> result" where
  "main e w s =
     (case main_body e w s of
        (Val x, s') \<Rightarrow> \<lparr>exit_code = 0, final = s'\<rparr>
      | (Exc err, s') \<Rightarrow>
          \<lparr>exit_code = 1,
           final =
             (if \<not> missing (TELEGRAM_BOT_TOKEN e) \<and> \<not> missing (TELEGRAM_CHAT_ID e) then
                snd (try_ignore
                       (sendTelegramMessage w (the (TELEGRAM_BOT_TOKEN e))
                          (the (TELEGRAM_CHAT_ID e)) (msg_error err)) s')
              else s')\<rparr>)"

section \<open>Notions used to state the properties\<close>

text \<open>
  \<open>emits P m\<close>: whatever the state and the world's answers, \<open>m\<close> only appends calls to
  the trace, and every call it appends satisfies \<open>P\<close>.
\<close>

definition emits :: "(call \<Rightarrow> bool) \<Rightarrow> 'a prog \<Rightarrow> bool" where
  "emits P m \<longleftrightarrow> (\<forall>s. \<exists>evs. trace (snd (m s)) = trace s @ evs \<and> list_all P evs)"

text \<open>A call that is a notification.\<close>

definition is_send :: "call \<Rightarrow> bool" where
  "is_send c = (case c of TgSend a b t \<Rightarrow> True | _ \<Rightarrow> False)"

text \<open>
  The calls whose failure the script does not catch: a notification, the listing
  request or the JSON body of its answer, \<open>mkdtempSync\<close>, and an external tool that
  cannot be started or ends with a status other than 0. \<open>headUrl\<close> catches its own.
\<close>

fun failed :: "world \<Rightarrow> nat \<Rightarrow> call \<Rightarrow> bool" where
  "failed w n (TgSend token chat_id text) = (send_result w n \<noteq> None)"
| "failed w n (Head url) = False"
| "failed w n (FetchList url) =
     (case list_result w n of Inl e \<Rightarrow> True | Inr r \<Rightarrow> l_ok r \<and> isl (l_body r))"
| "failed w n (Mkdtemp prefix) = isl (mkdtemp_result w n)"
| "failed w n (Spawn cmd args cwd) =
     (sp_error (spawn_result w n) \<noteq> None \<or> sp_status (spawn_result w n) \<noteq> Some 0)"

text \<open>No call of the trace from position \<open>k\<close> on has failed.\<close>

definition ok_from :: "world \<Rightarrow> nat \<Rightarrow> call list \<Rightarrow> bool" where
  "ok_from w k tr \<longleftrightarrow> (\<forall>n. k \<le> n \<and> n < length tr \<longrightarrow> \<not> failed w n (tr ! n))"

text \<open>
  \<open>clean w m\<close>: when \<open>m\<close> returns normally, none of the calls it made has failed.
  \<open>silent m\<close>: \<open>m\<close> makes no call.
\<close>

definition clean :: "world \<Rightarrow> 'a prog \<Rightarrow> bool" where
  "clean w m \<longleftrightarrow>
     (\<forall>s x s' k. m s = (Val x, s') \<longrightarrow> ok_from w k (trace s) \<longrightarrow> ok_from w k (trace s'))"

definition silent :: "'a prog \<Rightarrow> bool" where
  "silent m \<longleftrightarrow> (\<forall>s. trace (snd (m s)) = trace s)"

text \<open>
  \<open>calls_succeed w\<close>: in the world \<open>w\<close> no notification throws, every staging directory is
  created, and every external tool ends with the status 0 and leaves the file it was
  asked to write. \<open>returns m\<close>: \<open>m\<close> returns normally from every state.
\<close>

definition calls_succeed :: "world \<Rightarrow> bool" where
  "calls_succeed w \<longleftrightarrow>
     (\<forall>n. send_result w n = None \<and> \<not> isl (mkdtemp_result w n)
        \<and> sp_error (spawn_result w n) = None \<and> sp_status (spawn_result w n) = Some 0
        \<and> sp_wrote (spawn_result w n) \<noteq> None)"

definition returns :: "'a prog \<Rightarrow> bool" where
  "returns m \<longleftrightarrow> (\<forall>s. \<exists>x s'. m s = (Val x, s'))"

text \<open>
  The groups of lines the loop of lines 140 to 148 sends, the last one being the chunk
  that is left when it is not empty. Defined by the recursion of \<open>chunk_loop\<close>, without
  the sending.
\<close>

fun chunks :: "jsstring list \<Rightarrow> jsstring list \<Rightarrow> nat \<Rightarrow> jsstring list list" where
  "chunks [] chunk curLen = (if chunk \<noteq> [] then [chunk] else [])"
| "chunks (line # rest) chunk curLen =
     (if curLen + length line > 3000 then chunk # chunks rest [line] (length line)
      else chunks rest (chunk @ [line]) (curLen + length line))"

text \<open>
  How MarkdownV2 reads an escaped text: a backslash stands for the character after it.
\<close>

fun unescape :: "jsstring \<Rightarrow> jsstring" where
  "unescape [] = []"
| "unescape [c] = [c]"
| "unescape (c # d # cs) = (if c = 92 then d # unescape cs else c # unescape (d # cs))"

subsection \<open>Names for the calls and the messages of the script\<close>

text \<open>
  The calls \<open>downloadWithWget\<close>, \<open>runCmd('zip', ...)\<close> and \<open>uploadDocumentCurl\<close> make, the
  paths they are given, and the messages that \<open>handleFolder\<close> and the entry point
  write inline.
\<close>

definition wget_call :: "jsstring \<Rightarrow> jsstring \<Rightarrow> call" where
  "wget_call url outPath = Spawn (u ''wget'') [u ''-c'', u ''-O'', outPath, url] None"

definition tmp_prefix :: "world \<Rightarrow> jsstring" where
  "tmp_prefix w = path_join (os_tmpdir w) (u ''pixeldrain-'')"

definition zip_path :: "world \<Rightarrow> jsstring \<Rightarrow> jsstring" where
  "zip_path w folderId = path_join (os_tmpdir w) (u ''pixeldrain-folder-'' @ folderId @ u ''.zip'')"

definition zip_call :: "world \<Rightarrow> jsstring \<Rightarrow> jsstring \<Rightarrow> call" where
  "zip_call w folderId tmpDir =
     Spawn (u ''zip'') [u ''-r'', zip_path w folderId, u ''.''] (Some tmpDir)"

definition member_download :: "jsstring \<Rightarrow> member \<Rightarrow> call" where
  "member_download tmpDir f =
     wget_call (fileApiUrl (fid f)) (path_join tmpDir (safe_name (fname f)))"

definition curl_call :: "jsstring \<Rightarrow> jsstring \<Rightarrow> jsstring \<Rightarrow> call" where
  "curl_call chat_id filePath caption =
     Spawn (u ''curl'')
       [u ''--silent'', u ''--show-error'', u ''--fail'', u ''--form'', u ''chat_id='' @ chat_id,
        u ''--form'', u ''document=@'' @ filePath, u ''--form'', u ''caption='' @ caption] None"

definition msg_downloading_folder :: "nat \<Rightarrow> jsstring" where
  "msg_downloading_folder n =
     [11015, 65039] @ u '' Downloading '' @ int_text (int n) @ u '' file(s) and preparing zip...''"

definition msg_uploading_zip :: "nat \<Rightarrow> jsstring" where
  "msg_uploading_zip sz =
     [11014, 65039] @ u '' Uploading zip ('' @ int_text (int sz) @ u '' bytes) to Telegram...''"

definition msg_start :: jsstring where
  "msg_start = [55357, 56960] @ u '' Received Pixeldrain link, starting process...''"

definition msg_http_error :: "jsstring \<Rightarrow> int \<Rightarrow> jsstring" where
  "msg_http_error folderId status =
     u ''Failed to read folder '' @ folderId @ u '': HTTP '' @ int_text status"

definition msg_empty_folder :: jsstring where
  "msg_empty_folder = u ''Folder appears empty or returned no files.''"

definition no_link_error :: jserror where
  "no_link_error = Error ''No pixeldrain link found in PIXEL_LINK.''"

subsection \<open>Concrete runs\<close>

text \<open>
  An empty initial state, and a world where the probe fails, the listing cannot be
  fetched, and everything else succeeds; the examples below change it field by field.
\<close>

definition s_init :: state where
  "s_init = \<lparr>trace = [], files = [], dirs = []\<rparr>"

definition w_quiet :: world where
  "w_quiet = \<lparr>os_tmpdir = u ''/tmp'', send_result = (\<lambda>_. None), head_result = (\<lambda>_. None),
     list_result = (\<lambda>_. Inl (JsError (u ''TypeError'') (u ''fetch failed''))),
     mkdtemp_result = (\<lambda>_. Inr (u ''AbCdEf'')),
     spawn_result = (\<lambda>_. \<lparr>sp_error = None, sp_status = Some 0, sp_wrote = Some 10\<rparr>)\<rparr>"

text \<open>
  Three answers to the probe: a file of 5000 bytes with a name, a file named \<open>100%.txt\<close>
  with no length, and a length of \<open>0\<close>.
\<close>

definition h_big :: head_resp where
  "h_big = \<lparr>h_ok = True, content_disposition = Some (u ''attachment; filename=report.pdf''),
     content_length = Some (u ''5000'')\<rparr>"

definition h_percent :: head_resp where
  "h_percent = \<lparr>h_ok = True, content_disposition = Some (u ''attachment; filename=100%.txt''),
     content_length = None\<rparr>"


text \<open>Lists of lines: two of 1500 code units, one of 5000, three of 1500.\<close>

definition two_halves :: "jsstring list" where
  "two_halves = [replicate 1500 120, replicate 1500 120]"

definition one_long :: "jsstring list" where
  "one_long = [replicate 5000 120]"

definition three_lines :: "jsstring list" where
  "three_lines = [replicate 1500 120, replicate 1500 121, replicate 1500 122]"

text \<open>Folder listings, and the world that answers the listing request with one.\<close>

definition three_files :: "member list" where
  "three_files = [\<lparr>fid = u ''a1'', fname = u ''a.txt'', fsize = Some (Fin 600)\<rparr>,
                  \<lparr>fid = u ''b2'', fname = u ''b.txt'', fsize = None\<rparr>,
                  \<lparr>fid = u ''c3'', fname = u ''c.txt'', fsize = Some (Fin 500)\<rparr>]"

definition one_file :: "member list" where
  "one_file = [\<lparr>fid = u ''a1'', fname = u ''a.txt'', fsize = Some (Fin 600)\<rparr>]"

definition w_listing :: "member list \<Rightarrow> world" where
  "w_listing fs = w_quiet\<lparr>list_result :=
     (\<lambda>_. Inr \<lparr>l_ok = True, l_status = 200, l_body = Inr (Some fs)\<rparr>)\<rparr>"

text \<open>
  A folder of one file of 600 bytes whose archive comes out at 1200 bytes, and the same
  folder with an archive of 600 bytes and \<open>curl\<close> ending with status 2. The listing is
  call 0, the staging directory 1, the progress notification 2, \<open>wget\<close> 3, \<open>zip\<close> 4,
  and on the upload path the notification 5 and \<open>curl\<close> 6.
\<close>

definition w_zip_big :: world where
  "w_zip_big = (w_listing one_file)\<lparr>spawn_result :=
     (\<lambda>n. \<lparr>sp_error = None, sp_status = Some 0, sp_wrote = Some (if n = 4 then 1200 else 600)\<rparr>)\<rparr>"

definition w_curl_fails :: world where
  "w_curl_fails = (w_listing one_file)\<lparr>spawn_result :=
     (\<lambda>n. \<lparr>sp_error = None, sp_status = Some (if n = 6 then 2 else 0),
            sp_wrote = (if n = 6 then None else Some 600)\<rparr>)\<rparr>"

text \<open>
  A world whose listing request is answered with the status 404, and one where every
  notification throws. Environments: a link that is no Pixeldrain link, a folder link,
  and the first one without the bot token.
\<close>

definition w_404 :: world where
  "w_404 = w_quiet\<lparr>list_result := (\<lambda>_. Inr \<lparr>l_ok = False, l_status = 404, l_body = Inr None\<rparr>)\<rparr>"

definition w_mute :: world where
  "w_mute = w_quiet\<lparr>send_result := \<lambda>_. Some URIError\<rparr>"

definition e_hello :: env where
  "e_hello = \<lparr>PIXEL_LINK = Some (u ''hello''), TELEGRAM_BOT_TOKEN = Some (u ''T''),
     TELEGRAM_CHAT_ID = Some (u ''42''), MAX_UPLOAD_BYTES = None\<rparr>"

definition e_folder :: env where
  "e_folder = \<lparr>PIXEL_LINK = Some (u ''https://pixeldrain.com/l/F1''),
     TELEGRAM_BOT_TOKEN = Some (u ''T''), TELEGRAM_CHAT_ID = Some (u ''42''),
     MAX_UPLOAD_BYTES = None\<rparr>"

definition e_no_token :: env where
  "e_no_token = e_hello\<lparr>TELEGRAM_BOT_TOKEN := None\<rparr>"

text \<open>
  A file link, and the file link and the folder link with a budget of 1000 bytes; the
  worlds that answer the probe with \<open>h_big\<close> and with \<open>h_percent\<close>.
\<close>

definition e_file :: env where
  "e_file = e_folder\<lparr>PIXEL_LINK := Some (u ''https://pixeldrain.com/u/abc'')\<rparr>"

definition e_file_1000 :: env where
  "e_file_1000 = e_file\<lparr>MAX_UPLOAD_BYTES := Some (u ''1000'')\<rparr>"

definition e_folder_1000 :: env where
  "e_folder_1000 = e_folder\<lparr>MAX_UPLOAD_BYTES := Some (u ''1000'')\<rparr>"

definition w_big :: world where
  "w_big = w_quiet\<lparr>head_result := \<lambda>_. Some h_big\<rparr>"

definition w_percent :: world where
  "w_percent = w_quiet\<lparr>head_result := \<lambda>_. Some h_percent\<rparr>"

section \<open>Numbers\<close>

text \<open>The two logarithms are the exponents they are meant to be.\<close>

lemma ilog_bounds:
  "2 \<le> b \<Longrightarrow> 1 \<le> n \<Longrightarrow> b ^ ilog b n \<le> n \<and> n < b ^ Suc (ilog b n)"
proof (induction b n rule: ilog.induct)
  case (1 b n)
  show ?case
  proof (cases "n < b")
    case True
    with 1 show ?thesis by (simp add: ilog.simps [of b n])
  next
    case False
    define m where "m = n div b"
    define k where "k = ilog b m"
    from False 1(2) have "0 < n div b" by (simp add: pos_imp_zdiv_pos_iff)
    then have m1: "1 \<le> m" unfolding m_def by simp
    from 1(1) [OF _ 1(2)] False 1(2) m1 have ih: "b ^ k \<le> m" "m < b * b ^ k"
      by (simp_all add: m_def k_def)
    have il: "ilog b n = Suc k"
      using False 1(2) by (simp add: ilog.simps [of b n] m_def k_def)
    have n: "n = b * m + n mod b" by (simp add: m_def)
    have md: "0 \<le> n mod b" "n mod b < b" using 1(2) by simp_all
    have a: "b * b ^ k \<le> b * m" using ih(1) 1(2) by (simp add: mult_left_mono)
    have "m + 1 \<le> b * b ^ k" using ih(2) by simp
    then have "b * (m + 1) \<le> b * (b * b ^ k)" using 1(2) by (simp add: mult_left_mono)
    then have b: "b * m + b \<le> b * (b * b ^ k)" by (simp add: algebra_simps)
    have "b * b ^ k \<le> n" using a n md by linarith
    moreover have "n < b * (b * b ^ k)" using b n md by linarith
    ultimately show ?thesis by (simp add: il)
  qed
qed

lemma floor_log_bounds:
  assumes b: "2 \<le> b" and x: "0 < x"
  shows "of_int b powi floor_log b x \<le> x" and "x < of_int b powi (floor_log b x + 1)"
proof -
  have bpos: "(0::rat) < of_int b" using b by simp
  show "of_int b powi floor_log b x \<le> x" "x < of_int b powi (floor_log b x + 1)"
  proof -
    consider "1 \<le> x" | "x < 1" by linarith
    then have "of_int b powi floor_log b x \<le> x \<and> x < of_int b powi (floor_log b x + 1)"
    proof cases
      case 1
      define n where "n = \<lfloor>x\<rfloor>"
      define k where "k = ilog b n"
      have n1: "1 \<le> n" using 1 by (simp add: n_def le_floor_iff)
      from ilog_bounds [OF b n1] have ib: "b ^ k \<le> n" "n < b ^ Suc k" by (simp_all add: k_def)
      have fl: "floor_log b x = int k" using 1 by (simp add: floor_log_def n_def k_def)
      have "(of_int (b ^ k) :: rat) \<le> of_int n" using ib(1) by (simp only: of_int_le_iff)
      also have "\<dots> \<le> x" by (simp add: n_def)
      finally have lo: "(of_int b :: rat) ^ k \<le> x" by simp
      have "n + 1 \<le> b ^ Suc k" using ib(2) by simp
      then have "(of_int (n + 1) :: rat) \<le> of_int (b ^ Suc k)" by (simp only: of_int_le_iff)
      moreover have "x < of_int (n + 1)" using floor_correct [of x] by (simp add: n_def)
      ultimately have hi: "x < (of_int b :: rat) ^ Suc k" by simp
      have "int k + 1 = int (Suc k)" by simp
      with lo hi show ?thesis by (simp only: fl power_int_of_nat)
    next
      case 2
      define c where "c = \<lceil>1 / x\<rceil>"
      define j where "j = ilog b (c - 1)"
      have y1: "1 < 1 / x" using x 2 by simp
      then have c2: "1 \<le> c - 1" unfolding c_def by (simp add: less_ceiling_iff)
      from ilog_bounds [OF b c2] have ib: "b ^ j \<le> c - 1" "c - 1 < b ^ Suc j" by (simp_all add: j_def)
      have fl: "floor_log b x = - int (Suc j)" using 2 by (simp add: floor_log_def c_def j_def)
      have "1 / x \<le> of_int c" by (simp add: c_def)
      moreover have "c \<le> b ^ Suc j" using ib(2) by simp
      then have "(of_int c :: rat) \<le> of_int (b ^ Suc j)" by (simp only: of_int_le_iff)
      ultimately have "1 / x \<le> (of_int b :: rat) ^ Suc j" by simp
      then have lo: "1 / (of_int b :: rat) ^ Suc j \<le> x"
        using x bpos by (simp add: field_simps)
      have "(of_int (c - 1) :: rat) < 1 / x" unfolding c_def by linarith
      moreover have "(of_int (b ^ j) :: rat) \<le> of_int (c - 1)" using ib(1) by (simp only: of_int_le_iff)
      ultimately have "(of_int b :: rat) ^ j < 1 / x" by simp
      then have hi: "x < 1 / (of_int b :: rat) ^ j"
        using x bpos by (simp add: field_simps)
      have e1: "of_int b powi (- int (Suc j)) = 1 / (of_int b :: rat) ^ Suc j"
        by (simp only: power_int_minus power_int_of_nat inverse_eq_divide)
      have "- int (Suc j) + 1 = - int j" by simp
      then have e2: "of_int b powi (- int (Suc j) + 1) = 1 / (of_int b :: rat) ^ j"
        by (simp only: power_int_minus power_int_of_nat inverse_eq_divide)
      from lo hi show ?thesis by (simp only: fl e1 e2)
    qed
    then show "of_int b powi floor_log b x \<le> x" "x < of_int b powi (floor_log b x + 1)" by simp_all
  qed
qed

lemma floor_log_eq:
  assumes b: "2 \<le> b" and lo: "of_int b powi k \<le> x" and hi: "x < of_int b powi (k + 1)"
  shows "floor_log b x = k"
proof -
  have b1: "(1::rat) < of_int b" using b by simp
  have "(0::rat) < of_int b powi k" using b1 by (simp add: power_int_def)
  with lo have x: "0 < x" by simp
  note fb = floor_log_bounds [OF b x]
  have "of_int b powi floor_log b x < (of_int b :: rat) powi (k + 1)" using fb(1) hi by simp
  then have a: "floor_log b x < k + 1"
    using power_int_increasing [of "k + 1" "floor_log b x" "of_int b :: rat"] b1 by force
  have "of_int b powi k < (of_int b :: rat) powi (floor_log b x + 1)" using fb(2) lo by simp
  then have "k < floor_log b x + 1"
    using power_int_increasing [of "floor_log b x + 1" k "of_int b :: rat"] b1 by force
  with a show ?thesis by simp
qed

text \<open>Rounding an integer, and rounding from an integer upwards.\<close>

lemma round_half_even_int: "round_half_even (of_int k) = k"
  by (simp add: round_half_even_def)

lemma round_half_even_ge:
  assumes "of_int k \<le> x"
  shows "k \<le> round_half_even x"
proof -
  from assms have "k \<le> \<lfloor>x\<rfloor>" by (simp add: le_floor_iff)
  then show ?thesis by (simp add: round_half_even_def Let_def)
qed

text \<open>
  The integers up to \<open>2 ^ 53\<close> in absolute value are binary64 values: \<open>round64\<close> leaves
  them as they are, so they are added exactly as long as the sum stays in that range.
\<close>

lemma floor_log2_bounds:
  assumes "0 < x"
  shows "2 powi floor_log 2 x \<le> x" and "x < 2 powi (floor_log 2 x + 1)"
  using floor_log_bounds [of 2 x] assms by simp_all

lemma round64_int:
  assumes "\<bar>n\<bar> \<le> 9007199254740992"
  shows "round64 (of_int n) = Fin (of_int n)"
proof (cases "n = 0")
  case True
  then show ?thesis by (simp add: round64_def)
next
  case False
  define a :: rat where "a = of_int \<bar>n\<bar>"
  define e where "e = floor_log 2 a"
  define q :: rat where "q = 2 powi (e - 52)"
  have "1 \<le> \<bar>n\<bar>" using False by simp
  then have a1: "1 \<le> a" unfolding a_def by (simp only: of_int_1_le_iff)
  have a53: "a \<le> 2 powi 53" using assms unfolding a_def by (simp flip: of_int_abs)
  have e0: "0 \<le> e" using a1 by (simp add: e_def floor_log_def)
  have lo: "2 powi e \<le> a" unfolding e_def using a1 by (intro floor_log2_bounds) simp
  have e53: "e \<le> 53"
    using power_int_le_imp_le_exp [of "2::rat" e 53] lo a53 by simp
  have qpos: "0 < q" by (simp add: q_def)
  have ex: "\<exists>k. a / q = of_int k"
  proof (cases "e \<le> 52")
    case True
    have "1 / q = 2 powi (52 - e)"
      unfolding q_def using power_int_minus [of "2::rat" "e - 52"] by (simp add: inverse_eq_divide)
    also have "\<dots> = 2 ^ nat (52 - e)" using True by (simp add: power_int_def)
    finally have "1 / q = 2 ^ nat (52 - e)" .
    moreover have "a / q = a * (1 / q)" by simp
    ultimately have "a / q = of_int (\<bar>n\<bar> * 2 ^ nat (52 - e))"
      by (simp only: a_def of_int_mult of_int_power of_int_numeral)
    then show ?thesis by blast
  next
    case False
    with e53 have e: "e = 53" by simp
    with lo a53 have "a = 2 powi 53" by simp
    then have "a / q = of_int 4503599627370496" by (simp add: q_def e)
    then show ?thesis by blast
  qed
  then obtain k where k: "a / q = of_int k" by blast
  have r: "of_int (round_half_even (a / q)) * q = a"
    using qpos by (simp add: k [symmetric] round_half_even_int [of k, folded k])
  have small: "\<not> 2 powi 1024 \<le> a" using a53 by simp
  have abs: "\<bar>of_int n :: rat\<bar> = a" by (simp add: a_def)
  have me: "max e (- 1022) = e" using e0 by simp
  have "round64 (of_int n) = Fin (if (of_int n :: rat) < 0 then - a else a)"
    unfolding round64_def abs Let_def e_def [symmetric] me q_def [symmetric] r
    using False small by simp
  also have "(if (of_int n :: rat) < 0 then - a else a) = of_int n"
    by (simp add: a_def)
  finally show ?thesis .
qed

lemma round64_numeral:
  "numeral k \<le> (9007199254740992::int) \<Longrightarrow> round64 (numeral k) = Fin (numeral k)"
  using round64_int [of "numeral k"] by simp

lemma of_int_num_exact: "\<bar>n\<bar> \<le> 9007199254740992 \<Longrightarrow> of_int_num n = Fin (of_int n)"
  by (simp add: of_int_num_def round64_int)

lemma of_nat_num_exact: "n \<le> 9007199254740992 \<Longrightarrow> of_int_num (int n) = Fin (of_nat n)"
  using of_int_num_exact [of "int n"] by simp

lemma js_add_exact:
  "\<bar>a + b\<bar> \<le> 9007199254740992 \<Longrightarrow> js_add (Fin (of_int a)) (Fin (of_int b)) = Fin (of_int (a + b))"
  using round64_int [of "a + b"] by simp

text \<open>A value of \<open>2 ^ 1024\<close> or more becomes \<open>Infinity\<close>.\<close>

lemma round64_overflow:
  assumes "2 powi 1024 \<le> x"
  shows "round64 x = PInf"
proof -
  define e where "e = floor_log 2 x"
  define q :: rat where "q = 2 powi (e - 52)"
  have "(0::rat) < 2 powi 1024" by simp
  with assms have x: "0 < x" by linarith
  note fb = floor_log2_bounds [OF x, folded e_def]
  have e: "1024 \<le> e"
  proof (rule ccontr)
    assume "\<not> 1024 \<le> e"
    then have "e + 1 \<le> 1024" by simp
    then have "(2::rat) powi (e + 1) \<le> 2 powi 1024" by (intro power_int_increasing) simp_all
    with fb(2) assms show False by linarith
  qed
  have qpos: "0 < q" by (simp add: q_def)
  have split: "(2::rat) powi e = 2 powi 52 * q"
    unfolding q_def using power_int_add [of "2::rat" 52 "e - 52"] by simp
  have "of_int 4503599627370496 * q \<le> x" using fb(1) by (simp add: split)
  then have "of_int 4503599627370496 \<le> x / q" using qpos by (simp add: field_simps)
  from round_half_even_ge [OF this] have "(of_int 4503599627370496 :: rat) \<le> of_int (round_half_even (x / q))"
    by (simp only: of_int_le_iff)
  then have "of_int 4503599627370496 * q \<le> of_int (round_half_even (x / q)) * q"
    using qpos by (simp only: mult_le_cancel_right_pos)
  then have "2 powi e \<le> of_int (round_half_even (x / q)) * q" by (simp add: split)
  moreover have "(2::rat) powi 1024 \<le> 2 powi e" using e by (intro power_int_increasing) simp_all
  ultimately have big: "2 powi 1024 \<le> of_int (round_half_even (x / q)) * q" by linarith
  have abs: "\<bar>x\<bar> = x" using x by simp
  have me: "max e (- 1022) = e" using e by simp
  show ?thesis
    unfolding round64_def abs Let_def e_def [symmetric] me q_def [symmetric]
    using x big by simp
qed

text \<open>
  Beyond \<open>2 ^ 53\<close> the numbers are rounded as the script rounds them: \<open>2 ^ 53 + 1\<close> is
  halfway between two binary64 values and becomes the even one, \<open>2 ^ 53\<close>, and \<open>1e400\<close>
  is \<open>Infinity\<close>. \<open>String\<close> of 5000 is \<open>5000\<close>: one significant digit is enough to
  read the number back, and three zeros follow it.
\<close>

lemma round64_tie: "round64 9007199254740993 = Fin 9007199254740992"
proof -
  have fl: "floor_log 2 (9007199254740993::rat) = 53"
    by (rule floor_log_eq) simp_all
  have f: "\<lfloor>9007199254740993 / 2 :: rat\<rfloor> = 4503599627370496"
    by (rule floor_unique) simp_all
  show ?thesis
    by (simp add: round64_def fl round_half_even_def Let_def f)
qed

lemma js_Number_rounds: "js_Number (u ''9007199254740993'') = Fin 9007199254740992"
  by (simp add: u_def js_Number_def trim_def is_ws_def signed_decimal_def unsigned_decimal_def
      is_digit_def exponent_part_def digit_val_def round64_tie)

lemma js_Number_overflows: "js_Number (u ''1e400'') = PInf"
proof -
  have "js_Number (u ''1e400'') = round64 (10 ^ 400)"
    by (simp add: u_def js_Number_def trim_def is_ws_def signed_decimal_def unsigned_decimal_def
      is_digit_def exponent_part_def digit_val_def)
  also have "\<dots> = PInf" by (rule round64_overflow) simp
  finally show ?thesis .
qed

lemma floor_log10_5000: "floor_log 10 (5000::rat) = 3"
  by (rule floor_log_eq) simp_all

lemma num_text_5000: "num_text (Fin 5000) = u ''5000''"
proof -
  have rb: "reads_back 5000 5 3" by (simp add: reads_back_def round64_numeral)
  have d: "digits_at 5000 1 = Some (5, 3)"
    by (simp add: digits_at_def floor_log10_5000 Let_def rb)
  have s: "shortest 17 1 5000 = (5, 3)"
    by (simp add: numeral_nat d)
  have z: "strip_zeros 5 3 = (5, 3)" by (simp add: strip_zeros.simps [of 5 3])
  have dg: "dec_int 5 = [53]" by (simp add: dec_int.simps [of 5])
  show ?thesis
    by (simp add: pos_text_def s z dg u_def numeral_3_eq_3)
qed

lemma of_int_num_numeral:
  "numeral k \<le> (9007199254740992::int) \<Longrightarrow> of_int_num (numeral k) = Fin (numeral k)"
  using of_int_num_exact [of "numeral k"] by simp

section \<open>The calls a computation makes\<close>

lemma trace_emit: "trace (emit c s) = trace s @ [c]" "files (emit c s) = files s" "dirs (emit c s) = dirs s"
  by (simp_all add: emit_def)

lemma emitsI: "(\<And>s. \<exists>evs. trace (snd (m s)) = trace s @ evs \<and> list_all P evs) \<Longrightarrow> emits P m"
  by (simp add: emits_def)

lemma emitsD: "emits P m \<Longrightarrow> \<exists>evs. trace (snd (m s)) = trace s @ evs \<and> list_all P evs"
  by (simp add: emits_def)

lemma emits_ret: "emits P (ret x)"
  by (simp add: emits_def ret_def)

lemma emits_throw: "emits P (throw e)"
  by (simp add: emits_def throw_def)

lemma emits_bnd:
  assumes "emits P m" and "\<And>x. emits P (f x)"
  shows "emits P (bnd m f)"
proof (rule emitsI)
  fix s
  obtain r s1 where ms: "m s = (r, s1)" by (cases "m s")
  from emitsD [OF assms(1), of s] ms obtain e1 where
    e1: "trace s1 = trace s @ e1" "list_all P e1" by auto
  show "\<exists>evs. trace (snd (bnd m f s)) = trace s @ evs \<and> list_all P evs"
  proof (cases r)
    case (Val x)
    from emitsD [OF assms(2), of x s1] obtain e2 where
      "trace (snd (f x s1)) = trace s1 @ e2" "list_all P e2" by auto
    with e1 Val ms show ?thesis
      by (intro exI [of _ "e1 @ e2"]) (simp add: bnd_def)
  next
    case (Exc e)
    with e1 ms show ?thesis
      by (intro exI [of _ e1]) (simp add: bnd_def)
  qed
qed

lemma emits_try_ignore: "emits P m \<Longrightarrow> emits P (try_ignore m)"
  by (simp add: emits_def try_ignore_def)

lemma emits_try_finally:
  assumes "emits P m" and "emits P c"
  shows "emits P (try_finally m c)"
proof (rule emitsI)
  fix s
  obtain r s1 where ms: "m s = (r, s1)" by (cases "m s")
  obtain r2 s2 where cs: "c s1 = (r2, s2)" by (cases "c s1")
  from emitsD [OF assms(1), of s] ms obtain e1 where
    e1: "trace s1 = trace s @ e1" "list_all P e1" by auto
  from emitsD [OF assms(2), of s1] cs obtain e2 where
    e2: "trace s2 = trace s1 @ e2" "list_all P e2" by auto
  have "snd (try_finally m c s) = s2"
    using ms cs by (cases r2) (simp_all add: try_finally_def)
  with e1 e2 show "\<exists>evs. trace (snd (try_finally m c s)) = trace s @ evs \<and> list_all P evs"
    by (intro exI [of _ "e1 @ e2"]) simp
qed

lemma emits_for_each: "(\<And>x. emits P (f x)) \<Longrightarrow> emits P (for_each f xs)"
  by (induction xs) (simp_all add: emits_ret emits_bnd)

lemma emits_if: "emits P a \<Longrightarrow> emits P b \<Longrightarrow> emits P (if c then a else b)"
  by simp

lemma emits_send: "P (TgSend token chat_id text) \<Longrightarrow> emits P (sendTelegramMessage w token chat_id text)"
  by (rule emitsI) (simp add: sendTelegramMessage_def Let_def trace_emit split: option.splits)

lemma emits_head: "P (Head url) \<Longrightarrow> emits P (headUrl w url)"
  by (rule emitsI) (simp add: headUrl_def trace_emit)

lemma emits_fetch_list: "P (FetchList url) \<Longrightarrow> emits P (fetch_list w url)"
  by (rule emitsI) (simp add: fetch_list_def Let_def trace_emit split: sum.splits)

lemma emits_mkdtemp: "P (Mkdtemp p) \<Longrightarrow> emits P (mkdtempSync w p)"
  by (rule emitsI) (simp add: mkdtempSync_def Let_def trace_emit split: sum.splits)

lemma trace_write_file: "trace (write_file p sz s) = trace s"
  by (simp add: write_file_def)

lemma emits_spawn: "P (Spawn cmd args cwd) \<Longrightarrow> emits P (spawnSync w cmd args cwd)"
  by (rule emitsI) (simp add: spawnSync_def Let_def trace_emit trace_write_file split: option.splits)

lemma emits_stat: "emits P (statSync p)"
  by (rule emitsI) (simp add: statSync_def split: option.splits)

lemma emits_unlink: "emits P (unlinkSync p)"
  by (rule emitsI) (simp add: unlinkSync_def split: option.splits)

lemma emits_rmdir: "emits P (rmdirSync p)"
  by (rule emitsI) (simp add: rmdirSync_def)

lemma emits_runCmd: "P (Spawn cmd args cwd) \<Longrightarrow> emits P (runCmd w cmd args cwd)"
  unfolding runCmd_def
  by (intro emits_bnd emits_spawn) (simp_all add: emits_throw emits_ret split: option.splits)

lemma emits_upload:
  "(\<And>args. P (Spawn (u ''curl'') args None)) \<Longrightarrow> emits P (uploadDocumentCurl w token chat_id p caption)"
  unfolding uploadDocumentCurl_def Let_def
  by (intro emits_bnd emits_spawn) (simp_all add: emits_throw emits_ret split: option.splits)

lemma emits_chunk_loop:
  "(\<And>text. P (TgSend token chat_id text)) \<Longrightarrow> emits P (chunk_loop w token chat_id lines chunk curLen)"
  by (induction lines arbitrary: chunk curLen) (simp_all add: emits_ret emits_bnd emits_send)

lemma emits_send_chunks:
  "(\<And>text. P (TgSend token chat_id text)) \<Longrightarrow> emits P (send_chunks w token chat_id lines)"
  unfolding send_chunks_def
  by (intro emits_bnd emits_chunk_loop) (simp_all add: emits_send emits_ret)

lemma emits_send_links:
  "(\<And>text. P (TgSend token chat_id text)) \<Longrightarrow> emits P (send_links w token chat_id fs)"
  unfolding send_links_def Let_def
  by (intro emits_bnd emits_send emits_send_chunks) simp_all

lemma emits_stage_file: "emits (\<lambda>c. True) (stage_file w token chat_id url filename maxBytes)"
  unfolding stage_file_def Let_def downloadWithWget_def
  by (intro emits_bnd emits_try_finally emits_mkdtemp emits_send emits_runCmd emits_stat
      emits_if emits_upload emits_try_ignore emits_unlink emits_rmdir) simp_all

lemma emits_stage_folder: "emits (\<lambda>c. True) (stage_folder w token chat_id folderId maxBytes fs)"
  unfolding stage_folder_def Let_def downloadWithWget_def
  by (intro emits_bnd emits_try_finally emits_mkdtemp emits_send emits_runCmd emits_stat
      emits_if emits_upload emits_try_ignore emits_unlink emits_rmdir emits_for_each) simp_all

section \<open>Single steps of a run\<close>

lemma send_ok: "send_result w (length (trace s)) = None \<Longrightarrow>
  sendTelegramMessage w token chat_id text s = (Val (), emit (TgSend token chat_id text) s)"
  by (simp add: sendTelegramMessage_def Let_def)

lemma send_snd: "snd (sendTelegramMessage w token chat_id text s) = emit (TgSend token chat_id text) s"
  by (simp add: sendTelegramMessage_def Let_def split: option.splits)

lemma mkdtemp_ok: "mkdtemp_result w (length (trace s)) = Inr suffix \<Longrightarrow>
  mkdtempSync w prefix s = (Val (prefix @ suffix), (emit (Mkdtemp prefix) s)\<lparr>dirs := (prefix @ suffix) # dirs s\<rparr>)"
  by (simp add: mkdtempSync_def Let_def trace_emit)

lemma runCmd_ok:
  assumes "sp_error (spawn_result w (length (trace s))) = None"
    and "sp_status (spawn_result w (length (trace s))) = Some 0"
  shows "runCmd w cmd args cwd s =
    (Val (), case (cmd_target cmd args, sp_wrote (spawn_result w (length (trace s)))) of
         (Some p, Some sz) \<Rightarrow> write_file p sz (emit (Spawn cmd args cwd) s)
       | _ \<Rightarrow> emit (Spawn cmd args cwd) s)"
  using assms by (simp add: runCmd_def bnd_def spawnSync_def Let_def ret_def)

lemma wget_target: "cmd_target (u ''wget'') [a, b, out, url] = Some out"
  by (simp add: cmd_target_def)

lemma wget_ok:
  assumes "sp_error (spawn_result w (length (trace s))) = None"
    and "sp_status (spawn_result w (length (trace s))) = Some 0"
    and "sp_wrote (spawn_result w (length (trace s))) = Some sz"
  shows "downloadWithWget w url outPath s =
    (Val (), write_file outPath sz (emit (Spawn (u ''wget'') [u ''-c'', u ''-O'', outPath, url] None) s))"
  using assms by (simp add: downloadWithWget_def runCmd_ok wget_target)

lemma stat_written: "statSync p (write_file p sz s) = (Val sz, write_file p sz s)"
  by (simp add: statSync_def write_file_def)

lemma cleanup_file:
  "\<exists>r. try_finally m (bnd (try_ignore (unlinkSync outPath)) (\<lambda>_. try_ignore (rmdirSync tmpDir))) s
     = (fst (m s), snd (try_ignore (rmdirSync tmpDir) (snd (try_ignore (unlinkSync outPath) (snd (m s))))))"
  by (cases "m s") (simp add: try_finally_def bnd_def try_ignore_def)

section \<open>Single files\<close>

lemma unescape_escape: "unescape (escapeMarkdownV2 s) = s"
proof (induction s)
  case Nil
  show ?case by simp
next
  case (Cons c cs)
  show ?case
  proof (cases "md_special c")
    case True
    with Cons show ?thesis by simp
  next
    case False
    then have "c \<noteq> 92" by (auto simp add: md_special_def)
    with False Cons show ?thesis
      by (cases "escapeMarkdownV2 cs") simp_all
  qed
qed

lemma stage_file_too_large_after:
  fixes w s token chat_id url filename maxBytes suffix sz
  defines "n \<equiv> length (trace s)"
  defines "prefix \<equiv> path_join (os_tmpdir w) (u ''pixeldrain-'')"
  defines "outPath \<equiv> path_join (prefix @ suffix) (replace_slash filename)"
  assumes mk: "mkdtemp_result w n = Inr suffix"
    and s1: "send_result w (n + 1) = None"
    and sp: "sp_error (spawn_result w (n + 2)) = None" "sp_status (spawn_result w (n + 2)) = Some 0"
       "sp_wrote (spawn_result w (n + 2)) = Some sz"
    and big: "js_gt (of_int_num (int sz)) maxBytes"
  shows "trace (snd (stage_file w token chat_id url filename maxBytes s)) =
           trace s @ [Mkdtemp prefix, TgSend token chat_id (msg_downloading filename),
              Spawn (u ''wget'') [u ''-c'', u ''-O'', outPath, url] None,
              TgSend token chat_id (msg_after_download_too_large url)]"
    and "outPath \<notin> fst ` set (files (snd (stage_file w token chat_id url filename maxBytes s)))"
    and "prefix @ suffix \<notin> set (dirs (snd (stage_file w token chat_id url filename maxBytes s)))"
proof -
  define s1 where "s1 = (emit (Mkdtemp prefix) s)\<lparr>dirs := (prefix @ suffix) # dirs s\<rparr>"
  define s2 where "s2 = emit (TgSend token chat_id (msg_downloading filename)) s1"
  define s3 where "s3 = write_file outPath sz (emit (Spawn (u ''wget'') [u ''-c'', u ''-O'', outPath, url] None) s2)"
  define s4 where "s4 = emit (TgSend token chat_id (msg_after_download_too_large url)) s3"
  have t1: "trace s1 = trace s @ [Mkdtemp prefix]" by (simp add: s1_def trace_emit)
  have t2: "trace s2 = trace s1 @ [TgSend token chat_id (msg_downloading filename)]" by (simp add: s2_def trace_emit)
  have e1: "mkdtempSync w prefix s = (Val (prefix @ suffix), s1)"
    using mk by (simp add: mkdtemp_ok n_def s1_def)
  have e2: "sendTelegramMessage w token chat_id (msg_downloading filename) s1 = (Val (), s2)"
    using s1 by (simp add: send_ok t1 n_def s2_def)
  have e3: "downloadWithWget w url outPath s2 = (Val (), s3)"
    using sp by (simp add: wget_ok t1 t2 n_def s3_def)
  have e4: "statSync outPath s3 = (Val sz, s3)"
    by (simp add: s3_def stat_written)
  have e5: "snd (sendTelegramMessage w token chat_id (msg_after_download_too_large url) s3) = s4"
    by (simp add: send_snd s4_def)
  let ?body = "bnd (sendTelegramMessage w token chat_id (msg_downloading filename)) (\<lambda>_.
          bnd (downloadWithWget w url outPath) (\<lambda>_.
          bnd (statSync outPath) (\<lambda>stats_size.
            if js_gt (of_int_num (int stats_size)) maxBytes then
              sendTelegramMessage w token chat_id (msg_after_download_too_large url)
            else
              bnd (sendTelegramMessage w token chat_id (msg_uploading filename)) (\<lambda>_.
              bnd (uploadDocumentCurl w token chat_id outPath
                     (u ''Uploaded from Pixeldrain: '' @ filename)) (\<lambda>_.
              sendTelegramMessage w token chat_id (msg_uploaded filename))))))"
  have body: "snd (?body s1) = s4"
    using e5 big by (simp add: bnd_def e2 e3 e4)
  have unf: "stage_file w token chat_id url filename maxBytes s =
      try_finally ?body (bnd (try_ignore (unlinkSync outPath)) (\<lambda>_. try_ignore (rmdirSync (prefix @ suffix)))) s1"
    unfolding stage_file_def outPath_def prefix_def Let_def
    by (subst bnd_def) (simp add: e1 [unfolded prefix_def])
  have fin: "snd (stage_file w token chat_id url filename maxBytes s) =
      snd (try_ignore (rmdirSync (prefix @ suffix)) (snd (try_ignore (unlinkSync outPath) s4)))"
    using cleanup_file [of ?body outPath "prefix @ suffix" s1] body
    by (simp add: unf)
  have in_dirs: "prefix @ suffix \<in> set (dirs s4)"
    by (simp add: s4_def s3_def s2_def s1_def trace_emit write_file_def)
  have in_files: "map_of (files s4) outPath = Some sz"
    by (simp add: s4_def s3_def trace_emit write_file_def)
  show "trace (snd (stage_file w token chat_id url filename maxBytes s)) =
           trace s @ [Mkdtemp prefix, TgSend token chat_id (msg_downloading filename),
              Spawn (u ''wget'') [u ''-c'', u ''-O'', outPath, url] None,
              TgSend token chat_id (msg_after_download_too_large url)]"
    using in_dirs in_files
    by (simp add: fin try_ignore_def unlinkSync_def rmdirSync_def s4_def s3_def s2_def s1_def trace_emit trace_write_file)
  show "outPath \<notin> fst ` set (files (snd (stage_file w token chat_id url filename maxBytes s)))"
    using in_dirs in_files
    by (auto simp add: fin try_ignore_def unlinkSync_def rmdirSync_def)
  show "prefix @ suffix \<notin> set (dirs (snd (stage_file w token chat_id url filename maxBytes s)))"
    using in_dirs in_files
    by (auto simp add: fin try_ignore_def unlinkSync_def rmdirSync_def below_def)
qed

lemma cleanup_file_trace:
  "trace (snd (try_finally m (bnd (try_ignore (unlinkSync outPath)) (\<lambda>_. try_ignore (rmdirSync tmpDir))) s))
     = trace (snd (m s))"
proof -
  have "\<And>p t. trace (snd (try_ignore (unlinkSync p) t)) = trace t"
    by (simp add: try_ignore_def unlinkSync_def split: option.splits)
  moreover have "\<And>p t. trace (snd (try_ignore (rmdirSync p) t)) = trace t"
    by (simp add: try_ignore_def rmdirSync_def)
  ultimately show ?thesis
    using cleanup_file [of m outPath tmpDir s] by simp
qed

lemma runCmd_first:
  assumes "\<And>x. emits (\<lambda>c. True) (f x)"
  shows "\<exists>rest. trace (snd (bnd (runCmd w cmd args cwd) f s)) = trace s @ [Spawn cmd args cwd] @ rest"
proof -
  define res where "res = spawn_result w (length (trace s))"
  define s1 where "s1 = snd (spawnSync w cmd args cwd s)"
  have sp: "spawnSync w cmd args cwd s = (Val res, s1)"
    by (simp add: spawnSync_def Let_def s1_def res_def)
  have t1: "trace s1 = trace s @ [Spawn cmd args cwd]"
    by (simp add: s1_def spawnSync_def Let_def trace_emit trace_write_file split: option.splits)
  let ?k = "\<lambda>res. case sp_error res of
         Some e \<Rightarrow> throw e
       | None \<Rightarrow>
           if sp_status res \<noteq> Some 0 then
             throw (JsError (u ''Error'')
               (cmd @ u '' '' @ join (u '' '') args @ u '' exited '' @ status_text (sp_status res)))
           else ret ()"
  have "emits (\<lambda>c. True) (bnd (?k res) f)"
    by (intro emits_bnd assms) (simp add: emits_throw emits_ret split: option.splits)
  from emitsD [OF this, of s1] obtain rest where
    "trace (snd (bnd (?k res) f s1)) = trace s1 @ rest" by auto
  moreover have "bnd (runCmd w cmd args cwd) f s = bnd (?k res) f s1"
    unfolding runCmd_def by (simp add: bnd_def sp)
  ultimately show ?thesis using t1 by simp
qed

lemma stage_file_download:
  assumes mk: "mkdtemp_result w (length (trace s)) = Inr suffix"
    and s1: "send_result w (length (trace s) + 1) = None"
  shows "\<exists>rest. trace (snd (stage_file w token chat_id url filename maxBytes s)) =
           trace s @ [Mkdtemp (tmp_prefix w), TgSend token chat_id (msg_downloading filename),
              wget_call url (path_join (tmp_prefix w @ suffix) (replace_slash filename))] @ rest"
proof -
  define prefix where "prefix = path_join (os_tmpdir w) (u ''pixeldrain-'')"
  define outPath where "outPath = path_join (prefix @ suffix) (replace_slash filename)"
  define s1 where "s1 = (emit (Mkdtemp prefix) s)\<lparr>dirs := (prefix @ suffix) # dirs s\<rparr>"
  define s2 where "s2 = emit (TgSend token chat_id (msg_downloading filename)) s1"
  have t1: "trace s1 = trace s @ [Mkdtemp prefix]" by (simp add: s1_def trace_emit)
  have t2: "trace s2 = trace s1 @ [TgSend token chat_id (msg_downloading filename)]" by (simp add: s2_def trace_emit)
  have e1: "mkdtempSync w prefix s = (Val (prefix @ suffix), s1)"
    using mk by (simp add: mkdtemp_ok s1_def)
  have e2: "sendTelegramMessage w token chat_id (msg_downloading filename) s1 = (Val (), s2)"
    using assms(2) by (simp add: send_ok t1 s2_def)
  let ?rest = "\<lambda>_::unit. bnd (statSync outPath) (\<lambda>stats_size.
            if js_gt (of_int_num (int stats_size)) maxBytes then
              sendTelegramMessage w token chat_id (msg_after_download_too_large url)
            else
              bnd (sendTelegramMessage w token chat_id (msg_uploading filename)) (\<lambda>_.
              bnd (uploadDocumentCurl w token chat_id outPath
                     (u ''Uploaded from Pixeldrain: '' @ filename)) (\<lambda>_.
              sendTelegramMessage w token chat_id (msg_uploaded filename))))"
  let ?body = "bnd (sendTelegramMessage w token chat_id (msg_downloading filename)) (\<lambda>_.
          bnd (downloadWithWget w url outPath) ?rest)"
  have unf: "stage_file w token chat_id url filename maxBytes s =
      try_finally ?body (bnd (try_ignore (unlinkSync outPath)) (\<lambda>_. try_ignore (rmdirSync (prefix @ suffix)))) s1"
    unfolding stage_file_def outPath_def prefix_def Let_def
    by (subst bnd_def) (simp add: e1 [unfolded prefix_def])
  have "emits (\<lambda>c. True) (?rest x)" for x
    by (intro emits_bnd emits_stat emits_if emits_send emits_upload) simp_all
  from runCmd_first [of ?rest w "u ''wget''" "[u ''-c'', u ''-O'', outPath, url]" None s2, OF this]
  obtain rest where "trace (snd (bnd (downloadWithWget w url outPath) ?rest s2)) =
      trace s2 @ [wget_call url outPath] @ rest"
    by (auto simp add: downloadWithWget_def wget_call_def)
  moreover have "?body s1 = bnd (downloadWithWget w url outPath) ?rest s2"
    by (subst bnd_def) (simp add: e2)
  ultimately have "trace (snd (?body s1)) = trace s @ [Mkdtemp prefix, TgSend token chat_id (msg_downloading filename),
       wget_call url outPath] @ rest"
    by (simp add: t1 t2)
  then show ?thesis
    unfolding unf cleanup_file_trace tmp_prefix_def prefix_def [symmetric] outPath_def [symmetric]
    by blast
qed

lemma handleFile_stage:
  assumes "probe fileId (head_result w (length (trace s))) = Inr (filename, sz)"
    and "\<not> too_large sz maxBytes"
  shows "handleFile w token chat_id fileId maxBytes s =
     stage_file w token chat_id (fileApiUrl fileId) filename maxBytes (emit (Head (fileApiUrl fileId)) s)"
  using assms by (simp add: handleFile_def bnd_def headUrl_def Let_def)

lemma msg_after_download_url:
  "\<exists>a b. msg_after_download_too_large url = a @ [96, 96] @ escapeMarkdownV2 url @ [96, 96] @ b"
  unfolding msg_after_download_too_large_def
  by (rule exI [of _ "[10071] @ u '' After download file exceeds max allowed size. Not uploading. Direct URL:'' @ [10]"],
      rule exI [of _ "[]"]) simp

lemma msg_file_too_large_url:
  "\<exists>a b. msg_file_too_large filename n url = a @ [96, 96] @ escapeMarkdownV2 url @ [96, 96] @ b"
  unfolding msg_file_too_large_def
  by (rule exI [of _ "[10071] @ u '' File *'' @ escapeMarkdownV2 filename
     @ u ''* is too large to auto-upload ('' @ num_text n
     @ u '' bytes). Here is the direct download URL:'' @ [10]"], rule exI [of _ "[10, 10] @ u ''Use wget on your machine to download it.''"]) simp

lemma cd_match_report: "cd_match (u ''attachment; filename=report.pdf'') = Some (u ''report.pdf'')"
  by (simp add: u_def cd_match_here_def lower_def)

lemma decode_report: "decodeURIComponent (u ''report.pdf'') = Inr (u ''report.pdf'')"
  by (simp add: u_def decodeURIComponent_def)

lemma js_Number_5000: "js_Number (u ''5000'') = Fin 5000"
  by (simp add: u_def js_Number_def trim_def is_ws_def signed_decimal_def unsigned_decimal_def
      is_digit_def exponent_part_def digit_val_def round64_numeral)

lemma probe_h_big: "probe (u ''abc'') (Some h_big) = Inr (u ''report.pdf'', Some (Fin 5000))"
  by (simp add: probe_def h_big_def cd_match_report decode_report js_Number_5000) (simp add: u_def)

lemma probe_none: "probe fileId None = Inr (u ''pixeldrain-'' @ fileId, None)"
  by (simp add: probe_def)









lemma handleFile_probe_fails:
  assumes "probe fileId (head_result w (length (trace s))) = Inl e"
  shows "handleFile w token chat_id fileId maxBytes s = (Exc e, emit (Head (fileApiUrl fileId)) s)"
  using assms by (simp add: handleFile_def bnd_def headUrl_def Let_def throw_def)


text \<open>A file for which the probe gives a name and no size.\<close>

lemma handleFile_no_size:
  assumes probe: "probe fileId (head_result w (length (trace s))) = Inr (filename, None)"
    and mk: "mkdtemp_result w (length (trace s) + 1) = Inr suffix"
    and notify: "send_result w (length (trace s) + 2) = None"
  shows "(\<exists>rest. trace (snd (handleFile w token chat_id fileId maxBytes s)) =
            trace s @ [Head (fileApiUrl fileId), Mkdtemp (tmp_prefix w),
              TgSend token chat_id (msg_downloading filename),
              wget_call (fileApiUrl fileId)
                (path_join (tmp_prefix w @ suffix) (replace_slash filename))] @ rest)
       \<and> (sp_error (spawn_result w (length (trace s) + 3)) = None
          \<and> sp_status (spawn_result w (length (trace s) + 3)) = Some 0
          \<and> sp_wrote (spawn_result w (length (trace s) + 3)) = Some downloaded
          \<and> js_gt (of_int_num (int downloaded)) maxBytes \<longrightarrow>
          trace (snd (handleFile w token chat_id fileId maxBytes s)) =
            trace s @ [Head (fileApiUrl fileId), Mkdtemp (tmp_prefix w),
              TgSend token chat_id (msg_downloading filename),
              wget_call (fileApiUrl fileId)
                (path_join (tmp_prefix w @ suffix) (replace_slash filename)),
              TgSend token chat_id (msg_after_download_too_large (fileApiUrl fileId))]
          \<and> (\<exists>a b. msg_after_download_too_large (fileApiUrl fileId) =
                 a @ [96, 96] @ escapeMarkdownV2 (fileApiUrl fileId) @ [96, 96] @ b)
          \<and> unescape (escapeMarkdownV2 (fileApiUrl fileId)) = fileApiUrl fileId
          \<and> path_join (tmp_prefix w @ suffix) (replace_slash filename)
              \<notin> fst ` set (files (snd (handleFile w token chat_id fileId maxBytes s)))
          \<and> tmp_prefix w @ suffix
              \<notin> set (dirs (snd (handleFile w token chat_id fileId maxBytes s))))"
proof -
  let ?s = "emit (Head (fileApiUrl fileId)) s"
  have hf: "handleFile w token chat_id fileId maxBytes s =
     stage_file w token chat_id (fileApiUrl fileId) filename maxBytes ?s"
    using probe by (simp add: handleFile_stage too_large_def)
  have len: "length (trace ?s) = length (trace s) + 1" by (simp add: trace_emit)
  have len1: "length (trace ?s) + 1 = length (trace s) + 2" by (simp add: trace_emit)
  have len2: "length (trace ?s) + 2 = length (trace s) + 3" by (simp add: trace_emit)
  have mk': "mkdtemp_result w (length (trace ?s)) = Inr suffix" using mk by (simp only: len)
  have n': "send_result w (length (trace ?s) + 1) = None" using notify by (simp only: len1)
  show ?thesis
  proof (intro conjI impI)
    show "\<exists>rest. trace (snd (handleFile w token chat_id fileId maxBytes s)) =
            trace s @ [Head (fileApiUrl fileId), Mkdtemp (tmp_prefix w),
              TgSend token chat_id (msg_downloading filename),
              wget_call (fileApiUrl fileId)
                (path_join (tmp_prefix w @ suffix) (replace_slash filename))] @ rest"
      using stage_file_download [OF mk' n', of token chat_id "fileApiUrl fileId" filename maxBytes]
      by (simp add: hf trace_emit)
  next
    assume a: "sp_error (spawn_result w (length (trace s) + 3)) = None
          \<and> sp_status (spawn_result w (length (trace s) + 3)) = Some 0
          \<and> sp_wrote (spawn_result w (length (trace s) + 3)) = Some downloaded
          \<and> js_gt (of_int_num (int downloaded)) maxBytes"
    then have sp: "sp_error (spawn_result w (length (trace ?s) + 2)) = None"
      "sp_status (spawn_result w (length (trace ?s) + 2)) = Some 0"
      "sp_wrote (spawn_result w (length (trace ?s) + 2)) = Some downloaded"
      and big: "js_gt (of_int_num (int downloaded)) maxBytes"
      by (simp_all only: len2)
    note r = stage_file_too_large_after [OF mk' n' sp big, where token = token and chat_id = chat_id
        and url = "fileApiUrl fileId" and filename = filename, folded tmp_prefix_def wget_call_def]
    show "trace (snd (handleFile w token chat_id fileId maxBytes s)) =
            trace s @ [Head (fileApiUrl fileId), Mkdtemp (tmp_prefix w),
              TgSend token chat_id (msg_downloading filename),
              wget_call (fileApiUrl fileId)
                (path_join (tmp_prefix w @ suffix) (replace_slash filename)),
              TgSend token chat_id (msg_after_download_too_large (fileApiUrl fileId))]"
      using r(1) by (simp add: hf trace_emit)
    show "path_join (tmp_prefix w @ suffix) (replace_slash filename)
              \<notin> fst ` set (files (snd (handleFile w token chat_id fileId maxBytes s)))"
      using r(2) by (simp add: hf)
    show "tmp_prefix w @ suffix
              \<notin> set (dirs (snd (handleFile w token chat_id fileId maxBytes s)))"
      using r(3) by (simp add: hf)
    show "\<exists>a b. msg_after_download_too_large (fileApiUrl fileId) =
                 a @ [96, 96] @ escapeMarkdownV2 (fileApiUrl fileId) @ [96, 96] @ b"
      by (rule msg_after_download_url)
    show "unescape (escapeMarkdownV2 (fileApiUrl fileId)) = fileApiUrl fileId"
      by (rule unescape_escape)
  qed
qed

section \<open>The chunks of a list of lines\<close>

lemma bnd_assoc: "bnd (bnd m f) g = bnd m (\<lambda>x. bnd (f x) g)"
  by (rule ext) (simp add: bnd_def split: prod.splits outcome.splits)

lemma bnd_ret: "bnd (ret x) f = f x"
  by (rule ext) (simp add: bnd_def ret_def)

lemma bnd_send_ok:
  "send_result w (length (trace s)) = None \<Longrightarrow>
   bnd (sendTelegramMessage w token chat_id text) f s = f () (emit (TgSend token chat_id text) s)"
  by (simp add: bnd_def send_ok)

lemma emit_trace_upd: "emit c s = s\<lparr>trace := trace s @ [c]\<rparr>"
  by (simp add: emit_def)

lemma chunk_loop_ok:
  assumes ok: "\<forall>n. send_result w n = None"
  shows "bnd (chunk_loop w token chat_id lines chunk curLen)
           (\<lambda>ch. if ch \<noteq> [] then sendTelegramMessage w token chat_id (join [10, 10] ch) else ret ()) s
         = (Val (), s\<lparr>trace := trace s @
              map (\<lambda>ch. TgSend token chat_id (join [10, 10] ch)) (chunks lines chunk curLen)\<rparr>)"
proof (induction lines arbitrary: chunk curLen s)
  case Nil
  show ?case
    using ok by (simp add: bnd_ret) (simp add: send_ok emit_trace_upd ret_def)
next
  case (Cons line rest)
  show ?case
  proof (cases "curLen + length line > 3000")
    case True
    have s: "send_result w (length (trace s)) = None" using ok by simp
    show ?thesis
      using True Cons.IH [of "[line]" "length line" "emit (TgSend token chat_id (join [10, 10] chunk)) s"]
      by (simp add: bnd_assoc bnd_send_ok [OF s] emit_trace_upd)
  next
    case False
    then show ?thesis
      using Cons.IH [of "chunk @ [line]" "curLen + length line" s] by simp
  qed
qed

lemma send_chunks_ok:
  assumes "\<forall>n. send_result w n = None"
  shows "send_chunks w token chat_id lines s
         = (Val (), s\<lparr>trace := trace s @
              map (\<lambda>ch. TgSend token chat_id (join [10, 10] ch)) (chunks lines [] 0)\<rparr>)"
  unfolding send_chunks_def by (rule chunk_loop_ok [OF assms])

lemma concat_chunks: "concat (chunks lines chunk curLen) = chunk @ lines"
  by (induction lines arbitrary: chunk curLen) simp_all

lemma chunks_not_empty: "chunk \<noteq> [] \<Longrightarrow> chunks lines chunk curLen \<noteq> []"
  by (induction lines arbitrary: chunk curLen) simp_all

lemma chunks_bounded:
  assumes "\<forall>l \<in> set lines. length l \<le> 3000"
    and "curLen = sum_list (map length chunk)" and "curLen \<le> 3000"
    and "chunk = [] \<longrightarrow> curLen = 0"
  shows "\<forall>ch \<in> set (chunks lines chunk curLen). ch \<noteq> [] \<and> sum_list (map length ch) \<le> 3000"
  using assms
proof (induction lines arbitrary: chunk curLen)
  case Nil
  then show ?case by simp
next
  case (Cons line rest)
  show ?case
  proof (cases "curLen + length line > 3000")
    case True
    with Cons.prems have ne: "chunk \<noteq> []" by auto
    have "\<forall>ch \<in> set (chunks rest [line] (length line)). ch \<noteq> [] \<and> sum_list (map length ch) \<le> 3000"
      using Cons.prems by (intro Cons.IH) simp_all
    with True ne Cons.prems(2,3) show ?thesis by simp
  next
    case False
    have "\<forall>ch \<in> set (chunks rest (chunk @ [line]) (curLen + length line)).
            ch \<noteq> [] \<and> sum_list (map length ch) \<le> 3000"
      using Cons.prems False by (intro Cons.IH) simp_all
    with False show ?thesis by simp
  qed
qed

lemma chunks_two:
  assumes "\<forall>l \<in> set lines. length l \<le> 3000"
    and "curLen \<le> 3000" and "chunk = [] \<longrightarrow> curLen = 0"
    and "curLen + sum_list (map length lines) > 3000"
  shows "2 \<le> length (chunks lines chunk curLen)"
  using assms
proof (induction lines arbitrary: chunk curLen)
  case Nil
  then show ?case by simp
next
  case (Cons line rest)
  show ?case
  proof (cases "curLen + length line > 3000")
    case True
    have "chunks rest [line] (length line) \<noteq> []"
      by (rule chunks_not_empty) simp
    then have "1 \<le> length (chunks rest [line] (length line))"
      by (cases "chunks rest [line] (length line)") simp_all
    with True show ?thesis by simp
  next
    case False
    have "2 \<le> length (chunks rest (chunk @ [line]) (curLen + length line))"
      using Cons.prems False by (intro Cons.IH) simp_all
    with False show ?thesis by simp
  qed
qed

lemma length_join:
  "length (join sep xs) = sum_list (map length xs) + length sep * (length xs - 1)"
  by (induction sep xs rule: join.induct) simp_all

lemma join_contains: "x \<in> set xs \<Longrightarrow> \<exists>a b. join sep xs = a @ x @ b"
proof (induction sep xs rule: join.induct)
  case (1 sep)
  then show ?case by simp
next
  case (2 sep y)
  then have "join sep [y] = [] @ x @ []" by simp
  then show ?case by blast
next
  case (3 sep y z zs)
  show ?case
  proof (cases "x = y")
    case True
    then have "join sep (y # z # zs) = [] @ x @ (sep @ join sep (z # zs))" by simp
    then show ?thesis by blast
  next
    case False
    with 3 obtain a b where "join sep (z # zs) = a @ x @ b" by auto
    then have "join sep (y # z # zs) = (y @ sep @ a) @ x @ b" by simp
    then show ?thesis by blast
  qed
qed

lemma w_quiet_sends: "\<forall>n. send_result w_quiet n = None"
  by (simp add: w_quiet_def)

lemma chunks_one_long: "chunks one_long [] 0 = [[], [replicate 5000 120]]"
  by (simp add: one_long_def)

lemma chunks_two_halves: "chunks two_halves [] 0 = [two_halves]"
  by (simp add: two_halves_def)

lemma chunks_three_lines:
  "chunks three_lines [] 0 = [[replicate 1500 120, replicate 1500 121], [replicate 1500 122]]"
  by (simp add: three_lines_def)

section \<open>Folders over the budget\<close>

lemma totalBytes_foldl: "totalBytes fs = foldl js_add (Fin 0) (map size_or_0 fs)"
  by (simp add: totalBytes_def foldl_map)

lemma foldl_js_add_exact:
  assumes "\<forall>k \<in> set ks. 0 \<le> k" and "0 \<le> a" and "a + sum_list ks \<le> 9007199254740992"
  shows "foldl js_add (Fin (of_int a)) (map (\<lambda>k. Fin (of_int k)) ks) = Fin (of_int (a + sum_list ks))"
  using assms
proof (induction ks arbitrary: a)
  case Nil
  then show ?case by simp
next
  case (Cons k ks)
  have nn: "0 \<le> sum_list ks" using Cons.prems(1) by (intro sum_list_nonneg) simp
  have k: "0 \<le> k" using Cons.prems(1) by simp
  have "\<bar>a + k\<bar> \<le> 9007199254740992" using Cons.prems(2,3) k nn by simp
  then have step: "js_add (Fin (of_int a)) (Fin (of_int k)) = Fin (of_int (a + k))"
    by (rule js_add_exact)
  have "foldl js_add (Fin (of_int (a + k))) (map (\<lambda>k. Fin (of_int k)) ks)
      = Fin (of_int (a + k + sum_list ks))"
    using Cons.prems k by (intro Cons.IH) simp_all
  then show ?case
    unfolding list.map foldl_Cons step sum_list.Cons by (simp only: add.assoc)
qed

lemma totalBytes_exact:
  assumes "map size_or_0 fs = map (\<lambda>k. Fin (of_int k)) ks"
    and "\<forall>k \<in> set ks. 0 \<le> k" and "sum_list ks \<le> 9007199254740992"
  shows "totalBytes fs = Fin (of_int (sum_list ks))"
  using foldl_js_add_exact [of ks 0] assms by (simp add: totalBytes_foldl)

lemma folder_links_run:
  assumes "list_result w (length (trace s)) = Inr resp" and "l_ok resp"
    and "l_body resp = Inr (Some fs)" and "fs \<noteq> []"
    and "js_gt (totalBytes fs) maxBytes"
  shows "handleFolder w token chat_id folderId maxBytes s =
           send_links w token chat_id fs (emit (FetchList (folderApiUrl folderId)) s)"
  using assms by (simp add: handleFolder_def bnd_def fetch_list_def Let_def)

lemma send_links_ok:
  assumes ok: "\<forall>n. send_result w n = None"
  shows "send_links w token chat_id fs s =
     (Val (), s\<lparr>trace := trace s @
        TgSend token chat_id (msg_folder_too_large (length fs) (totalBytes fs)
            (join [10, 10] (take 20 (map member_line fs))))
        # map (\<lambda>ch. TgSend token chat_id (join [10, 10] ch)) (chunks (map member_line fs) [] 0)\<rparr>)"
proof -
  have s: "send_result w (length (trace s)) = None" using ok by simp
  show ?thesis
    unfolding send_links_def Let_def
    by (simp add: bnd_send_ok [OF s] send_chunks_ok [OF ok] emit_trace_upd)
qed

lemma part_of_part:
  "text = a @ line @ b \<Longrightarrow> line = c @ part @ d \<Longrightarrow> \<exists>a' b'. text = a' @ part @ b'"
  by (rule exI [of _ "a @ c"], rule exI [of _ "d @ b"]) simp

lemma member_line_link:
  "\<exists>a b. member_line f = a @ [96, 96] @ escapeMarkdownV2 (fileApiUrl (fid f)) @ [96, 96] @ b"
  unfolding member_line_def
  by (rule exI [of _ "u ''- '' @ escapeMarkdownV2 (fname f) @ u '' ('' @ size_or_unknown f
        @ u '' bytes)'' @ [10]"], rule exI [of _ "[]"]) simp

lemma link_in_text:
  assumes "text = a @ member_line f @ b"
  shows "\<exists>a' b'. text = a' @ [96, 96] @ escapeMarkdownV2 (fileApiUrl (fid f)) @ [96, 96] @ b'"
  unfolding assms member_line_def
  by (rule exI [of _ "a @ u ''- '' @ escapeMarkdownV2 (fname f) @ u '' ('' @ size_or_unknown f
        @ u '' bytes)'' @ [10]"], rule exI [of _ b]) simp

lemma member_line_parts:
  "\<exists>a b c. member_line f = a @ escapeMarkdownV2 (fname f) @ b
       @ [96, 96] @ escapeMarkdownV2 (fileApiUrl (fid f)) @ [96, 96] @ c"
  unfolding member_line_def
  by (rule exI [of _ "u ''- ''"], rule exI [of _ "u '' ('' @ size_or_unknown f @ u '' bytes)'' @ [10]"],
      rule exI [of _ "[]"]) simp

lemma in_chunks:
  assumes "x \<in> set lines"
  shows "\<exists>ch \<in> set (chunks lines [] 0). x \<in> set ch"
proof -
  have "x \<in> set (concat (chunks lines [] 0))" using assms by (simp add: concat_chunks)
  then show ?thesis by auto
qed

lemma folder_links_run_ok:
  assumes "list_result w (length (trace s)) = Inr resp" and "l_ok resp"
    and "l_body resp = Inr (Some fs)" and "fs \<noteq> []"
    and "js_gt (totalBytes fs) maxBytes"
    and ok: "\<forall>n. send_result w n = None"
  shows "trace (snd (handleFolder w token chat_id folderId maxBytes s)) =
           trace s @ FetchList (folderApiUrl folderId)
             # TgSend token chat_id (msg_folder_too_large (length fs) (totalBytes fs)
                 (join [10, 10] (take 20 (map member_line fs))))
             # map (\<lambda>ch. TgSend token chat_id (join [10, 10] ch)) (chunks (map member_line fs) [] 0)"
  by (simp add: folder_links_run [OF assms(1-5)] send_links_ok [OF ok] trace_emit)

lemma line_in_chunk_text:
  assumes "f \<in> set fs"
  shows "\<exists>ch \<in> set (chunks (map member_line fs) [] 0). \<exists>a b. join [10, 10] ch = a @ member_line f @ b"
proof -
  from assms have "member_line f \<in> set (map member_line fs)" by simp
  from in_chunks [OF this] obtain ch where
    ch: "ch \<in> set (chunks (map member_line fs) [] 0)" "member_line f \<in> set ch" by blast
  from join_contains [OF ch(2)] ch(1) show ?thesis by blast
qed

lemma list_three:
  "list_result (w_listing three_files) n = Inr \<lparr>l_ok = True, l_status = 200, l_body = Inr (Some three_files)\<rparr>"
  by (simp add: w_listing_def)

lemma total_three: "totalBytes three_files = Fin 1100"
  by (simp add: totalBytes_def three_files_def size_or_0_def round64_numeral)

lemma w_listing_sends: "\<forall>n. send_result (w_listing fs) n = None"
  by (simp add: w_listing_def w_quiet_def)

lemma msg_folder_preview:
  "\<exists>a b. msg_folder_too_large n t preview = a @ preview @ b"
  unfolding msg_folder_too_large_def
  by (rule exI [of _ "[10071] @ u '' Folder contains '' @ int_text (int n) @ u '' files, total size ''
     @ num_text t
     @ u '' bytes which is larger than allowed upload limit. Sending direct links instead:''
     @ [10, 10]"], rule exI [of _ "[10, 10] @ u ''(Only first 20 shown)''"]) simp

section \<open>Staging a folder\<close>

lemma for_each_send_ok:
  assumes ok: "\<forall>n. send_result w n = None"
  shows "for_each (\<lambda>f. sendTelegramMessage w token chat_id (g f)) fs s =
           (Val (), s\<lparr>trace := trace s @ map (\<lambda>f. TgSend token chat_id (g f)) fs\<rparr>)"
proof (induction fs arbitrary: s)
  case Nil
  show ?case by (simp add: ret_def)
next
  case (Cons f fs)
  have s: "send_result w (length (trace s)) = None" using ok by simp
  show ?case
    using Cons.IH [of "emit (TgSend token chat_id (g f)) s"]
    by (simp add: bnd_send_ok [OF s] emit_trace_upd)
qed

lemma runCmd_ok_state:
  assumes "sp_error (spawn_result w (length (trace s))) = None"
    and "sp_status (spawn_result w (length (trace s))) = Some 0"
  shows "\<exists>s'. runCmd w cmd args cwd s = (Val (), s')
            \<and> trace s' = trace s @ [Spawn cmd args cwd] \<and> dirs s' = dirs s"
  using assms
  by (simp add: runCmd_ok trace_emit trace_write_file write_file_def split: option.splits)

lemma for_each_download_ok:
  assumes "\<forall>n. length (trace s) \<le> n \<and> n < length (trace s) + length fs \<longrightarrow>
             sp_error (spawn_result w n) = None \<and> sp_status (spawn_result w n) = Some 0"
  shows "\<exists>s'. for_each (\<lambda>f. downloadWithWget w (fileApiUrl (fid f))
                            (path_join tmpDir (safe_name (fname f)))) fs s = (Val (), s')
            \<and> trace s' = trace s @ map (member_download tmpDir) fs \<and> dirs s' = dirs s"
  using assms
proof (induction fs arbitrary: s)
  case Nil
  show ?case by (simp add: ret_def)
next
  case (Cons f fs)
  have "sp_error (spawn_result w (length (trace s))) = None
      \<and> sp_status (spawn_result w (length (trace s))) = Some 0"
    using Cons.prems by simp
  from runCmd_ok_state [of w s "u ''wget''"
      "[u ''-c'', u ''-O'', path_join tmpDir (safe_name (fname f)), fileApiUrl (fid f)]" None] this
  obtain s1 where s1: "downloadWithWget w (fileApiUrl (fid f)) (path_join tmpDir (safe_name (fname f))) s
       = (Val (), s1)"
    "trace s1 = trace s @ [member_download tmpDir f]" "dirs s1 = dirs s"
    by (auto simp add: downloadWithWget_def member_download_def wget_call_def)
  have "\<forall>n. length (trace s1) \<le> n \<and> n < length (trace s1) + length fs \<longrightarrow>
             sp_error (spawn_result w n) = None \<and> sp_status (spawn_result w n) = Some 0"
    using Cons.prems by (simp add: s1(2))
  from Cons.IH [OF this] obtain s' where
    "for_each (\<lambda>f. downloadWithWget w (fileApiUrl (fid f))
                            (path_join tmpDir (safe_name (fname f)))) fs s1 = (Val (), s')"
    "trace s' = trace s1 @ map (member_download tmpDir) fs" "dirs s' = dirs s1"
    by blast
  with s1 show ?case by (simp add: bnd_def)
qed

lemma zip_target: "cmd_target (u ''zip'') [a, z, b] = Some z"
  by (simp add: cmd_target_def u_def)

text \<open>The state in which \<open>stage_folder\<close> checks the size of the archive.\<close>

lemma stage_folder_archived:
  assumes mk: "mkdtemp_result w (length (trace s)) = Inr suffix"
    and ok: "\<forall>n. send_result w n = None"
    and tools: "\<forall>n \<le> length (trace s) + 2 + length fs.
        sp_error (spawn_result w n) = None \<and> sp_status (spawn_result w n) = Some 0"
    and zw: "sp_wrote (spawn_result w (length (trace s) + 2 + length fs)) = Some sz"
  shows "\<exists>s4. stage_folder w token chat_id folderId maxBytes fs s =
           try_finally
             (if js_gt (of_int_num (int sz)) maxBytes then
                bnd (sendTelegramMessage w token chat_id (msg_zip_too_large sz)) (\<lambda>_.
                  for_each (\<lambda>f. sendTelegramMessage w token chat_id (member_link f)) fs)
              else
                bnd (sendTelegramMessage w token chat_id
                       ([11014, 65039] @ u '' Uploading zip ('' @ int_text (int sz)
                        @ u '' bytes) to Telegram...'')) (\<lambda>_.
                bnd (uploadDocumentCurl w token chat_id (zip_path w folderId)
                       (u ''Pixeldrain folder '' @ folderId)) (\<lambda>_.
                bnd (sendTelegramMessage w token chat_id
                       ([9989] @ u '' Folder uploaded as zip.'')) (\<lambda>_.
                try_ignore (unlinkSync (zip_path w folderId))))))
             (try_ignore (rmdirSync (tmp_prefix w @ suffix))) s4
         \<and> trace s4 = trace s @ [Mkdtemp (tmp_prefix w),
               TgSend token chat_id (msg_downloading_folder (length fs))]
               @ map (member_download (tmp_prefix w @ suffix)) fs
               @ [zip_call w folderId (tmp_prefix w @ suffix)]
         \<and> map_of (files s4) (zip_path w folderId) = Some sz
         \<and> tmp_prefix w @ suffix \<in> set (dirs s4)"
proof -
  define tmpDir where "tmpDir = tmp_prefix w @ suffix"
  define s1 where "s1 = (emit (Mkdtemp (tmp_prefix w)) s)\<lparr>dirs := tmpDir # dirs s\<rparr>"
  define s2 where "s2 = emit (TgSend token chat_id (msg_downloading_folder (length fs))) s1"
  have t1: "trace s1 = trace s @ [Mkdtemp (tmp_prefix w)]" by (simp add: s1_def trace_emit)
  have t2: "trace s2 = trace s @ [Mkdtemp (tmp_prefix w),
      TgSend token chat_id (msg_downloading_folder (length fs))]"
    by (simp add: s2_def trace_emit t1)
  have e1: "mkdtempSync w (tmp_prefix w) s = (Val tmpDir, s1)"
    using mk by (simp add: mkdtemp_ok s1_def tmpDir_def)
  have e2: "sendTelegramMessage w token chat_id (msg_downloading_folder (length fs)) s1 = (Val (), s2)"
    using ok by (simp add: send_ok s2_def)
  have "\<forall>n. length (trace s2) \<le> n \<and> n < length (trace s2) + length fs \<longrightarrow>
             sp_error (spawn_result w n) = None \<and> sp_status (spawn_result w n) = Some 0"
    using tools by (simp add: t2)
  from for_each_download_ok [OF this, of tmpDir] obtain s3 where
    e3: "for_each (\<lambda>f. downloadWithWget w (fileApiUrl (fid f))
                            (path_join tmpDir (safe_name (fname f)))) fs s2 = (Val (), s3)"
    and t3: "trace s3 = trace s2 @ map (member_download tmpDir) fs"
    and d3: "dirs s3 = dirs s2"
    by blast
  define s4 where "s4 = write_file (zip_path w folderId) sz (emit (zip_call w folderId tmpDir) s3)"
  have l3: "length (trace s3) = length (trace s) + 2 + length fs"
    by (simp add: t3 t2)
  have e4: "runCmd w (u ''zip'') [u ''-r'', zip_path w folderId, u ''.''] (Some tmpDir) s3 = (Val (), s4)"
    using tools zw by (simp add: runCmd_ok l3 zip_target s4_def zip_call_def)
  have e5: "statSync (zip_path w folderId) s4 = (Val sz, s4)"
    by (simp add: s4_def stat_written)
  have "stage_folder w token chat_id folderId maxBytes fs s =
           try_finally
             (if js_gt (of_int_num (int sz)) maxBytes then
                bnd (sendTelegramMessage w token chat_id (msg_zip_too_large sz)) (\<lambda>_.
                  for_each (\<lambda>f. sendTelegramMessage w token chat_id (member_link f)) fs)
              else
                bnd (sendTelegramMessage w token chat_id
                       ([11014, 65039] @ u '' Uploading zip ('' @ int_text (int sz)
                        @ u '' bytes) to Telegram...'')) (\<lambda>_.
                bnd (uploadDocumentCurl w token chat_id (zip_path w folderId)
                       (u ''Pixeldrain folder '' @ folderId)) (\<lambda>_.
                bnd (sendTelegramMessage w token chat_id
                       ([9989] @ u '' Folder uploaded as zip.'')) (\<lambda>_.
                try_ignore (unlinkSync (zip_path w folderId))))))
             (try_ignore (rmdirSync tmpDir)) s4"
    unfolding stage_folder_def Let_def tmp_prefix_def [symmetric] zip_path_def [symmetric]
      msg_downloading_folder_def [symmetric]
    by (cases "js_gt (of_int_num (int sz)) maxBytes")
       (simp_all add: bnd_def try_finally_def e1 e2 e3 e4 e5)
  moreover have "trace s4 = trace s @ [Mkdtemp (tmp_prefix w),
               TgSend token chat_id (msg_downloading_folder (length fs))]
               @ map (member_download tmpDir) fs @ [zip_call w folderId tmpDir]"
    by (simp add: s4_def trace_write_file trace_emit t3 t2)
  moreover have "map_of (files s4) (zip_path w folderId) = Some sz"
    by (simp add: s4_def write_file_def)
  moreover have "tmpDir \<in> set (dirs s4)"
    by (simp add: s4_def write_file_def trace_emit d3 s2_def s1_def)
  ultimately show ?thesis unfolding tmpDir_def by blast
qed

lemma try_finally_ignore:
  "try_finally m (try_ignore c) s = (fst (m s), snd (c (snd (m s))))"
  by (cases "m s") (simp add: try_finally_def try_ignore_def)

lemma map_of_filter_key:
  "P p \<Longrightarrow> map_of (filter (\<lambda>(q, z). P q) xs) p = map_of xs p"
  by (induction xs) auto

lemma rmdir_state:
  assumes "d \<in> set (dirs s)"
  shows "trace (snd (rmdirSync d s)) = trace s"
    and "d \<notin> set (dirs (snd (rmdirSync d s)))"
    and "\<not> below d p \<Longrightarrow> map_of (files (snd (rmdirSync d s))) p = map_of (files s) p"
proof -
  show "trace (snd (rmdirSync d s)) = trace s"
    using assms by (simp add: rmdirSync_def)
  show "d \<notin> set (dirs (snd (rmdirSync d s)))"
    using assms by (simp add: rmdirSync_def below_def)
  show "map_of (files (snd (rmdirSync d s))) p = map_of (files s) p" if "\<not> below d p"
    using assms map_of_filter_key [of "\<lambda>q. \<not> below d q" p "files s", OF that]
    by (simp add: rmdirSync_def)
qed

lemma curl_target: "cmd_target (u ''curl'') args = None"
  by (simp add: cmd_target_def u_def)

lemma upload_fails:
  assumes "sp_error (spawn_result w (length (trace s))) = None"
    and "sp_status (spawn_result w (length (trace s))) = Some st" and "st \<noteq> 0"
    and "caption \<noteq> []"
  shows "uploadDocumentCurl w token chat_id filePath caption s =
           (Exc (JsError (u ''Error'') (u ''curl exited with '' @ int_text st)),
            emit (curl_call chat_id filePath caption) s)"
  using assms
  by (simp add: uploadDocumentCurl_def bnd_def spawnSync_def Let_def curl_target throw_def
      status_text_def curl_call_def)

lemma handleFolder_stage:
  assumes "list_result w (length (trace s)) = Inr resp" and "l_ok resp"
    and "l_body resp = Inr (Some fs)" and "fs \<noteq> []"
    and "\<not> js_gt (totalBytes fs) maxBytes"
  shows "handleFolder w token chat_id folderId maxBytes s =
           stage_folder w token chat_id folderId maxBytes fs (emit (FetchList (folderApiUrl folderId)) s)"
  using assms by (simp add: handleFolder_def bnd_def fetch_list_def Let_def)

lemma stage_folder_zip_too_large:
  assumes mk: "mkdtemp_result w (length (trace s)) = Inr suffix"
    and ok: "\<forall>n. send_result w n = None"
    and tools: "\<forall>n \<le> length (trace s) + 2 + length fs.
        sp_error (spawn_result w n) = None \<and> sp_status (spawn_result w n) = Some 0"
    and zw: "sp_wrote (spawn_result w (length (trace s) + 2 + length fs)) = Some sz"
    and big: "js_gt (of_int_num (int sz)) maxBytes"
  shows "fst (stage_folder w token chat_id folderId maxBytes fs s) = Val ()"
    and "trace (snd (stage_folder w token chat_id folderId maxBytes fs s)) =
           trace s @ [Mkdtemp (tmp_prefix w), TgSend token chat_id (msg_downloading_folder (length fs))]
             @ map (member_download (tmp_prefix w @ suffix)) fs
             @ [zip_call w folderId (tmp_prefix w @ suffix), TgSend token chat_id (msg_zip_too_large sz)]
             @ map (\<lambda>f. TgSend token chat_id (member_link f)) fs"
    and "tmp_prefix w @ suffix \<notin> set (dirs (snd (stage_folder w token chat_id folderId maxBytes fs s)))"
    and "\<not> below (tmp_prefix w @ suffix) (zip_path w folderId) \<Longrightarrow>
           map_of (files (snd (stage_folder w token chat_id folderId maxBytes fs s))) (zip_path w folderId) = Some sz"
proof -
  from stage_folder_archived [OF mk ok tools zw, of token chat_id folderId maxBytes] big
  obtain s4 where
    sf: "stage_folder w token chat_id folderId maxBytes fs s =
           try_finally
             (bnd (sendTelegramMessage w token chat_id (msg_zip_too_large sz)) (\<lambda>_.
                  for_each (\<lambda>f. sendTelegramMessage w token chat_id (member_link f)) fs))
             (try_ignore (rmdirSync (tmp_prefix w @ suffix))) s4"
    and t4: "trace s4 = trace s @ [Mkdtemp (tmp_prefix w),
               TgSend token chat_id (msg_downloading_folder (length fs))]
               @ map (member_download (tmp_prefix w @ suffix)) fs
               @ [zip_call w folderId (tmp_prefix w @ suffix)]"
    and f4: "map_of (files s4) (zip_path w folderId) = Some sz"
    and d4: "tmp_prefix w @ suffix \<in> set (dirs s4)"
    by auto
  define s6 where "s6 = s4\<lparr>trace := trace s4 @ TgSend token chat_id (msg_zip_too_large sz)
      # map (\<lambda>f. TgSend token chat_id (member_link f)) fs\<rparr>"
  have s4ok: "send_result w (length (trace s4)) = None" using ok by simp
  have body: "bnd (sendTelegramMessage w token chat_id (msg_zip_too_large sz)) (\<lambda>_.
                  for_each (\<lambda>f. sendTelegramMessage w token chat_id (member_link f)) fs) s4 = (Val (), s6)"
    by (simp add: bnd_send_ok [OF s4ok] for_each_send_ok [OF ok] emit_trace_upd s6_def)
  have fin: "stage_folder w token chat_id folderId maxBytes fs s =
      (Val (), snd (rmdirSync (tmp_prefix w @ suffix) s6))"
    by (simp add: sf try_finally_ignore body)
  have d6: "tmp_prefix w @ suffix \<in> set (dirs s6)" using d4 by (simp add: s6_def)
  show "fst (stage_folder w token chat_id folderId maxBytes fs s) = Val ()"
    by (simp add: fin)
  show "trace (snd (stage_folder w token chat_id folderId maxBytes fs s)) =
           trace s @ [Mkdtemp (tmp_prefix w), TgSend token chat_id (msg_downloading_folder (length fs))]
             @ map (member_download (tmp_prefix w @ suffix)) fs
             @ [zip_call w folderId (tmp_prefix w @ suffix), TgSend token chat_id (msg_zip_too_large sz)]
             @ map (\<lambda>f. TgSend token chat_id (member_link f)) fs"
    by (simp add: fin rmdir_state(1) [OF d6]) (simp add: s6_def t4)
  show "tmp_prefix w @ suffix \<notin> set (dirs (snd (stage_folder w token chat_id folderId maxBytes fs s)))"
    by (simp add: fin rmdir_state(2) [OF d6])
  show "map_of (files (snd (stage_folder w token chat_id folderId maxBytes fs s))) (zip_path w folderId) = Some sz"
    if "\<not> below (tmp_prefix w @ suffix) (zip_path w folderId)"
    using f4 by (simp add: fin rmdir_state(3) [OF d6 that]) (simp add: s6_def)
qed

lemma stage_folder_upload_fails:
  assumes mk: "mkdtemp_result w (length (trace s)) = Inr suffix"
    and ok: "\<forall>n. send_result w n = None"
    and tools: "\<forall>n \<le> length (trace s) + 2 + length fs.
        sp_error (spawn_result w n) = None \<and> sp_status (spawn_result w n) = Some 0"
    and zw: "sp_wrote (spawn_result w (length (trace s) + 2 + length fs)) = Some sz"
    and small: "\<not> js_gt (of_int_num (int sz)) maxBytes"
    and curl: "sp_error (spawn_result w (length (trace s) + 4 + length fs)) = None"
      "sp_status (spawn_result w (length (trace s) + 4 + length fs)) = Some st" "st \<noteq> 0"
  shows "fst (stage_folder w token chat_id folderId maxBytes fs s) =
           Exc (JsError (u ''Error'') (u ''curl exited with '' @ int_text st))"
    and "trace (snd (stage_folder w token chat_id folderId maxBytes fs s)) =
           trace s @ [Mkdtemp (tmp_prefix w), TgSend token chat_id (msg_downloading_folder (length fs))]
             @ map (member_download (tmp_prefix w @ suffix)) fs
             @ [zip_call w folderId (tmp_prefix w @ suffix), TgSend token chat_id (msg_uploading_zip sz),
                curl_call chat_id (zip_path w folderId) (u ''Pixeldrain folder '' @ folderId)]"
    and "tmp_prefix w @ suffix \<notin> set (dirs (snd (stage_folder w token chat_id folderId maxBytes fs s)))"
    and "\<not> below (tmp_prefix w @ suffix) (zip_path w folderId) \<Longrightarrow>
           map_of (files (snd (stage_folder w token chat_id folderId maxBytes fs s))) (zip_path w folderId) = Some sz"
proof -
  from stage_folder_archived [OF mk ok tools zw, of token chat_id folderId maxBytes] small
  obtain s4 where
    sf: "stage_folder w token chat_id folderId maxBytes fs s =
           try_finally
             (bnd (sendTelegramMessage w token chat_id (msg_uploading_zip sz)) (\<lambda>_.
                bnd (uploadDocumentCurl w token chat_id (zip_path w folderId)
                       (u ''Pixeldrain folder '' @ folderId)) (\<lambda>_.
                bnd (sendTelegramMessage w token chat_id
                       ([9989] @ u '' Folder uploaded as zip.'')) (\<lambda>_.
                try_ignore (unlinkSync (zip_path w folderId))))))
             (try_ignore (rmdirSync (tmp_prefix w @ suffix))) s4"
    and t4: "trace s4 = trace s @ [Mkdtemp (tmp_prefix w),
               TgSend token chat_id (msg_downloading_folder (length fs))]
               @ map (member_download (tmp_prefix w @ suffix)) fs
               @ [zip_call w folderId (tmp_prefix w @ suffix)]"
    and f4: "map_of (files s4) (zip_path w folderId) = Some sz"
    and d4: "tmp_prefix w @ suffix \<in> set (dirs s4)"
    by (auto simp add: msg_uploading_zip_def)
  define s5 where "s5 = emit (TgSend token chat_id (msg_uploading_zip sz)) s4"
  define s6 where "s6 = emit (curl_call chat_id (zip_path w folderId) (u ''Pixeldrain folder '' @ folderId)) s5"
  have s4ok: "send_result w (length (trace s4)) = None" using ok by simp
  have l5: "length (trace s5) = length (trace s) + 4 + length fs"
    by (simp add: s5_def trace_emit t4)
  have cap: "u ''Pixeldrain folder '' @ folderId \<noteq> []" by (simp add: u_def)
  have up: "uploadDocumentCurl w token chat_id (zip_path w folderId) (u ''Pixeldrain folder '' @ folderId) s5
      = (Exc (JsError (u ''Error'') (u ''curl exited with '' @ int_text st)), s6)"
    unfolding s6_def by (rule upload_fails) (simp_all only: l5 curl cap not_False_eq_True)
  have body: "bnd (sendTelegramMessage w token chat_id (msg_uploading_zip sz)) (\<lambda>_.
                bnd (uploadDocumentCurl w token chat_id (zip_path w folderId)
                       (u ''Pixeldrain folder '' @ folderId)) (\<lambda>_.
                bnd (sendTelegramMessage w token chat_id
                       ([9989] @ u '' Folder uploaded as zip.'')) (\<lambda>_.
                try_ignore (unlinkSync (zip_path w folderId))))) s4
        = (Exc (JsError (u ''Error'') (u ''curl exited with '' @ int_text st)), s6)"
    by (simp add: bnd_send_ok [OF s4ok] s5_def [symmetric]) (simp add: bnd_def up)
  have fin: "stage_folder w token chat_id folderId maxBytes fs s =
      (Exc (JsError (u ''Error'') (u ''curl exited with '' @ int_text st)),
       snd (rmdirSync (tmp_prefix w @ suffix) s6))"
    unfolding sf try_finally_ignore body by simp
  have d6: "tmp_prefix w @ suffix \<in> set (dirs s6)" using d4 by (simp add: s6_def s5_def trace_emit)
  show "fst (stage_folder w token chat_id folderId maxBytes fs s) =
           Exc (JsError (u ''Error'') (u ''curl exited with '' @ int_text st))"
    by (simp add: fin)
  show "trace (snd (stage_folder w token chat_id folderId maxBytes fs s)) =
           trace s @ [Mkdtemp (tmp_prefix w), TgSend token chat_id (msg_downloading_folder (length fs))]
             @ map (member_download (tmp_prefix w @ suffix)) fs
             @ [zip_call w folderId (tmp_prefix w @ suffix), TgSend token chat_id (msg_uploading_zip sz),
                curl_call chat_id (zip_path w folderId) (u ''Pixeldrain folder '' @ folderId)]"
    by (simp add: fin rmdir_state(1) [OF d6]) (simp add: s6_def s5_def trace_emit t4)
  show "tmp_prefix w @ suffix \<notin> set (dirs (snd (stage_folder w token chat_id folderId maxBytes fs s)))"
    by (simp add: fin rmdir_state(2) [OF d6])
  show "map_of (files (snd (stage_folder w token chat_id folderId maxBytes fs s))) (zip_path w folderId) = Some sz"
    if "\<not> below (tmp_prefix w @ suffix) (zip_path w folderId)"
    using f4 by (simp add: fin rmdir_state(3) [OF d6 that]) (simp add: s6_def s5_def trace_emit)
qed

lemma total_rounds:
  "totalBytes [\<lparr>fid = a, fname = b, fsize = Some (Fin 9007199254740992)\<rparr>,
               \<lparr>fid = c, fname = d, fsize = Some (Fin 1)\<rparr>] = Fin 9007199254740992"
  by (simp add: totalBytes_def size_or_0_def round64_numeral round64_tie)

lemma total_one: "totalBytes one_file = Fin 600"
  by (simp add: totalBytes_def one_file_def size_or_0_def round64_numeral)

lemma tmp_prefix_tmp: "os_tmpdir w = u ''/tmp'' \<Longrightarrow> tmp_prefix w = u ''/tmp/pixeldrain-''"
  by (simp add: tmp_prefix_def path_join_def u_def)

lemma zip_path_tmp:
  "os_tmpdir w = u ''/tmp'' \<Longrightarrow> zip_path w (u ''F1'') = u ''/tmp/pixeldrain-folder-F1.zip''"
  by (simp add: zip_path_def path_join_def u_def)

lemma zip_not_below:
  "\<not> below (u ''/tmp/pixeldrain-'' @ u ''AbCdEf'') (u ''/tmp/pixeldrain-folder-F1.zip'')"
  by (simp add: below_def u_def)

lemma one_file_world:
  assumes "w = (w_listing one_file)\<lparr>spawn_result := f\<rparr>"
  shows "list_result w n = Inr \<lparr>l_ok = True, l_status = 200, l_body = Inr (Some one_file)\<rparr>"
    and "mkdtemp_result w n = Inr (u ''AbCdEf'')"
    and "\<forall>n. send_result w n = None"
    and "os_tmpdir w = u ''/tmp''"
    and "spawn_result w = f"
  by (simp_all add: assms w_listing_def w_quiet_def)

section \<open>Calls that failed\<close>

lemma ok_from_snoc:
  "ok_from w k tr \<Longrightarrow> \<not> failed w (length tr) c \<Longrightarrow> ok_from w k (tr @ [c])"
  by (auto simp add: ok_from_def nth_append less_Suc_eq)

lemma ok_from_start: "ok_from w (length tr) tr"
  by (auto simp add: ok_from_def)

lemma cleanI:
  "(\<And>s x s' k. m s = (Val x, s') \<Longrightarrow> ok_from w k (trace s) \<Longrightarrow> ok_from w k (trace s')) \<Longrightarrow> clean w m"
  by (simp add: clean_def)

lemma cleanD:
  "clean w m \<Longrightarrow> m s = (Val x, s') \<Longrightarrow> ok_from w k (trace s) \<Longrightarrow> ok_from w k (trace s')"
  unfolding clean_def by blast

lemma clean_ret: "clean w (ret x)"
  by (rule cleanI) (simp add: ret_def)

lemma clean_throw: "clean w (throw e)"
  by (rule cleanI) (simp add: throw_def)

lemma clean_bnd:
  assumes "clean w m" and "\<And>x. clean w (f x)"
  shows "clean w (bnd m f)"
proof (rule cleanI)
  fix s x s' k
  assume r: "bnd m f s = (Val x, s')" and ok: "ok_from w k (trace s)"
  obtain r1 s1 where ms: "m s = (r1, s1)" by (cases "m s")
  show "ok_from w k (trace s')"
  proof (cases r1)
    case (Val y)
    with r ms have "f y s1 = (Val x, s')" by (simp add: bnd_def)
    moreover from cleanD [OF assms(1)] ms Val ok have "ok_from w k (trace s1)" by blast
    ultimately show ?thesis using cleanD [OF assms(2)] by blast
  next
    case (Exc e)
    with r ms show ?thesis by (simp add: bnd_def)
  qed
qed

lemma clean_if: "clean w a \<Longrightarrow> clean w b \<Longrightarrow> clean w (if c then a else b)"
  by simp

lemma clean_for_each: "(\<And>x. clean w (f x)) \<Longrightarrow> clean w (for_each f xs)"
  by (induction xs) (simp_all add: clean_ret clean_bnd)

lemma clean_silent: "silent m \<Longrightarrow> clean w m"
  unfolding silent_def
  by (rule cleanI) (metis snd_conv)

lemma silent_try_ignore: "silent m \<Longrightarrow> silent (try_ignore m)"
  by (simp add: silent_def try_ignore_def)

lemma silent_unlink: "silent (unlinkSync p)"
  by (simp add: silent_def unlinkSync_def split: option.splits)

lemma silent_rmdir: "silent (rmdirSync p)"
  by (simp add: silent_def rmdirSync_def)

lemma silent_stat: "silent (statSync p)"
  by (simp add: silent_def statSync_def split: option.splits)

lemma silent_bnd:
  assumes "silent m" and "\<And>x. silent (f x)"
  shows "silent (bnd m f)"
  unfolding silent_def
proof
  fix s
  obtain r1 s1 where ms: "m s = (r1, s1)" by (cases "m s")
  with assms(1) have t: "trace s1 = trace s" unfolding silent_def by (metis snd_conv)
  show "trace (snd (bnd m f s)) = trace s"
  proof (cases r1)
    case (Val y)
    with ms have "bnd m f s = f y s1" by (simp add: bnd_def)
    with assms(2) [of y] t show ?thesis unfolding silent_def by simp
  next
    case (Exc e)
    with ms t show ?thesis by (simp add: bnd_def)
  qed
qed

lemma clean_try_finally:
  assumes "clean w m" and "silent c"
  shows "clean w (try_finally m c)"
proof (rule cleanI)
  fix s x s' k
  assume r: "try_finally m c s = (Val x, s')" and ok: "ok_from w k (trace s)"
  obtain r1 s1 where ms: "m s = (r1, s1)" by (cases "m s")
  obtain r2 s2 where cs: "c s1 = (r2, s2)" by (cases "c s1")
  from assms(2) cs have t: "trace s2 = trace s1" unfolding silent_def by (metis snd_conv)
  from r ms cs have "r1 = Val x \<and> s' = s2"
    by (cases r2) (simp_all add: try_finally_def)
  with cleanD [OF assms(1)] ms ok t show "ok_from w k (trace s')" by auto
qed

lemma clean_send: "clean w (sendTelegramMessage w token chat_id text)"
  by (rule cleanI)
     (auto simp add: sendTelegramMessage_def Let_def trace_emit split: option.splits intro!: ok_from_snoc)

lemma clean_head: "clean w (headUrl w url)"
  by (rule cleanI) (auto simp add: headUrl_def trace_emit intro!: ok_from_snoc)

lemma clean_mkdtemp: "clean w (mkdtempSync w p)"
  by (rule cleanI)
     (auto simp add: mkdtempSync_def Let_def trace_emit split: sum.splits intro!: ok_from_snoc)

lemma clean_runCmd: "clean w (runCmd w cmd args cwd)"
  by (rule cleanI)
     (auto simp add: runCmd_def bnd_def spawnSync_def Let_def trace_emit trace_write_file
        throw_def ret_def split: option.splits if_splits intro!: ok_from_snoc)

lemma clean_upload: "clean w (uploadDocumentCurl w token chat_id p caption)"
  by (rule cleanI)
     (auto simp add: uploadDocumentCurl_def bnd_def spawnSync_def Let_def trace_emit trace_write_file
        throw_def ret_def curl_target split: option.splits if_splits intro!: ok_from_snoc)

lemma clean_chunk_loop: "clean w (chunk_loop w token chat_id lines chunk curLen)"
  by (induction lines arbitrary: chunk curLen) (simp_all add: clean_ret clean_bnd clean_send)

lemma clean_send_links: "clean w (send_links w token chat_id fs)"
  unfolding send_links_def send_chunks_def Let_def
  by (intro clean_bnd clean_send clean_chunk_loop clean_if clean_ret)

lemma clean_stage_file: "clean w (stage_file w token chat_id url filename maxBytes)"
  unfolding stage_file_def Let_def downloadWithWget_def
  by (intro clean_bnd clean_try_finally clean_mkdtemp clean_send clean_runCmd clean_if clean_upload
      clean_silent [OF silent_stat] silent_bnd silent_try_ignore silent_unlink silent_rmdir)

lemma clean_stage_folder: "clean w (stage_folder w token chat_id folderId maxBytes fs)"
  unfolding stage_folder_def Let_def downloadWithWget_def
  by (intro clean_bnd clean_try_finally clean_mkdtemp clean_send clean_runCmd clean_if clean_upload
      clean_for_each clean_silent [OF silent_stat] clean_silent [OF silent_try_ignore]
      silent_try_ignore silent_unlink silent_rmdir)

lemma clean_handleFile: "clean w (handleFile w token chat_id fileId maxBytes)"
  unfolding handleFile_def Let_def
  by (intro clean_bnd clean_head)
     (simp add: clean_throw clean_send clean_stage_file split: sum.splits prod.splits)

lemma clean_handleFolder: "clean w (handleFolder w token chat_id folderId maxBytes)"
proof (rule cleanI)
  fix s x s' k
  assume r: "handleFolder w token chat_id folderId maxBytes s = (Val x, s')"
    and ok: "ok_from w k (trace s)"
  let ?s1 = "emit (FetchList (folderApiUrl folderId)) s"
  show "ok_from w k (trace s')"
  proof (cases "list_result w (length (trace s))")
    case (Inl e)
    with r show ?thesis
      by (simp add: handleFolder_def bnd_def fetch_list_def Let_def)
  next
    case (Inr resp)
    show ?thesis
    proof (cases "l_ok resp")
      case False
      with Inr r have a: "sendTelegramMessage w token chat_id
           (u ''Failed to read folder '' @ folderId @ u '': HTTP '' @ int_text (l_status resp)) ?s1
           = (Val x, s')"
        by (simp add: handleFolder_def bnd_def fetch_list_def Let_def)
      have b: "ok_from w k (trace ?s1)"
        using ok Inr False by (simp add: trace_emit ok_from_snoc)
      show ?thesis by (rule cleanD [OF clean_send a b])
    next
      case True
      show ?thesis
      proof (cases "l_body resp")
        case (Inl e)
        with Inr True r show ?thesis
          by (simp add: handleFolder_def bnd_def fetch_list_def Let_def throw_def)
      next
        case body: (Inr json)
        let ?rest = "case json of
                None \<Rightarrow>
                  sendTelegramMessage w token chat_id
                    (u ''Folder appears empty or returned no files.'')
              | Some fs \<Rightarrow>
                  if fs = [] then
                    sendTelegramMessage w token chat_id
                      (u ''Folder appears empty or returned no files.'')
                  else if js_gt (totalBytes fs) maxBytes then
                    send_links w token chat_id fs
                  else stage_folder w token chat_id folderId maxBytes fs"
        from Inr True body r have a: "?rest ?s1 = (Val x, s')"
          by (simp add: handleFolder_def bnd_def fetch_list_def Let_def)
        have b: "ok_from w k (trace ?s1)"
          using ok Inr True body by (simp add: trace_emit ok_from_snoc)
        have c: "clean w ?rest"
          by (simp add: clean_send clean_send_links clean_stage_folder split: option.splits)
        show ?thesis by (rule cleanD [OF c a b])
      qed
    qed
  qed
qed

lemma clean_main_body: "clean w (main_body e w)"
  unfolding main_body_def Let_def
  by (intro clean_if clean_throw clean_bnd clean_send)
     (simp add: clean_throw clean_handleFile clean_handleFolder split: option.splits)

section \<open>The entry point\<close>

lemma main_cases:
  "(\<exists>x s'. main_body e w s = (Val x, s') \<and> main e w s = \<lparr>exit_code = 0, final = s'\<rparr>)
   \<or> (\<exists>err s'. main_body e w s = (Exc err, s')
        \<and> main e w s = \<lparr>exit_code = 1, final =
             (if \<not> missing (TELEGRAM_BOT_TOKEN e) \<and> \<not> missing (TELEGRAM_CHAT_ID e)
              then emit (TgSend (the (TELEGRAM_BOT_TOKEN e)) (the (TELEGRAM_CHAT_ID e)) (msg_error err)) s'
              else s')\<rparr>)"
proof (cases "main_body e w s")
  case (Pair r s')
  then show ?thesis
    by (cases r) (simp_all add: main_def try_ignore_def send_snd)
qed

lemma main_body_unconfigured:
  assumes "missing (PIXEL_LINK e) \<or> missing (TELEGRAM_BOT_TOKEN e) \<or> missing (TELEGRAM_CHAT_ID e)"
  shows "\<exists>err. main_body e w s = (Exc err, s)"
  using assms by (auto simp add: main_body_def throw_def)

lemma main_body_unrecognized:
  assumes "\<not> missing (PIXEL_LINK e)" "\<not> missing (TELEGRAM_BOT_TOKEN e)" "\<not> missing (TELEGRAM_CHAT_ID e)"
    and "PIXEL_FILE_RE (the (PIXEL_LINK e)) = None" and "PIXEL_FOLDER_RE (the (PIXEL_LINK e)) = None"
  shows "main_body e w s =
     (Exc (case send_result w (length (trace s)) of
             None \<Rightarrow> Error ''No pixeldrain link found in PIXEL_LINK.'' | Some err \<Rightarrow> err),
      emit (TgSend (the (TELEGRAM_BOT_TOKEN e)) (the (TELEGRAM_CHAT_ID e)) msg_start) s)"
  using assms
  by (simp add: main_body_def Let_def bnd_def sendTelegramMessage_def throw_def msg_start_def
      split: option.splits)

lemma hello_no_file: "PIXEL_FILE_RE (u ''hello'') = None"
  by (simp add: PIXEL_FILE_RE_def pixel_match_here_def lower_def u_def)

lemma hello_no_folder: "PIXEL_FOLDER_RE (u ''hello'') = None"
  by (simp add: PIXEL_FOLDER_RE_def pixel_match_here_def lower_def u_def)

lemma folder_link_no_file: "PIXEL_FILE_RE (u ''https://pixeldrain.com/l/F1'') = None"
  by (simp add: PIXEL_FILE_RE_def pixel_match_here_def opt_prefix_ci_def lower_def u_def)

lemma folder_link_folder: "PIXEL_FOLDER_RE (u ''https://pixeldrain.com/l/F1'') = Some (u ''F1'')"
  by (simp add: PIXEL_FOLDER_RE_def pixel_match_here_def opt_prefix_ci_def lower_def u_def is_id_char_def)

lemma run_unrecognized:
  assumes "\<not> missing (PIXEL_LINK e)" "\<not> missing (TELEGRAM_BOT_TOKEN e)" "\<not> missing (TELEGRAM_CHAT_ID e)"
    and "PIXEL_FILE_RE (the (PIXEL_LINK e)) = None" and "PIXEL_FOLDER_RE (the (PIXEL_LINK e)) = None"
  shows "main e w s = \<lparr>exit_code = 1, final = s\<lparr>trace := trace s @
            [TgSend (the (TELEGRAM_BOT_TOKEN e)) (the (TELEGRAM_CHAT_ID e)) msg_start,
             TgSend (the (TELEGRAM_BOT_TOKEN e)) (the (TELEGRAM_CHAT_ID e))
               (msg_error (case send_result w (length (trace s)) of
                             None \<Rightarrow> no_link_error | Some err \<Rightarrow> err))]\<rparr>\<rparr>"
  using assms(2,3)
  by (simp add: main_def main_body_unrecognized [OF assms] try_ignore_def send_snd emit_trace_upd
      no_link_error_def split: option.splits)

lemma e_hello_fields:
  "\<not> missing (PIXEL_LINK e_hello)" "\<not> missing (TELEGRAM_BOT_TOKEN e_hello)"
  "\<not> missing (TELEGRAM_CHAT_ID e_hello)"
  "the (PIXEL_LINK e_hello) = u ''hello''" "the (TELEGRAM_BOT_TOKEN e_hello) = u ''T''"
  "the (TELEGRAM_CHAT_ID e_hello) = u ''42''"
  by (simp_all add: e_hello_def missing_def u_def)

lemma e_folder_fields:
  "\<not> missing (PIXEL_LINK e_folder)" "\<not> missing (TELEGRAM_BOT_TOKEN e_folder)"
  "\<not> missing (TELEGRAM_CHAT_ID e_folder)"
  "the (PIXEL_LINK e_folder) = u ''https://pixeldrain.com/l/F1''"
  "the (TELEGRAM_BOT_TOKEN e_folder) = u ''T''" "the (TELEGRAM_CHAT_ID e_folder) = u ''42''"
  by (simp_all add: e_folder_def missing_def u_def)

lemma send_all_ok:
  "\<forall>n. send_result w n = None \<Longrightarrow>
   sendTelegramMessage w token chat_id text s = (Val (), emit (TgSend token chat_id text) s)"
  by (simp add: send_ok)

lemma handleFolder_not_fatal:
  assumes lr: "list_result w (length (trace s)) = Inr resp"
    and ok: "\<forall>n. send_result w n = None"
    and nf: "\<not> l_ok resp \<or> l_body resp = Inr None \<or> l_body resp = Inr (Some [])"
  shows "handleFolder w token chat_id folderId maxBytes s =
     (Val (), s\<lparr>trace := trace s @
        [FetchList (folderApiUrl folderId),
         TgSend token chat_id (if \<not> l_ok resp then msg_http_error folderId (l_status resp)
                               else msg_empty_folder)]\<rparr>)"
proof -
  let ?s1 = "emit (FetchList (folderApiUrl folderId)) s"
  have s1: "send_result w (length (trace ?s1)) = None" using ok by simp
  show ?thesis
  proof (cases "l_ok resp")
    case False
    then show ?thesis
      using lr
      by (simp add: handleFolder_def bnd_def fetch_list_def Let_def send_all_ok [OF ok]
          msg_http_error_def emit_trace_upd)
  next
    case True
    with nf have "l_body resp = Inr None \<or> l_body resp = Inr (Some [])" by simp
    then show ?thesis
      using lr True
      by (auto simp add: handleFolder_def bnd_def fetch_list_def Let_def send_all_ok [OF ok]
          msg_empty_folder_def emit_trace_upd)
  qed
qed

lemma main_folder_not_fatal:
  assumes cfg: "\<not> missing (PIXEL_LINK e)" "\<not> missing (TELEGRAM_BOT_TOKEN e)" "\<not> missing (TELEGRAM_CHAT_ID e)"
    and nofile: "PIXEL_FILE_RE (the (PIXEL_LINK e)) = None"
    and folder: "PIXEL_FOLDER_RE (the (PIXEL_LINK e)) = Some folderId"
    and ok: "\<forall>n. send_result w n = None"
    and lr: "list_result w (length (trace s) + 1) = Inr resp"
    and nf: "\<not> l_ok resp \<or> l_body resp = Inr None \<or> l_body resp = Inr (Some [])"
  shows "main e w s = \<lparr>exit_code = 0, final = s\<lparr>trace := trace s @
        [TgSend (the (TELEGRAM_BOT_TOKEN e)) (the (TELEGRAM_CHAT_ID e)) msg_start,
         FetchList (folderApiUrl folderId),
         TgSend (the (TELEGRAM_BOT_TOKEN e)) (the (TELEGRAM_CHAT_ID e))
           (if \<not> l_ok resp then msg_http_error folderId (l_status resp) else msg_empty_folder)]\<rparr>\<rparr>"
proof -
  let ?t = "the (TELEGRAM_BOT_TOKEN e)" and ?c = "the (TELEGRAM_CHAT_ID e)"
  let ?s1 = "emit (TgSend ?t ?c msg_start) s"
  have s0: "send_result w (length (trace s)) = None" using ok by simp
  have lr': "list_result w (length (trace ?s1)) = Inr resp" using lr by (simp add: trace_emit)
  have "main_body e w s = handleFolder w ?t ?c folderId (max_bytes e) ?s1"
    using cfg nofile folder
    by (simp add: main_body_def Let_def bnd_send_ok [OF s0] msg_start_def)
  then show ?thesis
    unfolding main_def handleFolder_not_fatal [OF lr' ok nf]
    by (simp add: emit_trace_upd)
qed

lemma main_ok_calls:
  assumes "exit_code (main e w s) = 0"
  shows "ok_from w (length (trace s)) (trace (final (main e w s)))"
proof -
  from main_cases [of e w s] assms obtain x s' where
    b: "main_body e w s = (Val x, s')" and m: "main e w s = \<lparr>exit_code = 0, final = s'\<rparr>"
    by auto
  from cleanD [OF clean_main_body b ok_from_start] m show ?thesis by simp
qed

lemma hello_run:
  "main e_hello w s_init = \<lparr>exit_code = 1, final = s_init\<lparr>trace :=
      [TgSend (u ''T'') (u ''42'') msg_start,
       TgSend (u ''T'') (u ''42'')
         (msg_error (case send_result w 0 of None \<Rightarrow> no_link_error | Some err \<Rightarrow> err))]\<rparr>\<rparr>"
proof -
  have a: "PIXEL_FILE_RE (the (PIXEL_LINK e_hello)) = None"
    by (simp add: e_hello_fields hello_no_file)
  have b: "PIXEL_FOLDER_RE (the (PIXEL_LINK e_hello)) = None"
    by (simp add: e_hello_fields hello_no_folder)
  from run_unrecognized [OF e_hello_fields(1-3) a b, of w s_init]
  show ?thesis by (simp add: e_hello_fields s_init_def)
qed

lemma no_token_run: "main e_no_token w s_init = \<lparr>exit_code = 1, final = s_init\<rparr>"
  by (simp add: main_def main_body_def e_no_token_def e_hello_def missing_def throw_def u_def)

lemma w_404_facts:
  "\<forall>n. send_result w_404 n = None"
  "list_result w_404 n = Inr \<lparr>l_ok = False, l_status = 404, l_body = Inr None\<rparr>"
  by (simp_all add: w_404_def w_quiet_def)

lemma folder_404_run:
  "main e_folder w_404 s_init = \<lparr>exit_code = 0, final = s_init\<lparr>trace :=
      [TgSend (u ''T'') (u ''42'') msg_start, FetchList (folderApiUrl (u ''F1'')),
       TgSend (u ''T'') (u ''42'') (msg_http_error (u ''F1'') 404)]\<rparr>\<rparr>"
proof -
  have a: "PIXEL_FILE_RE (the (PIXEL_LINK e_folder)) = None"
    by (simp add: e_folder_fields folder_link_no_file)
  have b: "PIXEL_FOLDER_RE (the (PIXEL_LINK e_folder)) = Some (u ''F1'')"
    by (simp add: e_folder_fields folder_link_folder)
  have c: "\<not> l_ok \<lparr>l_ok = False, l_status = 404, l_body = Inr None\<rparr>
     \<or> l_body \<lparr>l_ok = False, l_status = 404, l_body = Inr None\<rparr> = Inr None
     \<or> l_body \<lparr>l_ok = False, l_status = 404, l_body = Inr None\<rparr> = Inr (Some [])"
    by simp
  from main_folder_not_fatal [OF e_folder_fields(1-3) a b w_404_facts(1) w_404_facts(2) c, of s_init]
  show ?thesis by (simp add: e_folder_fields s_init_def)
qed

section \<open>Runs in which no call fails\<close>

lemma returnsI: "(\<And>s. \<exists>x s'. m s = (Val x, s')) \<Longrightarrow> returns m"
  by (simp add: returns_def)

lemma returnsD: "returns m \<Longrightarrow> \<exists>x s'. m s = (Val x, s')"
  by (simp add: returns_def)

lemma returns_ret: "returns (ret x)"
  by (simp add: returns_def ret_def)

lemma returns_bnd:
  assumes "returns m" and "\<And>x. returns (f x)"
  shows "returns (bnd m f)"
proof (rule returnsI)
  fix s
  from returnsD [OF assms(1), of s] obtain x s1 where "m s = (Val x, s1)" by blast
  with returnsD [OF assms(2), of x s1] show "\<exists>y s'. bnd m f s = (Val y, s')"
    by (simp add: bnd_def)
qed

lemma returns_if: "returns a \<Longrightarrow> returns b \<Longrightarrow> returns (if c then a else b)"
  by simp

lemma returns_try_ignore: "returns (try_ignore m)"
  by (simp add: returns_def try_ignore_def)

lemma returns_try_finally:
  assumes "returns m" and "returns c"
  shows "returns (try_finally m c)"
proof (rule returnsI)
  fix s
  from returnsD [OF assms(1), of s] obtain x s1 where "m s = (Val x, s1)" by blast
  moreover from returnsD [OF assms(2), of s1] obtain y s2 where "c s1 = (Val y, s2)" by blast
  ultimately show "\<exists>y s'. try_finally m c s = (Val y, s')"
    by (simp add: try_finally_def)
qed

lemma returns_for_each: "(\<And>x. returns (f x)) \<Longrightarrow> returns (for_each f xs)"
  by (induction xs) (simp_all add: returns_ret returns_bnd)

lemma returns_send: "calls_succeed w \<Longrightarrow> returns (sendTelegramMessage w token chat_id text)"
  by (simp add: returns_def calls_succeed_def sendTelegramMessage_def Let_def)

lemma returns_mkdtemp:
  assumes "calls_succeed w"
  shows "returns (mkdtempSync w p)"
proof (rule returnsI)
  fix s :: state
  from assms have "\<not> isl (mkdtemp_result w (length (trace s)))"
    by (simp add: calls_succeed_def)
  then obtain suffix where "mkdtemp_result w (length (trace s)) = Inr suffix"
    by (cases "mkdtemp_result w (length (trace s))") simp_all
  then show "\<exists>x s'. mkdtempSync w p s = (Val x, s')"
    by (simp add: mkdtemp_ok)
qed

lemma returns_runCmd: "calls_succeed w \<Longrightarrow> returns (runCmd w cmd args cwd)"
  by (simp add: returns_def calls_succeed_def runCmd_def bnd_def spawnSync_def Let_def ret_def)

lemma returns_upload: "calls_succeed w \<Longrightarrow> returns (uploadDocumentCurl w token chat_id p caption)"
  by (simp add: returns_def calls_succeed_def uploadDocumentCurl_def bnd_def spawnSync_def Let_def ret_def)

lemma returns_run_stat:
  assumes ok: "calls_succeed w" and tg: "cmd_target cmd args = Some p"
    and k: "\<And>sz. returns (k sz)"
  shows "returns (bnd (runCmd w cmd args cwd) (\<lambda>_. bnd (statSync p) k))"
proof (rule returnsI)
  fix s :: state
  from ok obtain sz where sz: "sp_wrote (spawn_result w (length (trace s))) = Some sz"
    unfolding calls_succeed_def by (metis not_None_eq)
  from ok have sp: "sp_error (spawn_result w (length (trace s))) = None"
    "sp_status (spawn_result w (length (trace s))) = Some 0"
    by (simp_all add: calls_succeed_def)
  have "bnd (runCmd w cmd args cwd) (\<lambda>_. bnd (statSync p) k) s =
      k sz (write_file p sz (emit (Spawn cmd args cwd) s))"
    by (simp add: bnd_def runCmd_ok [OF sp] tg sz stat_written)
  with returnsD [OF k, of sz "write_file p sz (emit (Spawn cmd args cwd) s)"]
  show "\<exists>x s'. bnd (runCmd w cmd args cwd) (\<lambda>_. bnd (statSync p) k) s = (Val x, s')"
    by simp
qed

lemma returns_stage_file:
  assumes ok: "calls_succeed w"
  shows "returns (stage_file w token chat_id url filename maxBytes)"
  unfolding stage_file_def Let_def downloadWithWget_def
  by (intro returns_bnd returns_mkdtemp returns_try_finally returns_send returns_try_ignore
      returns_run_stat returns_if returns_upload ok wget_target)

lemma returns_stage_folder:
  assumes ok: "calls_succeed w"
  shows "returns (stage_folder w token chat_id folderId maxBytes fs)"
  unfolding stage_folder_def Let_def downloadWithWget_def
  by (intro returns_bnd returns_mkdtemp returns_try_finally returns_send returns_try_ignore
      returns_run_stat returns_if returns_upload returns_for_each returns_runCmd ok zip_target)

lemma returns_chunk_loop:
  "calls_succeed w \<Longrightarrow> returns (chunk_loop w token chat_id lines chunk curLen)"
  by (induction lines arbitrary: chunk curLen) (simp_all add: returns_ret returns_bnd returns_send)

lemma returns_send_links:
  assumes ok: "calls_succeed w"
  shows "returns (send_links w token chat_id fs)"
  unfolding send_links_def send_chunks_def Let_def
  by (intro returns_bnd returns_send returns_chunk_loop returns_if returns_ret ok)

lemma handleFile_returns:
  assumes ok: "calls_succeed w"
    and pr: "probe fileId (head_result w (length (trace s))) = Inr p"
  shows "\<exists>s'. handleFile w token chat_id fileId maxBytes s = (Val (), s')"
proof -
  obtain filename sz where p: "p = (filename, sz)" by (cases p)
  let ?s1 = "emit (Head (fileApiUrl fileId)) s"
  let ?m = "if too_large sz maxBytes then
              sendTelegramMessage w token chat_id
                (msg_file_too_large filename (the sz) (fileApiUrl fileId))
            else stage_file w token chat_id (fileApiUrl fileId) filename maxBytes"
  have "handleFile w token chat_id fileId maxBytes s = ?m ?s1"
    using pr p by (simp add: handleFile_def bnd_def headUrl_def Let_def)
  moreover have "returns ?m"
    by (intro returns_if returns_send returns_stage_file ok)
  ultimately show ?thesis using returnsD [of ?m ?s1] by simp
qed

lemma handleFolder_returns:
  assumes ok: "calls_succeed w"
    and lr: "list_result w (length (trace s)) = Inr resp"
    and body: "l_ok resp \<longrightarrow> \<not> isl (l_body resp)"
  shows "\<exists>s'. handleFolder w token chat_id folderId maxBytes s = (Val (), s')"
proof -
  let ?s1 = "emit (FetchList (folderApiUrl folderId)) s"
  let ?m = "if \<not> l_ok resp then
         sendTelegramMessage w token chat_id
           (u ''Failed to read folder '' @ folderId @ u '': HTTP '' @ int_text (l_status resp))
       else
         case l_body resp of
           Inl e \<Rightarrow> throw e
         | Inr json \<Rightarrow>
             (case json of
                None \<Rightarrow>
                  sendTelegramMessage w token chat_id
                    (u ''Folder appears empty or returned no files.'')
              | Some fs \<Rightarrow>
                  if fs = [] then
                    sendTelegramMessage w token chat_id
                      (u ''Folder appears empty or returned no files.'')
                  else if js_gt (totalBytes fs) maxBytes then
                    send_links w token chat_id fs
                  else stage_folder w token chat_id folderId maxBytes fs)"
  have "handleFolder w token chat_id folderId maxBytes s = ?m ?s1"
    using lr by (simp add: handleFolder_def bnd_def fetch_list_def Let_def)
  moreover have "returns ?m"
    using body
    by (auto simp add: returns_send returns_send_links returns_stage_folder ok
        split: sum.splits option.splits)
  ultimately show ?thesis using returnsD [of ?m ?s1] by simp
qed

lemma main_returned:
  "main_body e w s = (Val x, s') \<Longrightarrow> main e w s = \<lparr>exit_code = 0, final = s'\<rparr>"
  by (simp add: main_def)

lemma main_body_file:
  assumes "\<not> missing (PIXEL_LINK e)" "\<not> missing (TELEGRAM_BOT_TOKEN e)" "\<not> missing (TELEGRAM_CHAT_ID e)"
    and "PIXEL_FILE_RE (the (PIXEL_LINK e)) = Some fileId"
    and "send_result w (length (trace s)) = None"
  shows "main_body e w s =
     handleFile w (the (TELEGRAM_BOT_TOKEN e)) (the (TELEGRAM_CHAT_ID e)) fileId (max_bytes e)
       (emit (TgSend (the (TELEGRAM_BOT_TOKEN e)) (the (TELEGRAM_CHAT_ID e)) msg_start) s)"
  using assms by (simp add: main_body_def Let_def bnd_send_ok msg_start_def)

lemma main_body_folder:
  assumes "\<not> missing (PIXEL_LINK e)" "\<not> missing (TELEGRAM_BOT_TOKEN e)" "\<not> missing (TELEGRAM_CHAT_ID e)"
    and "PIXEL_FILE_RE (the (PIXEL_LINK e)) = None"
    and "PIXEL_FOLDER_RE (the (PIXEL_LINK e)) = Some folderId"
    and "send_result w (length (trace s)) = None"
  shows "main_body e w s =
     handleFolder w (the (TELEGRAM_BOT_TOKEN e)) (the (TELEGRAM_CHAT_ID e)) folderId (max_bytes e)
       (emit (TgSend (the (TELEGRAM_BOT_TOKEN e)) (the (TELEGRAM_CHAT_ID e)) msg_start) s)"
  using assms by (simp add: main_body_def Let_def bnd_send_ok msg_start_def)

lemma calls_succeed_sends: "calls_succeed w \<Longrightarrow> \<forall>n. send_result w n = None"
  by (simp add: calls_succeed_def)

lemma handleFile_too_large_run:
  assumes "probe fileId (head_result w (length (trace s))) = Inr (filename, sz)"
    and "too_large sz maxBytes" and "send_result w (length (trace s) + 1) = None"
  shows "handleFile w token chat_id fileId maxBytes s =
           (Val (), s\<lparr>trace := trace s @ [Head (fileApiUrl fileId),
                 TgSend token chat_id (msg_file_too_large filename (the sz) (fileApiUrl fileId))]\<rparr>)"
  using assms
  by (simp add: handleFile_def bnd_def headUrl_def sendTelegramMessage_def emit_def Let_def)

lemma main_file_ok:
  assumes cfg: "\<not> missing (PIXEL_LINK e)" "\<not> missing (TELEGRAM_BOT_TOKEN e)" "\<not> missing (TELEGRAM_CHAT_ID e)"
    and flink: "PIXEL_FILE_RE (the (PIXEL_LINK e)) = Some fileId"
    and ok: "calls_succeed w"
    and pr: "probe fileId (head_result w (length (trace s) + 1)) = Inr (filename, sz)"
  shows "exit_code (main e w s) = 0"
    and "too_large sz (max_bytes e) \<Longrightarrow>
         trace (final (main e w s)) = trace s @
           [TgSend (the (TELEGRAM_BOT_TOKEN e)) (the (TELEGRAM_CHAT_ID e)) msg_start,
            Head (fileApiUrl fileId),
            TgSend (the (TELEGRAM_BOT_TOKEN e)) (the (TELEGRAM_CHAT_ID e))
              (msg_file_too_large filename (the sz) (fileApiUrl fileId))]"
proof -
  let ?t = "the (TELEGRAM_BOT_TOKEN e)" and ?c = "the (TELEGRAM_CHAT_ID e)"
  let ?s1 = "emit (TgSend ?t ?c msg_start) s"
  note sends = calls_succeed_sends [OF ok]
  have mb: "main_body e w s = handleFile w ?t ?c fileId (max_bytes e) ?s1"
    using sends by (intro main_body_file cfg flink) simp
  have l1: "length (trace ?s1) = length (trace s) + 1" by (simp add: trace_emit)
  have pr': "probe fileId (head_result w (length (trace ?s1))) = Inr (filename, sz)"
    using pr by (simp only: l1)
  from handleFile_returns [OF ok pr', of ?t ?c "max_bytes e"] obtain s' where
    "handleFile w ?t ?c fileId (max_bytes e) ?s1 = (Val (), s')" by blast
  with mb show "exit_code (main e w s) = 0" by (simp add: main_returned)
  show "trace (final (main e w s)) = trace s @
           [TgSend ?t ?c msg_start, Head (fileApiUrl fileId),
            TgSend ?t ?c (msg_file_too_large filename (the sz) (fileApiUrl fileId))]"
    if big: "too_large sz (max_bytes e)"
  proof -
    have "send_result w (length (trace ?s1) + 1) = None" using sends by simp
    from handleFile_too_large_run [OF pr' big this, of ?t ?c] mb
    show ?thesis by (simp add: main_returned trace_emit)
  qed
qed

lemma main_folder_ok:
  assumes cfg: "\<not> missing (PIXEL_LINK e)" "\<not> missing (TELEGRAM_BOT_TOKEN e)" "\<not> missing (TELEGRAM_CHAT_ID e)"
    and nofile: "PIXEL_FILE_RE (the (PIXEL_LINK e)) = None"
    and folder: "PIXEL_FOLDER_RE (the (PIXEL_LINK e)) = Some folderId"
    and ok: "calls_succeed w"
    and lr: "list_result w (length (trace s) + 1) = Inr resp"
    and body: "l_ok resp \<longrightarrow> \<not> isl (l_body resp)"
  shows "exit_code (main e w s) = 0"
    and "l_ok resp \<Longrightarrow> l_body resp = Inr (Some fs) \<Longrightarrow> fs \<noteq> [] \<Longrightarrow>
         js_gt (totalBytes fs) (max_bytes e) \<Longrightarrow>
         trace (final (main e w s)) = trace s @
           TgSend (the (TELEGRAM_BOT_TOKEN e)) (the (TELEGRAM_CHAT_ID e)) msg_start
           # FetchList (folderApiUrl folderId)
           # TgSend (the (TELEGRAM_BOT_TOKEN e)) (the (TELEGRAM_CHAT_ID e))
               (msg_folder_too_large (length fs) (totalBytes fs)
                  (join [10, 10] (take 20 (map member_line fs))))
           # map (\<lambda>ch. TgSend (the (TELEGRAM_BOT_TOKEN e)) (the (TELEGRAM_CHAT_ID e)) (join [10, 10] ch))
               (chunks (map member_line fs) [] 0)"
proof -
  let ?t = "the (TELEGRAM_BOT_TOKEN e)" and ?c = "the (TELEGRAM_CHAT_ID e)"
  let ?s1 = "emit (TgSend ?t ?c msg_start) s"
  note sends = calls_succeed_sends [OF ok]
  have mb: "main_body e w s = handleFolder w ?t ?c folderId (max_bytes e) ?s1"
    using sends by (intro main_body_folder cfg nofile folder) simp
  have l1: "length (trace ?s1) = length (trace s) + 1" by (simp add: trace_emit)
  have lr': "list_result w (length (trace ?s1)) = Inr resp"
    using lr by (simp only: l1)
  from handleFolder_returns [OF ok lr' body, of ?t ?c folderId "max_bytes e"] obtain s' where
    hf: "handleFolder w ?t ?c folderId (max_bytes e) ?s1 = (Val (), s')" by blast
  with mb show "exit_code (main e w s) = 0" by (simp add: main_returned)
  show "trace (final (main e w s)) = trace s @
           TgSend ?t ?c msg_start # FetchList (folderApiUrl folderId)
           # TgSend ?t ?c (msg_folder_too_large (length fs) (totalBytes fs)
                  (join [10, 10] (take 20 (map member_line fs))))
           # map (\<lambda>ch. TgSend ?t ?c (join [10, 10] ch)) (chunks (map member_line fs) [] 0)"
    if a: "l_ok resp" "l_body resp = Inr (Some fs)" "fs \<noteq> []" "js_gt (totalBytes fs) (max_bytes e)"
  proof -
    from folder_links_run_ok [OF lr' a sends, of ?t ?c folderId] mb hf
    show ?thesis by (simp add: main_returned trace_emit)
  qed
qed

section \<open>Concrete runs of the entry point\<close>

lemma file_link_file: "PIXEL_FILE_RE (u ''https://pixeldrain.com/u/abc'') = Some (u ''abc'')"
  by (simp add: PIXEL_FILE_RE_def pixel_match_here_def opt_prefix_ci_def lower_def u_def is_id_char_def)

lemma e_file_fields:
  "\<not> missing (PIXEL_LINK e_file)" "\<not> missing (TELEGRAM_BOT_TOKEN e_file)"
  "\<not> missing (TELEGRAM_CHAT_ID e_file)"
  "the (PIXEL_LINK e_file) = u ''https://pixeldrain.com/u/abc''"
  "the (TELEGRAM_BOT_TOKEN e_file) = u ''T''" "the (TELEGRAM_CHAT_ID e_file) = u ''42''"
  "max_bytes e_file = DEFAULT_MAX_BYTES"
  by (simp_all add: e_file_def e_folder_def missing_def u_def max_bytes_def)

lemma js_Number_1000: "js_Number (u ''1000'') = Fin 1000"
  by (simp add: u_def js_Number_def trim_def is_ws_def signed_decimal_def unsigned_decimal_def
      is_digit_def exponent_part_def digit_val_def round64_numeral)

lemma e_file_1000_fields:
  "\<not> missing (PIXEL_LINK e_file_1000)" "\<not> missing (TELEGRAM_BOT_TOKEN e_file_1000)"
  "\<not> missing (TELEGRAM_CHAT_ID e_file_1000)"
  "the (PIXEL_LINK e_file_1000) = u ''https://pixeldrain.com/u/abc''"
  "the (TELEGRAM_BOT_TOKEN e_file_1000) = u ''T''" "the (TELEGRAM_CHAT_ID e_file_1000) = u ''42''"
  "max_bytes e_file_1000 = Fin 1000"
proof -
  have "max_bytes e_file_1000 = js_Number (u ''1000'')"
    by (simp add: e_file_1000_def max_bytes_def missing_def u_def)
  then show "max_bytes e_file_1000 = Fin 1000" by (simp only: js_Number_1000)
qed (simp_all add: e_file_1000_def e_file_def e_folder_def missing_def u_def)

lemma e_folder_1000_fields:
  "\<not> missing (PIXEL_LINK e_folder_1000)" "\<not> missing (TELEGRAM_BOT_TOKEN e_folder_1000)"
  "\<not> missing (TELEGRAM_CHAT_ID e_folder_1000)"
  "the (PIXEL_LINK e_folder_1000) = u ''https://pixeldrain.com/l/F1''"
  "the (TELEGRAM_BOT_TOKEN e_folder_1000) = u ''T''" "the (TELEGRAM_CHAT_ID e_folder_1000) = u ''42''"
  "max_bytes e_folder_1000 = Fin 1000"
proof -
  have "max_bytes e_folder_1000 = js_Number (u ''1000'')"
    by (simp add: e_folder_1000_def max_bytes_def missing_def u_def)
  then show "max_bytes e_folder_1000 = Fin 1000" by (simp only: js_Number_1000)
qed (simp_all add: e_folder_1000_def e_folder_def missing_def u_def)

lemma w_quiet_succeeds: "calls_succeed w_quiet"
  by (simp add: calls_succeed_def w_quiet_def)

lemma w_big_succeeds: "calls_succeed w_big"
  by (simp add: calls_succeed_def w_big_def w_quiet_def)

lemma w_listing_succeeds: "calls_succeed (w_listing fs)"
  by (simp add: calls_succeed_def w_listing_def w_quiet_def)

lemma cd_match_percent: "cd_match (u ''attachment; filename=100%.txt'') = Some (u ''100%.txt'')"
  by (simp add: u_def cd_match_here_def lower_def)

lemma decode_percent: "decodeURIComponent (u ''100%.txt'') = Inl URIError"
  by (simp add: u_def decodeURIComponent_def digit_val_def)

lemma probe_h_percent: "probe fileId (Some h_percent) = Inl URIError"
  by (simp add: probe_def h_percent_def cd_match_percent decode_percent)

lemma percent_run:
  "main e_file w_percent s_init = \<lparr>exit_code = 1, final = s_init\<lparr>trace :=
      [TgSend (u ''T'') (u ''42'') msg_start, Head (fileApiUrl (u ''abc'')),
       TgSend (u ''T'') (u ''42'') (msg_error URIError)]\<rparr>\<rparr>"
proof -
  let ?s1 = "emit (TgSend (u ''T'') (u ''42'') msg_start) s_init"
  have f: "PIXEL_FILE_RE (the (PIXEL_LINK e_file)) = Some (u ''abc'')"
    by (simp add: e_file_fields file_link_file)
  have s: "send_result w_percent (length (trace s_init)) = None"
    by (simp add: w_percent_def w_quiet_def)
  have pr: "probe (u ''abc'') (head_result w_percent (length (trace ?s1))) = Inl URIError"
    by (simp add: w_percent_def probe_h_percent)
  have "main_body e_file w_percent s_init =
      (Exc URIError, emit (Head (fileApiUrl (u ''abc''))) ?s1)"
    unfolding main_body_file [OF e_file_fields(1-3) f s] e_file_fields
    by (rule handleFile_probe_fails [OF pr])
  then show ?thesis
    by (simp add: main_def e_file_fields try_ignore_def send_snd emit_trace_upd s_init_def)
qed

section \<open>The claims\<close>

subsection \<open>C3: a single file known to be over the budget\<close>

text \<open>
  Claim C3. When the probe of a single file gives a size that is known (the number
  \<open>Number\<close> makes of the \<open>content-length\<close> header, a binary64 value, when it is
  neither 0 nor \<open>NaN\<close>, the two values the script reads as no size) and strictly
  greater than \<open>maxBytes\<close>, \<open>handleFile\<close> makes exactly two calls, the \<open>HEAD\<close> request
  and one notification: nothing is downloaded, no staging directory is created and the
  file system is unchanged. The notification is the link-fallback message, and its text
  contains the direct download URL of the file, escaped for MarkdownV2 as every embedded
  text is, between double backquotes; read as MarkdownV2 the escaped text is the URL.
  The outcome is that of the notification.
\<close>

theorem handleFile_known_too_large:
  assumes "probe fileId (head_result w (length (trace s))) = Inr (filename, Some n)"
    and "truthy_num n" and "js_gt n maxBytes"
  shows "handleFile w token chat_id fileId maxBytes s =
           (case send_result w (length (trace s) + 1) of None \<Rightarrow> Val () | Some e \<Rightarrow> Exc e,
            s\<lparr>trace := trace s @ [Head (fileApiUrl fileId),
                 TgSend token chat_id (msg_file_too_large filename n (fileApiUrl fileId))]\<rparr>)
       \<and> (\<exists>a b. msg_file_too_large filename n (fileApiUrl fileId) =
              a @ [96, 96] @ escapeMarkdownV2 (fileApiUrl fileId) @ [96, 96] @ b)
       \<and> unescape (escapeMarkdownV2 (fileApiUrl fileId)) = fileApiUrl fileId"
  using assms msg_file_too_large_url [of filename n "fileApiUrl fileId"]
  by (simp add: handleFile_def bnd_def headUrl_def sendTelegramMessage_def emit_def too_large_def
      Let_def unescape_escape split: option.splits)

theorem handleFile_known_too_large_witness:
  "probe (u ''abc'') (head_result (w_quiet\<lparr>head_result := \<lambda>_. Some h_big\<rparr>) (length (trace s_init)))
      = Inr (u ''report.pdf'', Some (Fin 5000))
   \<and> truthy_num (Fin 5000) \<and> js_gt (Fin 5000) (Fin 1000)
   \<and> trace (snd (handleFile (w_quiet\<lparr>head_result := \<lambda>_. Some h_big\<rparr>) (u ''T'') (u ''42'') (u ''abc'') (Fin 1000) s_init))
      = [Head (fileApiUrl (u ''abc'')),
         TgSend (u ''T'') (u ''42'') (msg_file_too_large (u ''report.pdf'') (Fin 5000) (fileApiUrl (u ''abc'')))]"
proof -
  have a: "probe (u ''abc'') (head_result (w_quiet\<lparr>head_result := \<lambda>_. Some h_big\<rparr>) (length (trace s_init)))
      = Inr (u ''report.pdf'', Some (Fin 5000))"
    by (simp add: probe_h_big)
  have b: "truthy_num (Fin 5000)" by simp
  have c: "js_gt (Fin 5000) (Fin 1000)" by simp
  from handleFile_known_too_large [OF a b c, of "u ''T''" "u ''42''"]
  have "trace (snd (handleFile (w_quiet\<lparr>head_result := \<lambda>_. Some h_big\<rparr>) (u ''T'') (u ''42'') (u ''abc'') (Fin 1000) s_init))
      = [Head (fileApiUrl (u ''abc'')),
         TgSend (u ''T'') (u ''42'') (msg_file_too_large (u ''report.pdf'') (Fin 5000) (fileApiUrl (u ''abc'')))]"
    by (simp add: s_init_def)
  with a b c show ?thesis by blast
qed

subsection \<open>C4: a single file of unknown size\<close>

text \<open>
  Claim C4 says that a file whose probed size is unknown is downloaded, and that a
  download larger than \<open>maxBytes\<close> is discarded, not uploaded, and answered with a
  fallback notification that holds the direct URL. Whenever the probe yields a file
  name and no size, that is what \<open>handleFile\<close> does (lemma \<open>handleFile_no_size\<close>
  above). But the probe applies \<open>decodeURIComponent\<close> to the file name of the
  \<open>content-disposition\<close> header (line 88), and nothing catches what it throws, while
  a \<open>HEAD\<close> request that fails is caught (\<open>headUrl\<close> returns \<open>null\<close>) and an answer
  that is not \<open>ok\<close> is skipped, both leaving the default name and no size. Here is the
  run for a file that the header names \<open>100%.txt\<close>, with no \<open>content-length\<close>: the
  probe throws \<open>URIError\<close>, \<open>handleFile\<close> makes the \<open>HEAD\<close> request and no other
  call, so no staging directory and no \<open>wget\<close>, and the run ends with the error
  notification and the exit code 1.
\<close>

theorem undecodable_name_no_download:
  "content_length h_percent = None
   \<and> content_disposition h_percent = Some (u ''attachment; filename=100%.txt'')
   \<and> head_result w_percent 1 = Some h_percent
   \<and> probe (u ''abc'') (Some h_percent) = Inl URIError
   \<and> handleFile w_percent (u ''T'') (u ''42'') (u ''abc'') (Fin 1000) s_init =
        (Exc URIError, s_init\<lparr>trace := [Head (fileApiUrl (u ''abc''))]\<rparr>)
   \<and> PIXEL_LINK e_file = Some (u ''https://pixeldrain.com/u/abc'')
   \<and> exit_code (main e_file w_percent s_init) = 1
   \<and> trace (final (main e_file w_percent s_init)) =
        [TgSend (u ''T'') (u ''42'') msg_start, Head (fileApiUrl (u ''abc'')),
         TgSend (u ''T'') (u ''42'') (msg_error URIError)]"
proof -
  have "probe (u ''abc'') (head_result w_percent (length (trace s_init))) = Inl URIError"
    by (simp add: w_percent_def probe_h_percent)
  from handleFile_probe_fails [OF this, of "u ''T''" "u ''42''" "Fin 1000"]
  have "handleFile w_percent (u ''T'') (u ''42'') (u ''abc'') (Fin 1000) s_init =
        (Exc URIError, s_init\<lparr>trace := [Head (fileApiUrl (u ''abc''))]\<rparr>)"
    by (simp add: emit_trace_upd s_init_def)
  moreover have "content_length h_percent = None
      \<and> content_disposition h_percent = Some (u ''attachment; filename=100%.txt'')"
    by (simp add: h_percent_def)
  moreover have "head_result w_percent 1 = Some h_percent" by (simp add: w_percent_def)
  moreover have "PIXEL_LINK e_file = Some (u ''https://pixeldrain.com/u/abc'')"
    by (simp add: e_file_def)
  ultimately show ?thesis
    by (simp add: probe_h_percent percent_run)
qed

subsection \<open>C9: a \<open>content-length\<close> of \<open>0\<close> or of no number\<close>



subsection \<open>C7: splitting a long list of lines\<close>

text \<open>
  Claim C7, as the code has it. The loop compares the sum of the lengths of the lines of
  a chunk with 3000, the separators between them not counted, and never looks at a line
  that is by itself longer. So: for every list of lines, each at most 3000 code units
  long, whose lengths add up to more than 3000, and with every notification succeeding,
  \<open>send_chunks\<close> sends two messages or more; the messages are the groups \<open>chunks\<close> of
  the lines, in order, each the join of a non-empty run of whole consecutive lines with
  a blank line between them; the groups put together are the list of lines; and the
  lines of a message are at most 3000 code units together, the text of the message
  being longer than that sum by two for every line after its first.
\<close>

theorem send_chunks_splits:
  assumes short: "\<forall>l \<in> set lines. length l \<le> 3000"
    and long: "sum_list (map length lines) > 3000"
    and ok: "\<forall>n. send_result w n = None"
  shows "send_chunks w token chat_id lines s =
           (Val (), s\<lparr>trace := trace s @
              map (\<lambda>ch. TgSend token chat_id (join [10, 10] ch)) (chunks lines [] 0)\<rparr>)
       \<and> 2 \<le> length (chunks lines [] 0)
       \<and> concat (chunks lines [] 0) = lines
       \<and> (\<forall>ch \<in> set (chunks lines [] 0).
             ch \<noteq> [] \<and> sum_list (map length ch) \<le> 3000
             \<and> length (join [10, 10] ch) = sum_list (map length ch) + 2 * (length ch - 1))"
proof -
  have "2 \<le> length (chunks lines [] 0)"
    using short long by (intro chunks_two) simp_all
  moreover have "\<forall>ch \<in> set (chunks lines [] 0). ch \<noteq> [] \<and> sum_list (map length ch) \<le> 3000"
    using short by (intro chunks_bounded) simp_all
  ultimately show ?thesis
    by (simp add: send_chunks_ok [OF ok] concat_chunks length_join)
qed

theorem send_chunks_splits_witness:
  "list_all (\<lambda>l. length l \<le> 3000) three_lines
   \<and> sum_list (map length three_lines) > 3000
   \<and> (\<forall>n. send_result w_quiet n = None)
   \<and> trace (snd (send_chunks w_quiet (u ''T'') (u ''42'') three_lines s_init)) =
        [TgSend (u ''T'') (u ''42'') (replicate 1500 120 @ [10, 10] @ replicate 1500 121),
         TgSend (u ''T'') (u ''42'') (replicate 1500 122)]
   \<and> length (chunks three_lines [] 0) = 2"
proof -
  have a: "\<forall>l \<in> set three_lines. length l \<le> 3000" by (simp add: three_lines_def)
  have b: "sum_list (map length three_lines) > 3000" by (simp add: three_lines_def)
  from send_chunks_splits [OF a b w_quiet_sends, of "u ''T''" "u ''42''" s_init]
  have "send_chunks w_quiet (u ''T'') (u ''42'') three_lines s_init =
           (Val (), s_init\<lparr>trace := trace s_init @
              map (\<lambda>ch. TgSend (u ''T'') (u ''42'') (join [10, 10] ch)) (chunks three_lines [] 0)\<rparr>)"
    by blast
  then have "trace (snd (send_chunks w_quiet (u ''T'') (u ''42'') three_lines s_init)) =
        [TgSend (u ''T'') (u ''42'') (replicate 1500 120 @ [10, 10] @ replicate 1500 121),
         TgSend (u ''T'') (u ''42'') (replicate 1500 122)]"
    by (simp add: chunks_three_lines s_init_def)
  moreover have "list_all (\<lambda>l. length l \<le> 3000) three_lines" by (simp add: three_lines_def)
  moreover note w_quiet_sends
  moreover have "length (chunks three_lines [] 0) = 2" by (simp add: chunks_three_lines)
  ultimately show ?thesis using b by blast
qed

text \<open>
  The claim as stated fails on the code. A single line of 5000 code units is sent whole,
  after an empty message: a message over any limit of at most 5000, and one that is no
  item at all. Two lines of 1500 code units, 3002 with their separator, are sent as one
  message of 3002 code units: one message, not two, and over the 3000 the loop compares
  with.
\<close>

theorem send_chunks_counterexample:
  "trace (snd (send_chunks w_quiet (u ''T'') (u ''42'') one_long s_init)) =
     [TgSend (u ''T'') (u ''42'') [], TgSend (u ''T'') (u ''42'') (replicate 5000 120)]
   \<and> length (replicate 5000 (120::nat)) = 5000
   \<and> trace (snd (send_chunks w_quiet (u ''T'') (u ''42'') two_halves s_init)) =
     [TgSend (u ''T'') (u ''42'') (join [10, 10] two_halves)]
   \<and> length (join [10, 10] two_halves) = 3002"
  by (simp add: send_chunks_ok [OF w_quiet_sends] chunks_one_long chunks_two_halves s_init_def)
     (simp add: two_halves_def)

subsection \<open>C2: a folder whose listed total is over the budget\<close>

text \<open>
  Claim C2. For a folder listing with members, \<open>totalBytes\<close> is the sum of the sizes
  the members report, a missing size counting as 0 (and so does a size that is 0 or
  \<open>NaN\<close>). The sum is the one the script computes: \<open>+\<close> on numbers, from 0, in the order of the listing; whenever the sizes are
  non-negative integers that add up to \<open>2 ^ 53\<close> at most it is their exact sum. Whenever
  that total is greater than \<open>maxBytes\<close>, every call \<open>handleFolder\<close> makes after
  fetching the listing is a notification, whatever the world answers: no staging
  directory, no \<open>wget\<close>, no \<open>zip\<close>, no \<open>curl\<close>. When the notifications succeed, they
  are the summary followed by the chunks of the members' lines, every member's line is
  in the text of one of them, and a member's line contains its name and its direct URL
  (both escaped for MarkdownV2, the URL between double backquotes; read as MarkdownV2 the
  escaped URL is the URL).
\<close>

theorem handleFolder_over_budget:
  assumes list: "list_result w (length (trace s)) = Inr resp" "l_ok resp"
      "l_body resp = Inr (Some fs)" "fs \<noteq> []"
    and big: "js_gt (totalBytes fs) maxBytes"
  shows "totalBytes fs = foldl js_add (Fin 0) (map size_or_0 fs)
       \<and> (\<forall>f \<in> set fs. fsize f = None \<longrightarrow> size_or_0 f = Fin 0)
       \<and> (\<forall>f \<in> set fs. \<forall>n. fsize f = Some n \<longrightarrow>
              size_or_0 f = (if truthy_num n then n else Fin 0))
       \<and> (\<forall>ks. map size_or_0 fs = map (\<lambda>k. Fin (of_int k)) ks \<and> (\<forall>k \<in> set ks. 0 \<le> k)
              \<and> sum_list ks \<le> 9007199254740992 \<longrightarrow>
            totalBytes fs = Fin (of_int (sum_list ks)))
       \<and> (\<exists>evs. trace (snd (handleFolder w token chat_id folderId maxBytes s)) =
                  trace s @ FetchList (folderApiUrl folderId) # evs
               \<and> list_all is_send evs)
       \<and> ((\<forall>n. send_result w n = None) \<longrightarrow>
            trace (snd (handleFolder w token chat_id folderId maxBytes s)) =
              trace s @ FetchList (folderApiUrl folderId)
                # TgSend token chat_id (msg_folder_too_large (length fs) (totalBytes fs)
                    (join [10, 10] (take 20 (map member_line fs))))
                # map (\<lambda>ch. TgSend token chat_id (join [10, 10] ch))
                    (chunks (map member_line fs) [] 0)
            \<and> (\<forall>f \<in> set fs.
                  (\<exists>ch \<in> set (chunks (map member_line fs) [] 0).
                     \<exists>a b. join [10, 10] ch = a @ member_line f @ b)
                  \<and> (\<exists>a b c. member_line f = a @ escapeMarkdownV2 (fname f) @ b
                        @ [96, 96] @ escapeMarkdownV2 (fileApiUrl (fid f)) @ [96, 96] @ c)
                  \<and> unescape (escapeMarkdownV2 (fileApiUrl (fid f))) = fileApiUrl (fid f)))"
proof (intro conjI impI ballI allI)
  show "totalBytes fs = foldl js_add (Fin 0) (map size_or_0 fs)"
    by (rule totalBytes_foldl)
next
  fix f :: member assume "fsize f = None"
  then show "size_or_0 f = Fin 0" by (simp add: size_or_0_def)
next
  fix f :: member and n assume "fsize f = Some n"
  then show "size_or_0 f = (if truthy_num n then n else Fin 0)" by (simp add: size_or_0_def)
next
  fix ks
  assume "map size_or_0 fs = map (\<lambda>k. Fin (of_int k)) ks \<and> (\<forall>k \<in> set ks. 0 \<le> k)
              \<and> sum_list ks \<le> 9007199254740992"
  then show "totalBytes fs = Fin (of_int (sum_list ks))"
    by (intro totalBytes_exact) simp_all
next
  have "emits is_send (send_links w token chat_id fs)"
    by (rule emits_send_links) (simp add: is_send_def)
  from emitsD [OF this, of "emit (FetchList (folderApiUrl folderId)) s"]
  show "\<exists>evs. trace (snd (handleFolder w token chat_id folderId maxBytes s)) =
                  trace s @ FetchList (folderApiUrl folderId) # evs \<and> list_all is_send evs"
    by (simp add: folder_links_run [OF list big] trace_emit)
next
  assume ok: "\<forall>n. send_result w n = None"
  show "trace (snd (handleFolder w token chat_id folderId maxBytes s)) =
              trace s @ FetchList (folderApiUrl folderId)
                # TgSend token chat_id (msg_folder_too_large (length fs) (totalBytes fs)
                    (join [10, 10] (take 20 (map member_line fs))))
                # map (\<lambda>ch. TgSend token chat_id (join [10, 10] ch))
                    (chunks (map member_line fs) [] 0)"
    by (rule folder_links_run_ok [OF list big ok])
next
  fix f assume "f \<in> set fs"
  then show "\<exists>ch \<in> set (chunks (map member_line fs) [] 0).
                     \<exists>a b. join [10, 10] ch = a @ member_line f @ b"
    by (rule line_in_chunk_text)
next
  fix f :: member
  show "\<exists>a b c. member_line f = a @ escapeMarkdownV2 (fname f) @ b
                        @ [96, 96] @ escapeMarkdownV2 (fileApiUrl (fid f)) @ [96, 96] @ c"
    by (rule member_line_parts)
next
  fix f :: member
  show "unescape (escapeMarkdownV2 (fileApiUrl (fid f))) = fileApiUrl (fid f)"
    by (rule unescape_escape)
qed

theorem handleFolder_over_budget_witness:
  "list_result (w_listing three_files) (length (trace s_init)) =
      Inr \<lparr>l_ok = True, l_status = 200, l_body = Inr (Some three_files)\<rparr>
   \<and> l_ok \<lparr>l_ok = True, l_status = 200, l_body = Inr (Some three_files)\<rparr>
   \<and> l_body \<lparr>l_ok = True, l_status = 200, l_body = Inr (Some three_files)\<rparr> = Inr (Some three_files)
   \<and> three_files \<noteq> []
   \<and> js_gt (totalBytes three_files) (Fin 1000)
   \<and> (\<forall>n. send_result (w_listing three_files) n = None)
   \<and> map size_or_0 three_files = map (\<lambda>k. Fin (of_int k)) [600, 0, 500]
   \<and> list_all (\<lambda>k. 0 \<le> k) [600, 0, 500 :: int]
   \<and> sum_list [600, 0, 500 :: int] \<le> 9007199254740992
   \<and> totalBytes three_files = Fin (of_int (sum_list [600, 0, 500]))
   \<and> trace (snd (handleFolder (w_listing three_files) (u ''T'') (u ''42'') (u ''F1'') (Fin 1000) s_init)) =
        trace s_init @ FetchList (folderApiUrl (u ''F1''))
          # TgSend (u ''T'') (u ''42'') (msg_folder_too_large (length three_files) (totalBytes three_files)
               (join [10, 10] (take 20 (map member_line three_files))))
          # map (\<lambda>ch. TgSend (u ''T'') (u ''42'') (join [10, 10] ch))
               (chunks (map member_line three_files) [] 0)"
proof -
  let ?r = "\<lparr>l_ok = True, l_status = 200, l_body = Inr (Some three_files)\<rparr>"
  have a: "list_result (w_listing three_files) (length (trace s_init)) = Inr ?r" by (rule list_three)
  have b: "l_ok ?r" by simp
  have c: "l_body ?r = Inr (Some three_files)" by simp
  have d: "three_files \<noteq> []" by (simp add: three_files_def)
  have e: "js_gt (totalBytes three_files) (Fin 1000)"
    by (simp add: total_three)
  note f = w_listing_sends [of three_files]
  have g: "map size_or_0 three_files = map (\<lambda>k. Fin (of_int k)) [600, 0, 500]"
    by (simp add: three_files_def size_or_0_def)
  have h: "\<forall>k \<in> set [600, 0, 500 :: int]. 0 \<le> k" by simp
  have i: "sum_list [600, 0, 500 :: int] \<le> 9007199254740992" by simp
  note t = handleFolder_over_budget [OF a b c d e, of "u ''T''" "u ''42''" "u ''F1''"]
  from t g h i have "totalBytes three_files = Fin (of_int (sum_list [600, 0, 500]))"
    by blast
  moreover from t f
  have "trace (snd (handleFolder (w_listing three_files) (u ''T'') (u ''42'') (u ''F1'') (Fin 1000) s_init)) =
        trace s_init @ FetchList (folderApiUrl (u ''F1''))
          # TgSend (u ''T'') (u ''42'') (msg_folder_too_large (length three_files) (totalBytes three_files)
               (join [10, 10] (take 20 (map member_line three_files))))
          # map (\<lambda>ch. TgSend (u ''T'') (u ''42'') (join [10, 10] ch))
               (chunks (map member_line three_files) [] 0)"
    by blast
  moreover have "list_all (\<lambda>k. 0 \<le> k) [600, 0, 500 :: int]" by simp
  ultimately show ?thesis using a b c d e f g i by blast
qed

subsection \<open>C10: the first twenty links are sent twice\<close>

text \<open>
  Claim C10. In the link-fallback path of a folder whose listed total is over the
  budget, with the notifications succeeding: the first notification contains the lines
  of the first twenty members at most (the \<open>min 20 N\<close> first ones), and the messages
  that follow are the chunks of the lines of all the members, which put together are all
  the lines in order. The line of a member holds its link: the direct URL of the member,
  escaped for MarkdownV2, between double backquotes (read as MarkdownV2 the escaped URL
  is the URL). So the line, and with it the link, of each of the first \<open>min 20 N\<close>
  members is in the first notification and again in a chunk, and the line and the link
  of every member are in a chunk.
\<close>

theorem handleFolder_links_twice:
  assumes list: "list_result w (length (trace s)) = Inr resp" "l_ok resp"
      "l_body resp = Inr (Some fs)" "fs \<noteq> []"
    and big: "js_gt (totalBytes fs) maxBytes"
    and ok: "\<forall>n. send_result w n = None"
  shows "trace (snd (handleFolder w token chat_id folderId maxBytes s)) =
           trace s @ FetchList (folderApiUrl folderId)
             # TgSend token chat_id (msg_folder_too_large (length fs) (totalBytes fs)
                 (join [10, 10] (map member_line (take 20 fs))))
             # map (\<lambda>ch. TgSend token chat_id (join [10, 10] ch)) (chunks (map member_line fs) [] 0)
       \<and> (\<exists>a b. msg_folder_too_large (length fs) (totalBytes fs)
                 (join [10, 10] (map member_line (take 20 fs)))
               = a @ join [10, 10] (map member_line (take 20 fs)) @ b)
       \<and> length (take 20 fs) = min 20 (length fs)
       \<and> concat (chunks (map member_line fs) [] 0) = map member_line fs
       \<and> (\<forall>f \<in> set fs.
             (\<exists>a b. member_line f =
                a @ [96, 96] @ escapeMarkdownV2 (fileApiUrl (fid f)) @ [96, 96] @ b)
             \<and> unescape (escapeMarkdownV2 (fileApiUrl (fid f))) = fileApiUrl (fid f))
       \<and> (\<forall>i < min 20 (length fs).
             (\<exists>a b. join [10, 10] (map member_line (take 20 fs)) = a @ member_line (fs ! i) @ b)
             \<and> (\<exists>ch \<in> set (chunks (map member_line fs) [] 0).
                   \<exists>a b. join [10, 10] ch = a @ member_line (fs ! i) @ b)
             \<and> (\<exists>a b. msg_folder_too_large (length fs) (totalBytes fs)
                       (join [10, 10] (map member_line (take 20 fs)))
                     = a @ [96, 96] @ escapeMarkdownV2 (fileApiUrl (fid (fs ! i))) @ [96, 96] @ b)
             \<and> (\<exists>ch \<in> set (chunks (map member_line fs) [] 0).
                   \<exists>a b. join [10, 10] ch =
                     a @ [96, 96] @ escapeMarkdownV2 (fileApiUrl (fid (fs ! i))) @ [96, 96] @ b))
       \<and> (\<forall>f \<in> set fs.
             (\<exists>ch \<in> set (chunks (map member_line fs) [] 0).
                \<exists>a b. join [10, 10] ch = a @ member_line f @ b)
             \<and> (\<exists>ch \<in> set (chunks (map member_line fs) [] 0).
                   \<exists>a b. join [10, 10] ch =
                     a @ [96, 96] @ escapeMarkdownV2 (fileApiUrl (fid f)) @ [96, 96] @ b))"
proof -
  let ?first = "msg_folder_too_large (length fs) (totalBytes fs)
                 (join [10, 10] (map member_line (take 20 fs)))"
  let ?chunks = "chunks (map member_line fs) [] 0"
  have tr: "trace (snd (handleFolder w token chat_id folderId maxBytes s)) =
           trace s @ FetchList (folderApiUrl folderId)
             # TgSend token chat_id ?first
             # map (\<lambda>ch. TgSend token chat_id (join [10, 10] ch)) ?chunks"
    using folder_links_run_ok [OF list big ok, of token chat_id folderId] by (simp add: take_map)
  have pv: "\<exists>a b. ?first = a @ join [10, 10] (map member_line (take 20 fs)) @ b"
    by (rule msg_folder_preview)
  have ln: "length (take 20 fs) = min 20 (length fs)" by (simp add: min.commute)
  have cc: "concat ?chunks = map member_line fs" by (simp add: concat_chunks)
  have link: "(\<exists>a b. member_line f =
                a @ [96, 96] @ escapeMarkdownV2 (fileApiUrl (fid f)) @ [96, 96] @ b)
      \<and> unescape (escapeMarkdownV2 (fileApiUrl (fid f))) = fileApiUrl (fid f)" for f :: member
    using member_line_link [of f] by (simp add: unescape_escape)
  have in_chunk: "(\<exists>ch \<in> set ?chunks. \<exists>a b. join [10, 10] ch = a @ member_line f @ b)
      \<and> (\<exists>ch \<in> set ?chunks. \<exists>a b. join [10, 10] ch =
             a @ [96, 96] @ escapeMarkdownV2 (fileApiUrl (fid f)) @ [96, 96] @ b)"
    if f: "f \<in> set fs" for f
  proof -
    from line_in_chunk_text [OF f] obtain ch a b where
      ch: "ch \<in> set ?chunks" "join [10, 10] ch = a @ member_line f @ b" by blast
    from link_in_text [OF ch(2)] ch show ?thesis by blast
  qed
  have first: "(\<exists>a b. join [10, 10] (map member_line (take 20 fs)) = a @ member_line (fs ! i) @ b)
      \<and> (\<exists>ch \<in> set ?chunks. \<exists>a b. join [10, 10] ch = a @ member_line (fs ! i) @ b)
      \<and> (\<exists>a b. ?first =
             a @ [96, 96] @ escapeMarkdownV2 (fileApiUrl (fid (fs ! i))) @ [96, 96] @ b)
      \<and> (\<exists>ch \<in> set ?chunks. \<exists>a b. join [10, 10] ch =
             a @ [96, 96] @ escapeMarkdownV2 (fileApiUrl (fid (fs ! i))) @ [96, 96] @ b)"
    if i: "i < min 20 (length fs)" for i
  proof -
    from i have "fs ! i \<in> set (take 20 fs)"
      by (metis length_take min.commute nth_mem nth_take min_less_iff_conj)
    then have "member_line (fs ! i) \<in> set (map member_line (take 20 fs))" by simp
    from join_contains [OF this] obtain a b where
      j: "join [10, 10] (map member_line (take 20 fs)) = a @ member_line (fs ! i) @ b" by blast
    from pv obtain a' b' where "?first = a' @ join [10, 10] (map member_line (take 20 fs)) @ b'"
      by blast
    from part_of_part [OF this j] obtain a2 b2 where "?first = a2 @ member_line (fs ! i) @ b2"
      by blast
    from link_in_text [OF this]
    have "\<exists>a b. ?first =
             a @ [96, 96] @ escapeMarkdownV2 (fileApiUrl (fid (fs ! i))) @ [96, 96] @ b" .
    moreover from i have "fs ! i \<in> set fs" by simp
    note in_chunk [OF this]
    ultimately show ?thesis using j by blast
  qed
  from tr pv ln cc link in_chunk first show ?thesis by blast
qed

theorem handleFolder_links_twice_witness:
  "list_result (w_listing three_files) (length (trace s_init)) =
      Inr \<lparr>l_ok = True, l_status = 200, l_body = Inr (Some three_files)\<rparr>
   \<and> l_ok \<lparr>l_ok = True, l_status = 200, l_body = Inr (Some three_files)\<rparr>
   \<and> l_body \<lparr>l_ok = True, l_status = 200, l_body = Inr (Some three_files)\<rparr> = Inr (Some three_files)
   \<and> three_files \<noteq> []
   \<and> js_gt (totalBytes three_files) (Fin 1000)
   \<and> (\<forall>n. send_result (w_listing three_files) n = None)
   \<and> (2::nat) < min 20 (length three_files)
   \<and> fid (three_files ! 2) = u ''c3''
   \<and> (\<exists>a b. msg_folder_too_large (length three_files) (totalBytes three_files)
               (join [10, 10] (map member_line (take 20 three_files)))
             = a @ [96, 96] @ escapeMarkdownV2 (fileApiUrl (u ''c3'')) @ [96, 96] @ b)
   \<and> (\<exists>ch \<in> set (chunks (map member_line three_files) [] 0).
         \<exists>a b. join [10, 10] ch = a @ [96, 96] @ escapeMarkdownV2 (fileApiUrl (u ''c3'')) @ [96, 96] @ b)
   \<and> trace (snd (handleFolder (w_listing three_files) (u ''T'') (u ''42'') (u ''F1'') (Fin 1000) s_init)) =
        trace s_init @ FetchList (folderApiUrl (u ''F1''))
          # TgSend (u ''T'') (u ''42'') (msg_folder_too_large (length three_files) (totalBytes three_files)
               (join [10, 10] (map member_line (take 20 three_files))))
          # map (\<lambda>ch. TgSend (u ''T'') (u ''42'') (join [10, 10] ch))
               (chunks (map member_line three_files) [] 0)"
proof -
  let ?r = "\<lparr>l_ok = True, l_status = 200, l_body = Inr (Some three_files)\<rparr>"
  have a: "list_result (w_listing three_files) (length (trace s_init)) = Inr ?r" by (rule list_three)
  have b: "l_ok ?r" by simp
  have c: "l_body ?r = Inr (Some three_files)" by simp
  have d: "three_files \<noteq> []" by (simp add: three_files_def)
  have e: "js_gt (totalBytes three_files) (Fin 1000)"
    by (simp add: total_three)
  note f = w_listing_sends [of three_files]
  have g: "(2::nat) < min 20 (length three_files)" by (simp add: three_files_def)
  have h: "fid (three_files ! 2) = u ''c3''" by (simp add: three_files_def)
  note t = handleFolder_links_twice [OF a b c d e f, of "u ''T''" "u ''42''" "u ''F1''"]
  from t g have "(\<exists>a b. msg_folder_too_large (length three_files) (totalBytes three_files)
               (join [10, 10] (map member_line (take 20 three_files)))
             = a @ [96, 96] @ escapeMarkdownV2 (fileApiUrl (fid (three_files ! 2))) @ [96, 96] @ b)
   \<and> (\<exists>ch \<in> set (chunks (map member_line three_files) [] 0).
         \<exists>a b. join [10, 10] ch =
           a @ [96, 96] @ escapeMarkdownV2 (fileApiUrl (fid (three_files ! 2))) @ [96, 96] @ b)"
    by blast
  then have "(\<exists>a b. msg_folder_too_large (length three_files) (totalBytes three_files)
               (join [10, 10] (map member_line (take 20 three_files)))
             = a @ [96, 96] @ escapeMarkdownV2 (fileApiUrl (u ''c3'')) @ [96, 96] @ b)
   \<and> (\<exists>ch \<in> set (chunks (map member_line three_files) [] 0).
         \<exists>a b. join [10, 10] ch = a @ [96, 96] @ escapeMarkdownV2 (fileApiUrl (u ''c3'')) @ [96, 96] @ b)"
    by (simp only: h)
  moreover from t have "trace (snd (handleFolder (w_listing three_files) (u ''T'') (u ''42'') (u ''F1'') (Fin 1000) s_init)) =
        trace s_init @ FetchList (folderApiUrl (u ''F1''))
          # TgSend (u ''T'') (u ''42'') (msg_folder_too_large (length three_files) (totalBytes three_files)
               (join [10, 10] (map member_line (take 20 three_files))))
          # map (\<lambda>ch. TgSend (u ''T'') (u ''42'') (join [10, 10] ch))
               (chunks (map member_line three_files) [] 0)"
    by blast
  ultimately show ?thesis using a b c d e f g h by blast
qed

subsection \<open>C5: an archive that comes out over the budget\<close>

text \<open>
  Claim C5 says that an archive larger than \<open>maxBytes\<close> is discarded and not uploaded,
  and that one link notification per member is sent in the order of the listing. The
  lemma \<open>stage_folder_zip_too_large\<close> above gives the calls of that path for every
  folder: after the archive is made, a notice and then one notification per member, in
  order, and no \<open>curl\<close>. It also gives what is left: the staging directory is removed,
  the archive is not. The script writes the archive beside the staging directory, not
  in it, and removes it only after a successful upload (line 180). Here is the run for a
  folder of one file of 600 bytes whose archive has 1200 bytes, with a budget of 1000:
  \<open>handleFolder\<close> returns normally, and \<open>/tmp/pixeldrain-folder-F1.zip\<close> is still
  there with its 1200 bytes.
\<close>

theorem archive_too_large_left_on_disk:
  "fst (handleFolder w_zip_big (u ''T'') (u ''42'') (u ''F1'') (Fin 1000) s_init) = Val ()
   \<and> trace (snd (handleFolder w_zip_big (u ''T'') (u ''42'') (u ''F1'') (Fin 1000) s_init)) =
       [FetchList (folderApiUrl (u ''F1'')), Mkdtemp (u ''/tmp/pixeldrain-''),
        TgSend (u ''T'') (u ''42'') (msg_downloading_folder 1),
        member_download (u ''/tmp/pixeldrain-'' @ u ''AbCdEf'') (hd one_file),
        zip_call w_zip_big (u ''F1'') (u ''/tmp/pixeldrain-'' @ u ''AbCdEf''),
        TgSend (u ''T'') (u ''42'') (msg_zip_too_large 1200),
        TgSend (u ''T'') (u ''42'') (member_link (hd one_file))]
   \<and> u ''/tmp/pixeldrain-'' @ u ''AbCdEf''
        \<notin> set (dirs (snd (handleFolder w_zip_big (u ''T'') (u ''42'') (u ''F1'') (Fin 1000) s_init)))
   \<and> map_of (files (snd (handleFolder w_zip_big (u ''T'') (u ''42'') (u ''F1'') (Fin 1000) s_init)))
        (u ''/tmp/pixeldrain-folder-F1.zip'') = Some 1200"
proof -
  let ?s = "emit (FetchList (folderApiUrl (u ''F1''))) s_init"
  note w = one_file_world [OF w_zip_big_def]
  have hf: "handleFolder w_zip_big (u ''T'') (u ''42'') (u ''F1'') (Fin 1000) s_init =
      stage_folder w_zip_big (u ''T'') (u ''42'') (u ''F1'') (Fin 1000) one_file ?s"
    by (rule handleFolder_stage [OF w(1)]) (simp_all add: total_one, simp add: one_file_def)
  have len: "length (trace ?s) = 1" "length one_file = 1"
    by (simp_all add: trace_emit s_init_def one_file_def)
  have mk: "mkdtemp_result w_zip_big (length (trace ?s)) = Inr (u ''AbCdEf'')" by (rule w(2))
  have tools: "\<forall>n \<le> length (trace ?s) + 2 + length one_file.
        sp_error (spawn_result w_zip_big n) = None \<and> sp_status (spawn_result w_zip_big n) = Some 0"
    by (simp add: w(5))
  have zw: "sp_wrote (spawn_result w_zip_big (length (trace ?s) + 2 + length one_file)) = Some 1200"
    by (simp add: w(5) len)
  have big: "js_gt (of_int_num (int 1200)) (Fin 1000)" by (simp add: of_int_num_numeral)
  note r = stage_folder_zip_too_large [OF mk w(3) tools zw big, where token = "u ''T''"
      and chat_id = "u ''42''" and folderId = "u ''F1''", folded hf,
      unfolded tmp_prefix_tmp [OF w(4)] zip_path_tmp [OF w(4)]]
  have "trace (snd (handleFolder w_zip_big (u ''T'') (u ''42'') (u ''F1'') (Fin 1000) s_init)) =
       [FetchList (folderApiUrl (u ''F1'')), Mkdtemp (u ''/tmp/pixeldrain-''),
        TgSend (u ''T'') (u ''42'') (msg_downloading_folder 1),
        member_download (u ''/tmp/pixeldrain-'' @ u ''AbCdEf'') (hd one_file),
        zip_call w_zip_big (u ''F1'') (u ''/tmp/pixeldrain-'' @ u ''AbCdEf''),
        TgSend (u ''T'') (u ''42'') (msg_zip_too_large 1200),
        TgSend (u ''T'') (u ''42'') (member_link (hd one_file))]"
    unfolding r(2) by (simp add: trace_emit s_init_def one_file_def)
  with r(1) r(3) r(4) [OF zip_not_below] show ?thesis by blast
qed

subsection \<open>C6: what is left after a run\<close>

text \<open>
  Claim C6 says that the staging directory, the downloaded files and the archive are
  all removed at the end of a run, on the success path and on every failure path. The
  staging directory and what is in it are (\<open>stage_folder_upload_fails\<close>,
  \<open>stage_folder_zip_too_large\<close>, and for a single file \<open>stage_file_too_large_after\<close>);
  the archive is removed on the success path only. Here is the run for a folder of one
  file whose upload fails, \<open>curl\<close> ending with status 2: \<open>handleFolder\<close> throws, the
  staging directory is gone, and \<open>/tmp/pixeldrain-folder-F1.zip\<close> is still there.
\<close>

theorem failed_upload_leaves_archive:
  "fst (handleFolder w_curl_fails (u ''T'') (u ''42'') (u ''F1'') (Fin 1000) s_init) =
      Exc (JsError (u ''Error'') (u ''curl exited with '' @ int_text 2))
   \<and> trace (snd (handleFolder w_curl_fails (u ''T'') (u ''42'') (u ''F1'') (Fin 1000) s_init)) =
       [FetchList (folderApiUrl (u ''F1'')), Mkdtemp (u ''/tmp/pixeldrain-''),
        TgSend (u ''T'') (u ''42'') (msg_downloading_folder 1),
        member_download (u ''/tmp/pixeldrain-'' @ u ''AbCdEf'') (hd one_file),
        zip_call w_curl_fails (u ''F1'') (u ''/tmp/pixeldrain-'' @ u ''AbCdEf''),
        TgSend (u ''T'') (u ''42'') (msg_uploading_zip 600),
        curl_call (u ''42'') (u ''/tmp/pixeldrain-folder-F1.zip'') (u ''Pixeldrain folder '' @ u ''F1'')]
   \<and> u ''/tmp/pixeldrain-'' @ u ''AbCdEf''
        \<notin> set (dirs (snd (handleFolder w_curl_fails (u ''T'') (u ''42'') (u ''F1'') (Fin 1000) s_init)))
   \<and> map_of (files (snd (handleFolder w_curl_fails (u ''T'') (u ''42'') (u ''F1'') (Fin 1000) s_init)))
        (u ''/tmp/pixeldrain-folder-F1.zip'') = Some 600"
proof -
  let ?s = "emit (FetchList (folderApiUrl (u ''F1''))) s_init"
  note w = one_file_world [OF w_curl_fails_def]
  have hf: "handleFolder w_curl_fails (u ''T'') (u ''42'') (u ''F1'') (Fin 1000) s_init =
      stage_folder w_curl_fails (u ''T'') (u ''42'') (u ''F1'') (Fin 1000) one_file ?s"
    by (rule handleFolder_stage [OF w(1)]) (simp_all add: total_one, simp add: one_file_def)
  have len: "length (trace ?s) = 1" "length one_file = 1"
    by (simp_all add: trace_emit s_init_def one_file_def)
  have mk: "mkdtemp_result w_curl_fails (length (trace ?s)) = Inr (u ''AbCdEf'')" by (rule w(2))
  have tools: "\<forall>n \<le> length (trace ?s) + 2 + length one_file.
        sp_error (spawn_result w_curl_fails n) = None \<and> sp_status (spawn_result w_curl_fails n) = Some 0"
    by (simp add: w(5) len)
  have zw: "sp_wrote (spawn_result w_curl_fails (length (trace ?s) + 2 + length one_file)) = Some 600"
    by (simp add: w(5) len)
  have small: "\<not> js_gt (of_int_num (int 600)) (Fin 1000)" by (simp add: of_int_num_numeral)
  have curl: "sp_error (spawn_result w_curl_fails (length (trace ?s) + 4 + length one_file)) = None"
    "sp_status (spawn_result w_curl_fails (length (trace ?s) + 4 + length one_file)) = Some 2"
    "(2::int) \<noteq> 0"
    by (simp_all add: w(5) len)
  note r = stage_folder_upload_fails [OF mk w(3) tools zw small curl, where token = "u ''T''"
      and chat_id = "u ''42''" and folderId = "u ''F1''", folded hf,
      unfolded tmp_prefix_tmp [OF w(4)] zip_path_tmp [OF w(4)]]
  have "trace (snd (handleFolder w_curl_fails (u ''T'') (u ''42'') (u ''F1'') (Fin 1000) s_init)) =
       [FetchList (folderApiUrl (u ''F1'')), Mkdtemp (u ''/tmp/pixeldrain-''),
        TgSend (u ''T'') (u ''42'') (msg_downloading_folder 1),
        member_download (u ''/tmp/pixeldrain-'' @ u ''AbCdEf'') (hd one_file),
        zip_call w_curl_fails (u ''F1'') (u ''/tmp/pixeldrain-'' @ u ''AbCdEf''),
        TgSend (u ''T'') (u ''42'') (msg_uploading_zip 600),
        curl_call (u ''42'') (u ''/tmp/pixeldrain-folder-F1.zip'') (u ''Pixeldrain folder '' @ u ''F1'')]"
    unfolding r(2) by (simp add: trace_emit s_init_def one_file_def)
  with r(1) r(3) r(4) [OF zip_not_below] show ?thesis by blast
qed

subsection \<open>C8: a link that matches neither pattern\<close>

text \<open>
  Claim C8, as the code has it. The script sends its start notification before it looks
  at the link. So: for every link that matches neither pattern, with the three
  required variables set, a run makes exactly two calls, both notifications: the start
  notification, and the error notification of the \<open>catch\<close> block; it ends with the exit
  code 1 and leaves the file system as it was. No probe, no listing request, no
  staging directory and no external tool. The error notified is
  \<open>No pixeldrain link found in PIXEL_LINK.\<close> when the start notification went through,
  and the error of the start notification when it threw.
\<close>

theorem main_unrecognized_link:
  assumes "\<not> missing (PIXEL_LINK e)" "\<not> missing (TELEGRAM_BOT_TOKEN e)" "\<not> missing (TELEGRAM_CHAT_ID e)"
    and "PIXEL_FILE_RE (the (PIXEL_LINK e)) = None" and "PIXEL_FOLDER_RE (the (PIXEL_LINK e)) = None"
  shows "exit_code (main e w s) = 1
       \<and> trace (final (main e w s)) = trace s @
            [TgSend (the (TELEGRAM_BOT_TOKEN e)) (the (TELEGRAM_CHAT_ID e)) msg_start,
             TgSend (the (TELEGRAM_BOT_TOKEN e)) (the (TELEGRAM_CHAT_ID e))
               (msg_error (case send_result w (length (trace s)) of
                             None \<Rightarrow> no_link_error | Some err \<Rightarrow> err))]
       \<and> files (final (main e w s)) = files s \<and> dirs (final (main e w s)) = dirs s"
  by (simp add: run_unrecognized [OF assms])

theorem main_unrecognized_link_witness:
  "\<not> missing (PIXEL_LINK e_hello) \<and> \<not> missing (TELEGRAM_BOT_TOKEN e_hello)
   \<and> \<not> missing (TELEGRAM_CHAT_ID e_hello)
   \<and> PIXEL_FILE_RE (the (PIXEL_LINK e_hello)) = None
   \<and> PIXEL_FOLDER_RE (the (PIXEL_LINK e_hello)) = None
   \<and> exit_code (main e_hello (w_quiet\<lparr>send_result := \<lambda>_. Some URIError\<rparr>) s_init) = 1
   \<and> trace (final (main e_hello (w_quiet\<lparr>send_result := \<lambda>_. Some URIError\<rparr>) s_init)) =
        [TgSend (u ''T'') (u ''42'') msg_start, TgSend (u ''T'') (u ''42'') (msg_error URIError)]"
proof -
  have a: "PIXEL_FILE_RE (the (PIXEL_LINK e_hello)) = None"
    by (simp add: e_hello_fields hello_no_file)
  have b: "PIXEL_FOLDER_RE (the (PIXEL_LINK e_hello)) = None"
    by (simp add: e_hello_fields hello_no_folder)
  from main_unrecognized_link [OF e_hello_fields(1-3) a b,
      of "w_quiet\<lparr>send_result := \<lambda>_. Some URIError\<rparr>" s_init]
  have "exit_code (main e_hello (w_quiet\<lparr>send_result := \<lambda>_. Some URIError\<rparr>) s_init) = 1
   \<and> trace (final (main e_hello (w_quiet\<lparr>send_result := \<lambda>_. Some URIError\<rparr>) s_init)) =
        [TgSend (u ''T'') (u ''42'') msg_start, TgSend (u ''T'') (u ''42'') (msg_error URIError)]"
    by (simp add: e_hello_fields s_init_def)
  with e_hello_fields(1-3) a b show ?thesis by blast
qed

text \<open>
  The claim as stated, no network call before the classification fails, does not hold:
  for the link \<open>hello\<close> the trace has the start notification, a network call, before
  the notification of the error.
\<close>

theorem main_unrecognized_link_counterexample:
  "PIXEL_FILE_RE (u ''hello'') = None \<and> PIXEL_FOLDER_RE (u ''hello'') = None
   \<and> PIXEL_LINK e_hello = Some (u ''hello'')
   \<and> exit_code (main e_hello w_quiet s_init) = 1
   \<and> trace (final (main e_hello w_quiet s_init)) =
        [TgSend (u ''T'') (u ''42'') msg_start, TgSend (u ''T'') (u ''42'') (msg_error no_link_error)]"
proof -
  have a: "PIXEL_FILE_RE (the (PIXEL_LINK e_hello)) = None"
    by (simp add: e_hello_fields hello_no_file)
  have b: "PIXEL_FOLDER_RE (the (PIXEL_LINK e_hello)) = None"
    by (simp add: e_hello_fields hello_no_folder)
  have "send_result w_quiet (length (trace s_init)) = None" by (simp add: w_quiet_def)
  with run_unrecognized [OF e_hello_fields(1-3) a b, of w_quiet s_init]
  have "exit_code (main e_hello w_quiet s_init) = 1
   \<and> trace (final (main e_hello w_quiet s_init)) =
        [TgSend (u ''T'') (u ''42'') msg_start, TgSend (u ''T'') (u ''42'') (msg_error no_link_error)]"
    by (simp add: e_hello_fields s_init_def)
  moreover have "PIXEL_LINK e_hello = Some (u ''hello'')" by (simp add: e_hello_def)
  ultimately show ?thesis using hello_no_file hello_no_folder by blast
qed

subsection \<open>C1: the exit code\<close>

text \<open>
  Claim C1, as the code has it. The exit code is 1 when the \<open>try\<close> block throws and 0
  when it returns. It is 1 when a required variable is missing, when the link matches
  neither pattern, and whenever a call made during the run failed: a notification, the
  listing request or the JSON body of its answer, the staging directory, a download,
  the archive or the upload (a failed probe is not an error). A listing answered with a
  status that is not a success, or with no files, is not fatal: it is notified and the
  run ends with the exit code 0, like a link fallback. When the exit code is 1 and both
  credentials are set, the last call of the run is one notification of the error,
  made after the \<open>try\<close> block has ended, and the final state is the same whatever
  that notification does; when a credential is missing the run makes no call at all.
  And the exit code is 0 for a file link and for a folder link whenever no call of the
  run fails (\<open>calls_succeed\<close>) and the probe or the listing yields a result, whichever
  way the run goes: an upload, or a link fallback before or after the download or the
  archive. For the two fallbacks decided before anything is downloaded the calls are
  given too: the probe and the one fallback notification for a file, the listing
  request, the summary and the chunks of links for a folder.
\<close>

theorem main_exit_code:
  "exit_code (main e w s) = (case fst (main_body e w s) of Val x \<Rightarrow> 0 | Exc err \<Rightarrow> 1)
   \<and> (missing (PIXEL_LINK e) \<or> missing (TELEGRAM_BOT_TOKEN e) \<or> missing (TELEGRAM_CHAT_ID e) \<longrightarrow>
        exit_code (main e w s) = 1)
   \<and> (PIXEL_FILE_RE (the (PIXEL_LINK e)) = None \<and> PIXEL_FOLDER_RE (the (PIXEL_LINK e)) = None \<longrightarrow>
        exit_code (main e w s) = 1)
   \<and> (\<forall>n. length (trace s) \<le> n \<and> n < length (trace (final (main e w s)))
          \<and> failed w n (trace (final (main e w s)) ! n) \<longrightarrow> exit_code (main e w s) = 1)
   \<and> (exit_code (main e w s) = 1
        \<and> \<not> missing (TELEGRAM_BOT_TOKEN e) \<and> \<not> missing (TELEGRAM_CHAT_ID e) \<longrightarrow>
        (\<exists>err s'. main_body e w s = (Exc err, s')
           \<and> final (main e w s) =
               emit (TgSend (the (TELEGRAM_BOT_TOKEN e)) (the (TELEGRAM_CHAT_ID e)) (msg_error err)) s'))
   \<and> (missing (TELEGRAM_BOT_TOKEN e) \<or> missing (TELEGRAM_CHAT_ID e) \<longrightarrow>
        final (main e w s) = s)
   \<and> (\<not> missing (PIXEL_LINK e) \<and> \<not> missing (TELEGRAM_BOT_TOKEN e) \<and> \<not> missing (TELEGRAM_CHAT_ID e)
        \<and> PIXEL_FILE_RE (the (PIXEL_LINK e)) = None
        \<and> PIXEL_FOLDER_RE (the (PIXEL_LINK e)) = Some folderId
        \<and> (\<forall>n. send_result w n = None)
        \<and> list_result w (length (trace s) + 1) = Inr resp
        \<and> (\<not> l_ok resp \<or> l_body resp = Inr None \<or> l_body resp = Inr (Some [])) \<longrightarrow>
        exit_code (main e w s) = 0
        \<and> trace (final (main e w s)) = trace s @
            [TgSend (the (TELEGRAM_BOT_TOKEN e)) (the (TELEGRAM_CHAT_ID e)) msg_start,
             FetchList (folderApiUrl folderId),
             TgSend (the (TELEGRAM_BOT_TOKEN e)) (the (TELEGRAM_CHAT_ID e))
               (if \<not> l_ok resp then msg_http_error folderId (l_status resp) else msg_empty_folder)])
   \<and> (\<not> missing (PIXEL_LINK e) \<and> \<not> missing (TELEGRAM_BOT_TOKEN e) \<and> \<not> missing (TELEGRAM_CHAT_ID e)
        \<and> PIXEL_FILE_RE (the (PIXEL_LINK e)) = Some fileId
        \<and> calls_succeed w
        \<and> probe fileId (head_result w (length (trace s) + 1)) = Inr (filename, size') \<longrightarrow>
        exit_code (main e w s) = 0
        \<and> (too_large size' (max_bytes e) \<longrightarrow>
             trace (final (main e w s)) = trace s @
               [TgSend (the (TELEGRAM_BOT_TOKEN e)) (the (TELEGRAM_CHAT_ID e)) msg_start,
                Head (fileApiUrl fileId),
                TgSend (the (TELEGRAM_BOT_TOKEN e)) (the (TELEGRAM_CHAT_ID e))
                  (msg_file_too_large filename (the size') (fileApiUrl fileId))]))
   \<and> (\<not> missing (PIXEL_LINK e) \<and> \<not> missing (TELEGRAM_BOT_TOKEN e) \<and> \<not> missing (TELEGRAM_CHAT_ID e)
        \<and> PIXEL_FILE_RE (the (PIXEL_LINK e)) = None
        \<and> PIXEL_FOLDER_RE (the (PIXEL_LINK e)) = Some folderId
        \<and> calls_succeed w
        \<and> list_result w (length (trace s) + 1) = Inr resp
        \<and> (l_ok resp \<longrightarrow> \<not> isl (l_body resp)) \<longrightarrow>
        exit_code (main e w s) = 0
        \<and> (\<forall>fs. l_ok resp \<and> l_body resp = Inr (Some fs) \<and> fs \<noteq> []
               \<and> js_gt (totalBytes fs) (max_bytes e) \<longrightarrow>
             trace (final (main e w s)) = trace s @
               TgSend (the (TELEGRAM_BOT_TOKEN e)) (the (TELEGRAM_CHAT_ID e)) msg_start
               # FetchList (folderApiUrl folderId)
               # TgSend (the (TELEGRAM_BOT_TOKEN e)) (the (TELEGRAM_CHAT_ID e))
                   (msg_folder_too_large (length fs) (totalBytes fs)
                      (join [10, 10] (take 20 (map member_line fs))))
               # map (\<lambda>ch. TgSend (the (TELEGRAM_BOT_TOKEN e)) (the (TELEGRAM_CHAT_ID e))
                             (join [10, 10] ch))
                   (chunks (map member_line fs) [] 0)))"
proof (intro conjI impI allI)
  show "exit_code (main e w s) = (case fst (main_body e w s) of Val x \<Rightarrow> 0 | Exc err \<Rightarrow> 1)"
    using main_cases [of e w s] by auto
next
  assume "missing (PIXEL_LINK e) \<or> missing (TELEGRAM_BOT_TOKEN e) \<or> missing (TELEGRAM_CHAT_ID e)"
  from main_body_unconfigured [OF this, of w s] main_cases [of e w s]
  show "exit_code (main e w s) = 1" by auto
next
  assume a: "PIXEL_FILE_RE (the (PIXEL_LINK e)) = None \<and> PIXEL_FOLDER_RE (the (PIXEL_LINK e)) = None"
  show "exit_code (main e w s) = 1"
  proof (cases "missing (PIXEL_LINK e) \<or> missing (TELEGRAM_BOT_TOKEN e) \<or> missing (TELEGRAM_CHAT_ID e)")
    case True
    from main_body_unconfigured [OF this, of w s] main_cases [of e w s]
    show ?thesis by auto
  next
    case False
    then show ?thesis using a by (simp add: run_unrecognized)
  qed
next
  fix n
  assume a: "length (trace s) \<le> n \<and> n < length (trace (final (main e w s)))
          \<and> failed w n (trace (final (main e w s)) ! n)"
  show "exit_code (main e w s) = 1"
  proof (rule ccontr)
    assume "exit_code (main e w s) \<noteq> 1"
    with main_cases [of e w s] have "exit_code (main e w s) = 0" by auto
    from main_ok_calls [OF this] a show False unfolding ok_from_def by blast
  qed
next
  assume "exit_code (main e w s) = 1
        \<and> \<not> missing (TELEGRAM_BOT_TOKEN e) \<and> \<not> missing (TELEGRAM_CHAT_ID e)"
  with main_cases [of e w s]
  show "\<exists>err s'. main_body e w s = (Exc err, s')
           \<and> final (main e w s) =
               emit (TgSend (the (TELEGRAM_BOT_TOKEN e)) (the (TELEGRAM_CHAT_ID e)) (msg_error err)) s'"
    by auto
next
  assume a: "missing (TELEGRAM_BOT_TOKEN e) \<or> missing (TELEGRAM_CHAT_ID e)"
  then have "missing (PIXEL_LINK e) \<or> missing (TELEGRAM_BOT_TOKEN e) \<or> missing (TELEGRAM_CHAT_ID e)"
    by blast
  from main_body_unconfigured [OF this, of w s] main_cases [of e w s] a
  show "final (main e w s) = s" by auto
next
  assume a: "\<not> missing (PIXEL_LINK e) \<and> \<not> missing (TELEGRAM_BOT_TOKEN e) \<and> \<not> missing (TELEGRAM_CHAT_ID e)
        \<and> PIXEL_FILE_RE (the (PIXEL_LINK e)) = None
        \<and> PIXEL_FOLDER_RE (the (PIXEL_LINK e)) = Some folderId
        \<and> (\<forall>n. send_result w n = None)
        \<and> list_result w (length (trace s) + 1) = Inr resp
        \<and> (\<not> l_ok resp \<or> l_body resp = Inr None \<or> l_body resp = Inr (Some []))"
  then have m: "main e w s = \<lparr>exit_code = 0, final = s\<lparr>trace := trace s @
        [TgSend (the (TELEGRAM_BOT_TOKEN e)) (the (TELEGRAM_CHAT_ID e)) msg_start,
         FetchList (folderApiUrl folderId),
         TgSend (the (TELEGRAM_BOT_TOKEN e)) (the (TELEGRAM_CHAT_ID e))
           (if \<not> l_ok resp then msg_http_error folderId (l_status resp) else msg_empty_folder)]\<rparr>\<rparr>"
    by (intro main_folder_not_fatal) blast+
  show "exit_code (main e w s) = 0" by (simp add: m)
  show "trace (final (main e w s)) = trace s @
            [TgSend (the (TELEGRAM_BOT_TOKEN e)) (the (TELEGRAM_CHAT_ID e)) msg_start,
             FetchList (folderApiUrl folderId),
             TgSend (the (TELEGRAM_BOT_TOKEN e)) (the (TELEGRAM_CHAT_ID e))
               (if \<not> l_ok resp then msg_http_error folderId (l_status resp) else msg_empty_folder)]"
    by (simp add: m)
next
  assume a: "\<not> missing (PIXEL_LINK e) \<and> \<not> missing (TELEGRAM_BOT_TOKEN e) \<and> \<not> missing (TELEGRAM_CHAT_ID e)
        \<and> PIXEL_FILE_RE (the (PIXEL_LINK e)) = Some fileId
        \<and> calls_succeed w
        \<and> probe fileId (head_result w (length (trace s) + 1)) = Inr (filename, size')"
  then have cfg: "\<not> missing (PIXEL_LINK e)" "\<not> missing (TELEGRAM_BOT_TOKEN e)"
      "\<not> missing (TELEGRAM_CHAT_ID e)"
    and fl: "PIXEL_FILE_RE (the (PIXEL_LINK e)) = Some fileId"
    and ok: "calls_succeed w"
    and pr: "probe fileId (head_result w (length (trace s) + 1)) = Inr (filename, size')"
    by simp_all
  show "exit_code (main e w s) = 0"
    by (rule main_file_ok(1) [OF cfg fl ok pr])
  assume "too_large size' (max_bytes e)"
  then show "trace (final (main e w s)) = trace s @
               [TgSend (the (TELEGRAM_BOT_TOKEN e)) (the (TELEGRAM_CHAT_ID e)) msg_start,
                Head (fileApiUrl fileId),
                TgSend (the (TELEGRAM_BOT_TOKEN e)) (the (TELEGRAM_CHAT_ID e))
                  (msg_file_too_large filename (the size') (fileApiUrl fileId))]"
    by (rule main_file_ok(2) [OF cfg fl ok pr])
next
  assume a: "\<not> missing (PIXEL_LINK e) \<and> \<not> missing (TELEGRAM_BOT_TOKEN e) \<and> \<not> missing (TELEGRAM_CHAT_ID e)
        \<and> PIXEL_FILE_RE (the (PIXEL_LINK e)) = None
        \<and> PIXEL_FOLDER_RE (the (PIXEL_LINK e)) = Some folderId
        \<and> calls_succeed w
        \<and> list_result w (length (trace s) + 1) = Inr resp
        \<and> (l_ok resp \<longrightarrow> \<not> isl (l_body resp))"
  then have cfg: "\<not> missing (PIXEL_LINK e)" "\<not> missing (TELEGRAM_BOT_TOKEN e)"
      "\<not> missing (TELEGRAM_CHAT_ID e)"
    and nf: "PIXEL_FILE_RE (the (PIXEL_LINK e)) = None"
    and fo: "PIXEL_FOLDER_RE (the (PIXEL_LINK e)) = Some folderId"
    and ok: "calls_succeed w"
    and lr: "list_result w (length (trace s) + 1) = Inr resp"
    and body: "l_ok resp \<longrightarrow> \<not> isl (l_body resp)"
    by simp_all
  show "exit_code (main e w s) = 0"
    by (rule main_folder_ok(1) [OF cfg nf fo ok lr body])
  fix fs
  assume "l_ok resp \<and> l_body resp = Inr (Some fs) \<and> fs \<noteq> [] \<and> js_gt (totalBytes fs) (max_bytes e)"
  then have b: "l_ok resp" "l_body resp = Inr (Some fs)" "fs \<noteq> []"
      "js_gt (totalBytes fs) (max_bytes e)"
    by simp_all
  show "trace (final (main e w s)) = trace s @
               TgSend (the (TELEGRAM_BOT_TOKEN e)) (the (TELEGRAM_CHAT_ID e)) msg_start
               # FetchList (folderApiUrl folderId)
               # TgSend (the (TELEGRAM_BOT_TOKEN e)) (the (TELEGRAM_CHAT_ID e))
                   (msg_folder_too_large (length fs) (totalBytes fs)
                      (join [10, 10] (take 20 (map member_line fs))))
               # map (\<lambda>ch. TgSend (the (TELEGRAM_BOT_TOKEN e)) (the (TELEGRAM_CHAT_ID e))
                             (join [10, 10] ch))
                   (chunks (map member_line fs) [] 0)"
    by (rule main_folder_ok(2) [OF cfg nf fo ok lr body b])
qed

text \<open>
  The claim as stated fails in two places. A folder whose listing is answered with the
  status 404 is a folder-fetch failure, and the run ends with the exit code 0. And a
  run without the bot token ends with the exit code 1 and attempts no notification.
\<close>

theorem main_exit_code_counterexample:
  "PIXEL_FOLDER_RE (the (PIXEL_LINK e_folder)) = Some (u ''F1'')
   \<and> list_result w_404 1 = Inr \<lparr>l_ok = False, l_status = 404, l_body = Inr None\<rparr>
   \<and> exit_code (main e_folder w_404 s_init) = 0
   \<and> trace (final (main e_folder w_404 s_init)) =
       [TgSend (u ''T'') (u ''42'') msg_start, FetchList (folderApiUrl (u ''F1'')),
        TgSend (u ''T'') (u ''42'') (msg_http_error (u ''F1'') 404)]
   \<and> TELEGRAM_BOT_TOKEN e_no_token = None
   \<and> exit_code (main e_no_token w_quiet s_init) = 1
   \<and> trace (final (main e_no_token w_quiet s_init)) = []"
  by (simp add: folder_404_run no_token_run e_folder_fields folder_link_folder w_404_facts)
     (simp add: s_init_def e_no_token_def)

theorem main_exit_code_witness:
  "missing (TELEGRAM_BOT_TOKEN e_no_token)
   \<and> exit_code (main e_no_token w_quiet s_init) = 1
   \<and> final (main e_no_token w_quiet s_init) = s_init
   \<and> PIXEL_FILE_RE (the (PIXEL_LINK e_hello)) = None
   \<and> PIXEL_FOLDER_RE (the (PIXEL_LINK e_hello)) = None
   \<and> exit_code (main e_hello w_quiet s_init) = 1
   \<and> length (trace s_init) \<le> 0
   \<and> 0 < length (trace (final (main e_hello w_mute s_init)))
   \<and> failed w_mute 0 (trace (final (main e_hello w_mute s_init)) ! 0)
   \<and> exit_code (main e_hello w_mute s_init) = 1
   \<and> \<not> missing (TELEGRAM_BOT_TOKEN e_hello) \<and> \<not> missing (TELEGRAM_CHAT_ID e_hello)
   \<and> (\<exists>err s'. main_body e_hello w_mute s_init = (Exc err, s')
         \<and> final (main e_hello w_mute s_init) =
             emit (TgSend (the (TELEGRAM_BOT_TOKEN e_hello)) (the (TELEGRAM_CHAT_ID e_hello))
                     (msg_error err)) s')
   \<and> \<not> missing (PIXEL_LINK e_folder) \<and> \<not> missing (TELEGRAM_BOT_TOKEN e_folder)
   \<and> \<not> missing (TELEGRAM_CHAT_ID e_folder)
   \<and> PIXEL_FILE_RE (the (PIXEL_LINK e_folder)) = None
   \<and> PIXEL_FOLDER_RE (the (PIXEL_LINK e_folder)) = Some (u ''F1'')
   \<and> (\<forall>n. send_result w_404 n = None)
   \<and> list_result w_404 (length (trace s_init) + 1) =
        Inr \<lparr>l_ok = False, l_status = 404, l_body = Inr None\<rparr>
   \<and> \<not> l_ok \<lparr>l_ok = False, l_status = 404, l_body = Inr None\<rparr>
   \<and> exit_code (main e_folder w_404 s_init) = 0
   \<and> PIXEL_FILE_RE (the (PIXEL_LINK e_file)) = Some (u ''abc'')
   \<and> calls_succeed w_big
   \<and> probe (u ''abc'') (head_result w_big (length (trace s_init) + 1)) =
        Inr (u ''report.pdf'', Some (Fin 5000))
   \<and> \<not> too_large (Some (Fin 5000)) (max_bytes e_file)
   \<and> exit_code (main e_file w_big s_init) = 0
   \<and> too_large (Some (Fin 5000)) (max_bytes e_file_1000)
   \<and> exit_code (main e_file_1000 w_big s_init) = 0
   \<and> trace (final (main e_file_1000 w_big s_init)) =
        [TgSend (u ''T'') (u ''42'') msg_start, Head (fileApiUrl (u ''abc'')),
         TgSend (u ''T'') (u ''42'')
           (msg_file_too_large (u ''report.pdf'') (Fin 5000) (fileApiUrl (u ''abc'')))]
   \<and> calls_succeed (w_listing three_files)
   \<and> js_gt (totalBytes three_files) (max_bytes e_folder_1000)
   \<and> exit_code (main e_folder_1000 (w_listing three_files) s_init) = 0
   \<and> trace (final (main e_folder_1000 (w_listing three_files) s_init)) =
        TgSend (u ''T'') (u ''42'') msg_start # FetchList (folderApiUrl (u ''F1''))
        # TgSend (u ''T'') (u ''42'')
            (msg_folder_too_large (length three_files) (totalBytes three_files)
               (join [10, 10] (take 20 (map member_line three_files))))
        # map (\<lambda>ch. TgSend (u ''T'') (u ''42'') (join [10, 10] ch))
            (chunks (map member_line three_files) [] 0)"
proof -
  have a1: "missing (TELEGRAM_BOT_TOKEN e_no_token)"
    by (simp add: e_no_token_def missing_def)
  from main_exit_code [of e_no_token w_quiet s_init] a1
  have i1: "exit_code (main e_no_token w_quiet s_init) = 1
      \<and> final (main e_no_token w_quiet s_init) = s_init"
    by blast
  have a2: "PIXEL_FILE_RE (the (PIXEL_LINK e_hello)) = None"
    "PIXEL_FOLDER_RE (the (PIXEL_LINK e_hello)) = None"
    by (simp_all add: e_hello_fields hello_no_file hello_no_folder)
  from main_exit_code [of e_hello w_quiet s_init] a2
  have i2: "exit_code (main e_hello w_quiet s_init) = 1" by blast
  have a3: "length (trace s_init) \<le> 0 \<and> 0 < length (trace (final (main e_hello w_mute s_init)))
      \<and> failed w_mute 0 (trace (final (main e_hello w_mute s_init)) ! 0)"
    by (simp add: hello_run) (simp add: s_init_def w_mute_def)
  from main_exit_code [of e_hello w_mute s_init] a3
  have i3: "exit_code (main e_hello w_mute s_init) = 1" by blast
  from main_exit_code [of e_hello w_mute s_init] i3 e_hello_fields(2,3)
  have i4: "\<exists>err s'. main_body e_hello w_mute s_init = (Exc err, s')
         \<and> final (main e_hello w_mute s_init) =
             emit (TgSend (the (TELEGRAM_BOT_TOKEN e_hello)) (the (TELEGRAM_CHAT_ID e_hello))
                     (msg_error err)) s'"
    by blast
  have a5: "PIXEL_FILE_RE (the (PIXEL_LINK e_folder)) = None"
    "PIXEL_FOLDER_RE (the (PIXEL_LINK e_folder)) = Some (u ''F1'')"
    by (simp_all add: e_folder_fields folder_link_no_file folder_link_folder)
  have b5: "list_result w_404 (length (trace s_init) + 1) =
        Inr \<lparr>l_ok = False, l_status = 404, l_body = Inr None\<rparr>"
    by (rule w_404_facts(2))
  have c5: "\<not> l_ok \<lparr>l_ok = False, l_status = 404, l_body = Inr None\<rparr>" by simp
  from main_exit_code [of e_folder w_404 s_init "u ''F1''"
      "\<lparr>l_ok = False, l_status = 404, l_body = Inr None\<rparr>"]
    e_folder_fields(1-3) a5 w_404_facts(1) b5 c5
  have i5: "exit_code (main e_folder w_404 s_init) = 0" by blast
  have a6: "PIXEL_FILE_RE (the (PIXEL_LINK e_file)) = Some (u ''abc'')"
    "PIXEL_FILE_RE (the (PIXEL_LINK e_file_1000)) = Some (u ''abc'')"
    by (simp_all add: e_file_fields e_file_1000_fields file_link_file)
  have b6: "probe (u ''abc'') (head_result w_big (length (trace s_init) + 1)) =
        Inr (u ''report.pdf'', Some (Fin 5000))"
    by (simp add: w_big_def probe_h_big)
  have c6: "\<not> too_large (Some (Fin 5000)) (max_bytes e_file)"
    "too_large (Some (Fin 5000)) (max_bytes e_file_1000)"
    by (simp_all add: too_large_def e_file_fields e_file_1000_fields DEFAULT_MAX_BYTES_def)
  from main_exit_code [where e = e_file and w = w_big and s = s_init and fileId = "u ''abc''"
      and filename = "u ''report.pdf''" and size' = "Some (Fin 5000)"]
    e_file_fields(1-3) a6(1) w_big_succeeds b6
  have i6: "exit_code (main e_file w_big s_init) = 0" by blast
  from main_exit_code [where e = e_file_1000 and w = w_big and s = s_init and fileId = "u ''abc''"
      and filename = "u ''report.pdf''" and size' = "Some (Fin 5000)"]
    e_file_1000_fields(1-3) a6(2) w_big_succeeds b6 c6(2)
  have "exit_code (main e_file_1000 w_big s_init) = 0
      \<and> trace (final (main e_file_1000 w_big s_init)) = trace s_init @
          [TgSend (the (TELEGRAM_BOT_TOKEN e_file_1000)) (the (TELEGRAM_CHAT_ID e_file_1000)) msg_start,
           Head (fileApiUrl (u ''abc'')),
           TgSend (the (TELEGRAM_BOT_TOKEN e_file_1000)) (the (TELEGRAM_CHAT_ID e_file_1000))
             (msg_file_too_large (u ''report.pdf'') (the (Some (Fin 5000))) (fileApiUrl (u ''abc'')))]"
    by blast
  then have i7: "exit_code (main e_file_1000 w_big s_init) = 0
      \<and> trace (final (main e_file_1000 w_big s_init)) =
        [TgSend (u ''T'') (u ''42'') msg_start, Head (fileApiUrl (u ''abc'')),
         TgSend (u ''T'') (u ''42'')
           (msg_file_too_large (u ''report.pdf'') (Fin 5000) (fileApiUrl (u ''abc'')))]"
    by (simp add: e_file_1000_fields s_init_def)
  let ?r = "\<lparr>l_ok = True, l_status = 200, l_body = Inr (Some three_files)\<rparr>"
  have a8: "PIXEL_FILE_RE (the (PIXEL_LINK e_folder_1000)) = None"
    "PIXEL_FOLDER_RE (the (PIXEL_LINK e_folder_1000)) = Some (u ''F1'')"
    by (simp_all add: e_folder_1000_fields folder_link_no_file folder_link_folder)
  have b8: "list_result (w_listing three_files) (length (trace s_init) + 1) = Inr ?r"
    by (rule list_three)
  have c8: "l_ok ?r \<longrightarrow> \<not> isl (l_body ?r)" "l_ok ?r" "l_body ?r = Inr (Some three_files)"
    "three_files \<noteq> []"
    by (simp_all add: three_files_def)
  have d8: "js_gt (totalBytes three_files) (max_bytes e_folder_1000)"
    by (simp add: total_three e_folder_1000_fields)
  from main_exit_code [where e = e_folder_1000 and w = "w_listing three_files" and s = s_init
      and folderId = "u ''F1''" and resp = ?r]
    e_folder_1000_fields(1-3) a8 w_listing_succeeds [of three_files] b8 c8 d8
  have "exit_code (main e_folder_1000 (w_listing three_files) s_init) = 0
      \<and> trace (final (main e_folder_1000 (w_listing three_files) s_init)) = trace s_init @
          TgSend (the (TELEGRAM_BOT_TOKEN e_folder_1000)) (the (TELEGRAM_CHAT_ID e_folder_1000)) msg_start
          # FetchList (folderApiUrl (u ''F1''))
          # TgSend (the (TELEGRAM_BOT_TOKEN e_folder_1000)) (the (TELEGRAM_CHAT_ID e_folder_1000))
              (msg_folder_too_large (length three_files) (totalBytes three_files)
                 (join [10, 10] (take 20 (map member_line three_files))))
          # map (\<lambda>ch. TgSend (the (TELEGRAM_BOT_TOKEN e_folder_1000))
                        (the (TELEGRAM_CHAT_ID e_folder_1000)) (join [10, 10] ch))
              (chunks (map member_line three_files) [] 0)"
    by blast
  then have i8: "exit_code (main e_folder_1000 (w_listing three_files) s_init) = 0
      \<and> trace (final (main e_folder_1000 (w_listing three_files) s_init)) =
        TgSend (u ''T'') (u ''42'') msg_start # FetchList (folderApiUrl (u ''F1''))
        # TgSend (u ''T'') (u ''42'')
            (msg_folder_too_large (length three_files) (totalBytes three_files)
               (join [10, 10] (take 20 (map member_line three_files))))
        # map (\<lambda>ch. TgSend (u ''T'') (u ''42'') (join [10, 10] ch))
            (chunks (map member_line three_files) [] 0)"
    by (simp add: e_folder_1000_fields s_init_def)
  from a1 i1 a2 i2 a3 i3 i4 e_hello_fields(2,3) e_folder_fields(1-3) a5 w_404_facts(1) b5 c5 i5
  have first: "missing (TELEGRAM_BOT_TOKEN e_no_token)
   \<and> exit_code (main e_no_token w_quiet s_init) = 1
   \<and> final (main e_no_token w_quiet s_init) = s_init
   \<and> PIXEL_FILE_RE (the (PIXEL_LINK e_hello)) = None
   \<and> PIXEL_FOLDER_RE (the (PIXEL_LINK e_hello)) = None
   \<and> exit_code (main e_hello w_quiet s_init) = 1
   \<and> length (trace s_init) \<le> 0
   \<and> 0 < length (trace (final (main e_hello w_mute s_init)))
   \<and> failed w_mute 0 (trace (final (main e_hello w_mute s_init)) ! 0)
   \<and> exit_code (main e_hello w_mute s_init) = 1
   \<and> \<not> missing (TELEGRAM_BOT_TOKEN e_hello) \<and> \<not> missing (TELEGRAM_CHAT_ID e_hello)
   \<and> (\<exists>err s'. main_body e_hello w_mute s_init = (Exc err, s')
         \<and> final (main e_hello w_mute s_init) =
             emit (TgSend (the (TELEGRAM_BOT_TOKEN e_hello)) (the (TELEGRAM_CHAT_ID e_hello))
                     (msg_error err)) s')
   \<and> \<not> missing (PIXEL_LINK e_folder) \<and> \<not> missing (TELEGRAM_BOT_TOKEN e_folder)
   \<and> \<not> missing (TELEGRAM_CHAT_ID e_folder)
   \<and> PIXEL_FILE_RE (the (PIXEL_LINK e_folder)) = None
   \<and> PIXEL_FOLDER_RE (the (PIXEL_LINK e_folder)) = Some (u ''F1'')
   \<and> (\<forall>n. send_result w_404 n = None)
   \<and> list_result w_404 (length (trace s_init) + 1) =
        Inr \<lparr>l_ok = False, l_status = 404, l_body = Inr None\<rparr>
   \<and> \<not> l_ok \<lparr>l_ok = False, l_status = 404, l_body = Inr None\<rparr>
   \<and> exit_code (main e_folder w_404 s_init) = 0"
    by blast
  from a6(1) w_big_succeeds b6 c6 i6 i7 w_listing_succeeds [of three_files] d8 i8
  have second: "PIXEL_FILE_RE (the (PIXEL_LINK e_file)) = Some (u ''abc'')
   \<and> calls_succeed w_big
   \<and> probe (u ''abc'') (head_result w_big (length (trace s_init) + 1)) =
        Inr (u ''report.pdf'', Some (Fin 5000))
   \<and> \<not> too_large (Some (Fin 5000)) (max_bytes e_file)
   \<and> exit_code (main e_file w_big s_init) = 0
   \<and> too_large (Some (Fin 5000)) (max_bytes e_file_1000)
   \<and> exit_code (main e_file_1000 w_big s_init) = 0
   \<and> trace (final (main e_file_1000 w_big s_init)) =
        [TgSend (u ''T'') (u ''42'') msg_start, Head (fileApiUrl (u ''abc'')),
         TgSend (u ''T'') (u ''42'')
           (msg_file_too_large (u ''report.pdf'') (Fin 5000) (fileApiUrl (u ''abc'')))]
   \<and> calls_succeed (w_listing three_files)
   \<and> js_gt (totalBytes three_files) (max_bytes e_folder_1000)
   \<and> exit_code (main e_folder_1000 (w_listing three_files) s_init) = 0
   \<and> trace (final (main e_folder_1000 (w_listing three_files) s_init)) =
        TgSend (u ''T'') (u ''42'') msg_start # FetchList (folderApiUrl (u ''F1''))
        # TgSend (u ''T'') (u ''42'')
            (msg_folder_too_large (length three_files) (totalBytes three_files)
               (join [10, 10] (take 20 (map member_line three_files))))
        # map (\<lambda>ch. TgSend (u ''T'') (u ''42'') (join [10, 10] ch))
            (chunks (map member_line three_files) [] 0)"
    by simp
  from first second show ?thesis by (simp only: conj_assoc simp_thms)
qed

end
